theory Spec2Isabelle
  imports Complex_Main "HOL-Library.Char_ord"
begin

section \<open>The stateful instruction framer (web/src/components/rdp/PylonTunnel.ts)\<close>

text \<open>
  A JavaScript string is a sequence of UTF-16 code units; \<open>length\<close>, indexing and
  \<open>substring\<close> all count code units. The model uses \<^typ>\<open>string\<close>, one \<^typ>\<open>char\<close> per
  code unit: the parser only ever compares a unit with the ASCII characters
  \<open>0\<close>..\<open>9\<close>, \<open>.\<close>, \<open>,\<close> and \<open>;\<close>.

  \<open>parseInt(lengthStr, 10)\<close> is only called on a non-empty string of decimal digits. The
  model computes the exact natural number. JavaScript rounds a value above \<open>2^53\<close> to a
  double, but rounding is monotone and every buffer length is far below \<open>2^53\<close>, so the
  only use made of a rounded value, the test \<open>pos + len > buf.length\<close>, has the same
  outcome as with the exact number.
\<close>

definition isDigit :: "char \<Rightarrow> bool" where
  "isDigit c = (CHR ''0'' \<le> c \<and> c \<le> CHR ''9'')"

definition substring :: "string \<Rightarrow> nat \<Rightarrow> nat \<Rightarrow> string" where
  "substring s start end = take (end - start) (drop start s)"

definition digitValue :: "char \<Rightarrow> nat" where
  "digitValue c = of_char c - of_char CHR ''0''"

definition parseInt :: "string \<Rightarrow> nat" where
  "parseInt lengthStr = foldl (\<lambda>acc c. 10 * acc + digitValue c) 0 lengthStr"

text \<open>The inner \<open>while\<close> loop of \<open>tryParseOne\<close> that reads the length prefix.\<close>

function scanDigits :: "string \<Rightarrow> nat \<Rightarrow> string \<Rightarrow> string \<times> nat" where
  "scanDigits buf pos lengthStr =
     (if pos < length buf \<and> isDigit (buf ! pos)
      then scanDigits buf (pos + 1) (lengthStr @ [buf ! pos])
      else (lengthStr, pos))"
  by pat_completeness auto
termination
  by (relation "measure (\<lambda>(buf, pos, lengthStr). length buf - pos)") auto

declare scanDigits.simps [simp del]

lemma scanDigits_closed:
  "scanDigits buf pos acc =
     (acc @ takeWhile isDigit (drop pos buf), pos + length (takeWhile isDigit (drop pos buf)))"
proof (induction buf pos acc rule: scanDigits.induct)
  case (1 buf pos lengthStr)
  show ?case
  proof (cases "pos < length buf \<and> isDigit (buf ! pos)")
    case True
    then have d: "drop pos buf = buf ! pos # drop (Suc pos) buf"
      by (simp add: Cons_nth_drop_Suc)
    show ?thesis
      using True 1 by (subst scanDigits.simps) (simp add: d)
  next
    case False
    then have "takeWhile isDigit (drop pos buf) = []"
      by (cases "pos < length buf") (simp_all add: takeWhile_eq_Nil_iff hd_drop_conv_nth)
    then show ?thesis using False by (subst scanDigits.simps) auto
  qed
qed

text \<open>
  The outer \<open>while (pos < buf.length)\<close> loop of \<open>tryParseOne\<close>; every \<open>return null\<close>
  of the source is a \<open>None\<close> here, in the source's order.
\<close>

function parseLoop :: "string \<Rightarrow> nat \<Rightarrow> string list \<Rightarrow> (string list \<times> nat) option" where
  "parseLoop buf pos elements =
     (if pos < length buf then
        (case scanDigits buf pos [] of (lengthStr, pos1) \<Rightarrow>
           if length lengthStr = 0 then None
           else if pos1 \<ge> length buf then None
           else if buf ! pos1 \<noteq> CHR ''.'' then None
           else
             (let pos2 = pos1 + 1;
                  len = parseInt lengthStr
              in if pos2 + len > length buf then None
                 else
                   (let value = substring buf pos2 (pos2 + len);
                        pos3 = pos2 + len;
                        elements' = elements @ [value]
                    in if pos3 \<ge> length buf then None
                       else if buf ! pos3 = CHR '';'' then Some (elements', pos3 + 1)
                       else if buf ! pos3 = CHR '','' then parseLoop buf (pos3 + 1) elements'
                       else None)))
      else None)"
  by pat_completeness auto
termination
  apply (relation "measure (\<lambda>(buf, pos, elements). length buf - pos)")
   apply simp
  apply (auto simp: scanDigits_closed)
  done

declare parseLoop.simps [simp del]

definition tryParseOne :: "string \<Rightarrow> (string list \<times> nat) option" where
  "tryParseOne buffer = parseLoop buffer 0 []"

lemma parseLoop_unfold:
  "parseLoop buf pos elements =
     (let ds = takeWhile isDigit (drop pos buf);
          pos1 = pos + length ds;
          len = parseInt ds;
          pos3 = pos1 + 1 + len;
          elements' = elements @ [take len (drop (pos1 + 1) buf)]
      in if pos < length buf \<and> ds \<noteq> [] \<and> pos1 < length buf \<and> buf ! pos1 = CHR ''.''
            \<and> pos3 < length buf
         then (if buf ! pos3 = CHR '';'' then Some (elements', pos3 + 1)
               else if buf ! pos3 = CHR '','' then parseLoop buf (pos3 + 1) elements'
               else None)
         else None)"
  by (subst parseLoop.simps) (auto simp: scanDigits_closed Let_def substring_def)

lemma parseLoop_bounds:
  "parseLoop buf pos elements = Some (es, n) \<Longrightarrow> pos < n \<and> n \<le> length buf \<and> es \<noteq> []"
proof (induction "length buf - pos" arbitrary: pos elements rule: less_induct)
  case less
  from less.prems show ?case
    apply (subst (asm) parseLoop_unfold)
    apply (auto simp: Let_def split: if_splits dest!: less.hyps[rotated])
    done
qed

lemma takeWhile_stable:
  "length (takeWhile P xs) < length xs \<Longrightarrow> takeWhile P (xs @ ys) = takeWhile P xs"
  by (induction xs) auto

lemma parseLoop_SomeD:
  assumes "parseLoop buf pos elements = Some r"
  defines "ds \<equiv> takeWhile isDigit (drop pos buf)"
  defines "pos3 \<equiv> pos + length ds + 1 + parseInt ds"
  defines "els \<equiv> elements @ [take (parseInt ds) (drop (pos + length ds + 1) buf)]"
  shows "pos < length buf \<and> ds \<noteq> [] \<and> pos + length ds < length buf
         \<and> buf ! (pos + length ds) = CHR ''.'' \<and> pos3 < length buf
         \<and> ((buf ! pos3 = CHR '';'' \<and> r = (els, pos3 + 1))
            \<or> (buf ! pos3 = CHR '','' \<and> parseLoop buf (pos3 + 1) els = Some r))"
  using assms(1) unfolding ds_def pos3_def els_def
  by (subst (asm) parseLoop_unfold) (simp add: Let_def split: if_splits)

lemma parseLoop_SomeI:
  fixes buf :: string
  defines "ds \<equiv> \<lambda>buf pos. takeWhile isDigit (drop pos buf)"
  assumes "pos < length buf" "ds buf pos \<noteq> []" "pos + length (ds buf pos) < length buf"
    and "buf ! (pos + length (ds buf pos)) = CHR ''.''"
    and "pos + length (ds buf pos) + 1 + parseInt (ds buf pos) < length buf"
    and "(buf ! (pos + length (ds buf pos) + 1 + parseInt (ds buf pos)) = CHR '';''
           \<and> r = (elements @ [take (parseInt (ds buf pos)) (drop (pos + length (ds buf pos) + 1) buf)],
                   pos + length (ds buf pos) + 1 + parseInt (ds buf pos) + 1))
         \<or> (buf ! (pos + length (ds buf pos) + 1 + parseInt (ds buf pos)) = CHR '',''
           \<and> parseLoop buf (pos + length (ds buf pos) + 1 + parseInt (ds buf pos) + 1)
                (elements @ [take (parseInt (ds buf pos)) (drop (pos + length (ds buf pos) + 1) buf)])
               = Some r)"
  shows "parseLoop buf pos elements = Some r"
  using assms(2-) unfolding ds_def
  by (subst parseLoop_unfold) (auto simp add: Let_def)

lemma parseLoop_append:
  "parseLoop buf pos elements = Some r \<Longrightarrow> parseLoop (buf @ more) pos elements = Some r"
proof (induction "length buf - pos" arbitrary: pos elements rule: less_induct)
  case less
  define ds where "ds = takeWhile isDigit (drop pos buf)"
  define pos3 where "pos3 = pos + length ds + 1 + parseInt ds"
  define els where "els = elements @ [take (parseInt ds) (drop (pos + length ds + 1) buf)]"
  note d = parseLoop_SomeD[OF less.prems, folded ds_def, folded pos3_def els_def]
  from d have "length (takeWhile isDigit (drop pos buf)) < length (drop pos buf)"
    by (auto simp: ds_def)
  then have ds: "takeWhile isDigit (drop pos (buf @ more)) = ds"
    using d by (simp add: takeWhile_stable ds_def)
  from d have tk: "take (parseInt ds) (drop (pos + length ds + 1) (buf @ more))
                   = take (parseInt ds) (drop (pos + length ds + 1) buf)"
    by (auto simp: pos3_def)
  have nth: "(buf @ more) ! (pos + length ds) = buf ! (pos + length ds)"
       "(buf @ more) ! (pos + length ds + 1 + parseInt ds) = buf ! pos3"
    using d by (auto simp: nth_append pos3_def)
  have rec: "parseLoop buf (pos3 + 1) els = Some r
             \<Longrightarrow> parseLoop (buf @ more) (pos3 + 1) els = Some r"
    using d by (intro less.hyps) (auto simp: pos3_def)
  show ?case
    apply (subst parseLoop_unfold)
    apply (simp only: Let_def ds tk nth)
    using d rec apply (auto simp: pos3_def els_def)
    done
qed

lemma tryParseOne_append:
  "tryParseOne buf = Some r \<Longrightarrow> tryParseOne (buf @ more) = Some r"
  by (simp add: tryParseOne_def parseLoop_append)

lemma tryParseOne_bounds:
  "tryParseOne buf = Some (es, n) \<Longrightarrow> 0 < n \<and> n \<le> length buf \<and> es \<noteq> []"
  using parseLoop_bounds[of buf 0 "[]" es n] by (simp add: tryParseOne_def)

text \<open>
  \<open>feed\<close> appends the fragment to the buffer and runs the extraction loop. The callback
  invocations are collected, in order, as the list of emitted (opcode, arguments) pairs.
\<close>

function feedLoop ::
  "string \<Rightarrow> (string \<times> string list) list \<Rightarrow> string \<times> (string \<times> string list) list" where
  "feedLoop buffer emitted =
     (if length buffer > 0 then
        (case tryParseOne buffer of
           None \<Rightarrow> (buffer, emitted)
         | Some (elements, consumed) \<Rightarrow>
             feedLoop (drop consumed buffer)
               (if length elements > 0 then emitted @ [(hd elements, tl elements)] else emitted))
      else (buffer, emitted))"
  by pat_completeness auto
termination
proof (relation "measure (\<lambda>(buffer, emitted). length buffer)")
  fix buffer :: string and emitted :: "(string \<times> string list) list"
    and x2 :: "string list \<times> nat" and x y
  assume "0 < length buffer" "tryParseOne buffer = Some x2" "(x, y) = x2"
  then have "0 < y" using tryParseOne_bounds[of buffer x y] by simp
  with \<open>0 < length buffer\<close>
  show "((drop y buffer, if 0 < length x then emitted @ [(hd x, tl x)] else emitted),
         buffer, emitted) \<in> measure (\<lambda>(buffer, emitted). length buffer)"
    by simp
qed simp

declare feedLoop.simps [simp del]

definition feed :: "string \<Rightarrow> string \<Rightarrow> string \<times> (string \<times> string list) list" where
  "feed buffer data = feedLoop (buffer @ data) []"

lemma feedLoop_None:
  "tryParseOne buffer = None \<Longrightarrow> feedLoop buffer emitted = (buffer, emitted)"
  by (subst feedLoop.simps) simp

lemma feedLoop_Nil: "feedLoop [] emitted = ([], emitted)"
  by (subst feedLoop.simps) simp

lemma feedLoop_Some:
  assumes "tryParseOne buffer = Some (es, n)"
  shows "feedLoop buffer emitted = feedLoop (drop n buffer) (emitted @ [(hd es, tl es)])"
proof -
  from assms have "0 < n" "n \<le> length buffer" "es \<noteq> []"
    using tryParseOne_bounds by blast+
  then show ?thesis using assms by (subst feedLoop.simps) auto
qed

lemma feedLoop_append:
  "feedLoop (a @ b) acc = (case feedLoop a acc of (r, out) \<Rightarrow> feedLoop (r @ b) out)"
proof (induction "length a" arbitrary: a acc rule: less_induct)
  case less
  show ?case
  proof (cases "tryParseOne a")
    case None
    then show ?thesis by (simp add: feedLoop_None)
  next
    case (Some r)
    obtain es n where r: "r = (es, n)" by (cases r)
    from Some r have bnd: "0 < n" "n \<le> length a"
      using tryParseOne_bounds by blast+
    from Some r have ext: "tryParseOne (a @ b) = Some (es, n)"
      by (simp add: tryParseOne_append)
    have "feedLoop (a @ b) acc = feedLoop (drop n a @ b) (acc @ [(hd es, tl es)])"
      using feedLoop_Some[OF ext] bnd by simp
    also have "\<dots> = (case feedLoop (drop n a) (acc @ [(hd es, tl es)]) of
                       (r, out) \<Rightarrow> feedLoop (r @ b) out)"
      using bnd by (intro less.hyps) simp
    also have "feedLoop (drop n a) (acc @ [(hd es, tl es)]) = feedLoop a acc"
      using feedLoop_Some[of a es n acc] Some r by simp
    finally show ?thesis .
  qed
qed

lemma feedLoop_acc:
  "feedLoop a acc = (fst (feedLoop a []), acc @ snd (feedLoop a []))"
proof (induction "length a" arbitrary: a acc rule: less_induct)
  case less
  show ?case
  proof (cases "tryParseOne a")
    case None
    then show ?thesis by (simp add: feedLoop_None)
  next
    case (Some r)
    obtain es n where r: "r = (es, n)" by (cases r)
    from Some r have bnd: "0 < n" "n \<le> length a"
      using tryParseOne_bounds by blast+
    then have lt: "length (drop n a) < length a" by simp
    show ?thesis
      using less.hyps[OF lt, of "acc @ [(hd es, tl es)]"] less.hyps[OF lt, of "[(hd es, tl es)]"]
        feedLoop_Some[of a es n] Some r
      by simp
  qed
qed

lemma feed_split_general:
  "feed buffer (a @ b) =
     (case feed buffer a of (r, out1) \<Rightarrow> case feed r b of (r', out2) \<Rightarrow> (r', out1 @ out2))"
proof -
  obtain r out1 where a: "feedLoop (buffer @ a) [] = (r, out1)" by (cases "feedLoop (buffer @ a) []")
  have "feedLoop ((buffer @ a) @ b) [] = feedLoop (r @ b) out1"
    using feedLoop_append[of "buffer @ a" b "[]"] a by simp
  also have "\<dots> = (fst (feedLoop (r @ b) []), out1 @ snd (feedLoop (r @ b) []))"
    by (rule feedLoop_acc)
  finally show ?thesis
    by (simp add: feed_def a split: prod.splits)
qed

subsection \<open>The encoder \<open>buildInstruction\<close>\<close>

text \<open>
  \<open>showNat\<close> is the decimal rendering of \<open>el.length\<close> in the template string of
  \<open>buildInstruction\<close>; \<open>join\<close> is \<open>Array.prototype.join\<close>.
\<close>

definition digitChar :: "nat \<Rightarrow> char" where
  "digitChar d = char_of (of_char CHR ''0'' + d)"

function showNat :: "nat \<Rightarrow> string" where
  "showNat n = (if n < 10 then [digitChar n] else showNat (n div 10) @ [digitChar (n mod 10)])"
  by pat_completeness auto
termination
  by (relation "measure (\<lambda>n. n)") auto

declare showNat.simps [simp del]

fun join :: "string \<Rightarrow> string list \<Rightarrow> string" where
  "join sep [] = []"
| "join sep [p] = p"
| "join sep (p # q # ps) = p @ sep @ join sep (q # ps)"

definition buildInstruction :: "string list \<Rightarrow> string" where
  "buildInstruction elements =
     join '','' (map (\<lambda>el. showNat (length el) @ ''.'' @ el) elements) @ '';''"

lemma isDigit_digitChar: "d < 10 \<Longrightarrow> isDigit (digitChar d)"
  unfolding isDigit_def digitChar_def less_eq_char_def by simp

lemma digitValue_digitChar: "d < 10 \<Longrightarrow> digitValue (digitChar d) = d"
  unfolding digitValue_def digitChar_def by simp

lemma parseInt_snoc: "parseInt (ds @ [c]) = 10 * parseInt ds + digitValue c"
  by (simp add: parseInt_def)

lemma showNat_digits: "c \<in> set (showNat n) \<Longrightarrow> isDigit c"
proof (induction n rule: showNat.induct)
  case (1 n)
  then show ?case
    by (subst (asm) (2) showNat.simps) (auto simp: isDigit_digitChar split: if_splits)
qed

lemma showNat_nonempty: "showNat n \<noteq> []"
  by (subst showNat.simps) simp

lemma parseInt_showNat: "parseInt (showNat n) = n"
proof (induction n rule: showNat.induct)
  case (1 n)
  show ?case
  proof (cases "n < 10")
    case True
    then show ?thesis
      by (subst showNat.simps) (simp add: parseInt_def digitValue_digitChar)
  next
    case False
    with 1 show ?thesis
      by (subst showNat.simps) (simp add: parseInt_snoc digitValue_digitChar)
  qed
qed

lemma not_digit_delims [simp]:
  "\<not> isDigit CHR ''.''" "\<not> isDigit CHR '',''" "\<not> isDigit CHR '';''"
  unfolding isDigit_def less_eq_char_def by simp_all

text \<open>
  A well-formed element is a non-empty run of digits whose value is the length of the
  payload that follows the dot.
\<close>

definition lengthPrefixed :: "string \<Rightarrow> string \<Rightarrow> bool" where
  "lengthPrefixed ds payload \<longleftrightarrow>
     ds \<noteq> [] \<and> (\<forall>c\<in>set ds. isDigit c) \<and> parseInt ds = length payload"

lemma takeWhile_digits:
  "(\<forall>c\<in>set ds. isDigit c) \<Longrightarrow> \<not> isDigit c \<Longrightarrow> takeWhile isDigit (ds @ c # rest) = ds"
  by (induction ds) auto

lemma parseLoop_element:
  assumes "lengthPrefixed ds payload"
  shows "parseLoop (pre @ ds @ CHR ''.'' # payload @ c # rest) (length pre) acc =
           (if c = CHR '';'' then Some (acc @ [payload], length (pre @ ds @ CHR ''.'' # payload @ [c]))
            else if c = CHR '','' then
              parseLoop (pre @ ds @ CHR ''.'' # payload @ c # rest)
                (length (pre @ ds @ CHR ''.'' # payload @ [c])) (acc @ [payload])
            else None)"
proof -
  from assms have ds: "ds \<noteq> []" "\<forall>c\<in>set ds. isDigit c" "parseInt ds = length payload"
    by (simp_all add: lengthPrefixed_def)
  have tw: "takeWhile isDigit (drop (length pre) (pre @ ds @ CHR ''.'' # payload @ c # rest)) = ds"
    using ds by (simp add: takeWhile_digits)
  show ?thesis
    apply (subst parseLoop_unfold)
    apply (simp only: Let_def tw ds)
    using ds apply (simp add: nth_append add.assoc)
    done
qed

lemma lengthPrefixed_showNat: "lengthPrefixed (showNat (length el)) el"
  by (simp add: lengthPrefixed_def showNat_nonempty showNat_digits parseInt_showNat)

lemma buildInstruction_single:
  "buildInstruction [e] = showNat (length e) @ CHR ''.'' # e @ '';''"
  by (simp add: buildInstruction_def)

lemma buildInstruction_cons:
  "buildInstruction (e # e' # es) =
     showNat (length e) @ CHR ''.'' # e @ CHR '','' # buildInstruction (e' # es)"
  by (simp add: buildInstruction_def)

lemma parseLoop_buildInstruction:
  "els \<noteq> [] \<Longrightarrow>
   parseLoop (pre @ buildInstruction els @ tail) (length pre) acc =
     Some (acc @ els, length pre + length (buildInstruction els))"
proof (induction els arbitrary: pre acc)
  case Nil
  then show ?case by simp
next
  case (Cons e es)
  show ?case
  proof (cases es)
    case Nil
    show ?thesis
      using parseLoop_element[OF lengthPrefixed_showNat, of pre e "CHR '';''" tail acc]
      by (simp add: Nil buildInstruction_single)
  next
    case (Cons e' es')
    let ?pre' = "pre @ showNat (length e) @ CHR ''.'' # e @ [CHR '','']"
    have "parseLoop (pre @ buildInstruction (e # es) @ tail) (length pre) acc
          = parseLoop (?pre' @ buildInstruction es @ tail) (length ?pre') (acc @ [e])"
      using parseLoop_element[OF lengthPrefixed_showNat, of pre e "CHR '',''"
          "buildInstruction es @ tail" acc]
      by (simp add: Cons buildInstruction_cons)
    also have "\<dots> = Some ((acc @ [e]) @ es, length ?pre' + length (buildInstruction es))"
      by (rule Cons.IH) (simp add: Cons)
    finally show ?thesis by (simp add: Cons buildInstruction_cons)
  qed
qed

lemma tryParseOne_buildInstruction:
  "els \<noteq> [] \<Longrightarrow>
   tryParseOne (buildInstruction els @ tail) = Some (els, length (buildInstruction els))"
  using parseLoop_buildInstruction[of els "[]" tail "[]"] by (simp add: tryParseOne_def)

lemma feedLoop_stream:
  "\<forall>els\<in>set instrs. els \<noteq> [] \<Longrightarrow>
   feedLoop (concat (map buildInstruction instrs)) acc =
     ([], acc @ map (\<lambda>els. (hd els, tl els)) instrs)"
proof (induction instrs arbitrary: acc)
  case Nil
  then show ?case by (simp add: feedLoop_Nil)
next
  case (Cons i instrs)
  then have "tryParseOne (buildInstruction i @ concat (map buildInstruction instrs))
             = Some (i, length (buildInstruction i))"
    by (simp add: tryParseOne_buildInstruction)
  from feedLoop_Some[OF this, of acc] Cons show ?case by simp
qed

text \<open>
  Claim C2. For every buffer state and every two fragments \<open>a\<close> and \<open>b\<close> (so for
  every stream \<open>a @ b\<close> and every split point of it), feeding \<open>a\<close> and then \<open>b\<close>
  emits the same (opcode, arguments) pairs, in the same order, and leaves the same buffer
  as feeding \<open>a @ b\<close> at once. And a stream made of complete instructions, each with at
  least one element (as \<open>buildInstruction\<close> encodes them), fed in one fragment to an
  empty framer, emits every instruction in order and leaves the buffer empty. The
  witness uses instructions of 1, 2 and 5 elements.
\<close>

theorem framer_split_invariance:
  "(case feed buffer a of (r, out1) \<Rightarrow> case feed r b of (r', out2) \<Rightarrow> (r', out1 @ out2))
     = feed buffer (a @ b)
   \<and> ((\<forall>els\<in>set instrs. els \<noteq> []) \<longrightarrow>
        feed [] (concat (map buildInstruction instrs)) = ([], map (\<lambda>els. (hd els, tl els)) instrs))"
  using feed_split_general[of buffer a b] feedLoop_stream[of instrs "[]"]
  by (simp add: feed_def)

theorem framer_split_invariance_witness:
  "feed [] ''4.sync;6.sel'' = (''6.sel'', [(''sync'', [])])
   \<and> feed ''6.sel'' ''ect,3.rdp;4.size,1.0,4.1024,3.768,2.96;''
       = ([], [(''select'', [''rdp'']), (''size'', [''0'', ''1024'', ''768'', ''96''])])
   \<and> feed [] (''4.sync;6.sel'' @ ''ect,3.rdp;4.size,1.0,4.1024,3.768,2.96;'')
       = ([], [(''sync'', []), (''select'', [''rdp'']), (''size'', [''0'', ''1024'', ''768'', ''96''])])
   \<and> feed [] (concat (map buildInstruction
         [[''sync''], [''select'', ''rdp''], [''size'', ''0'', ''1024'', ''768'', ''96'']]))
       = ([], [(''sync'', []), (''select'', [''rdp'']), (''size'', [''0'', ''1024'', ''768'', ''96''])])"
proof -
  have a: "feed [] ''4.sync;6.sel'' = (''6.sel'', [(''sync'', [])])"
    by code_simp
  have b: "feed ''6.sel'' ''ect,3.rdp;4.size,1.0,4.1024,3.768,2.96;''
       = ([], [(''select'', [''rdp'']), (''size'', [''0'', ''1024'', ''768'', ''96''])])"
    by code_simp
  note t = framer_split_invariance[where buffer = "[]" and a = "''4.sync;6.sel''"
        and b = "''ect,3.rdp;4.size,1.0,4.1024,3.768,2.96;''"
        and instrs = "[[''sync''], [''select'', ''rdp''], [''size'', ''0'', ''1024'', ''768'', ''96'']]"]
  have c: "feed [] (''4.sync;6.sel'' @ ''ect,3.rdp;4.size,1.0,4.1024,3.768,2.96;'')
       = ([], [(''sync'', [])] @ [(''select'', [''rdp'']), (''size'', [''0'', ''1024'', ''768'', ''96''])])"
    using t by (simp add: a b del: append.simps)
  have d: "feed [] (concat (map buildInstruction
         [[''sync''], [''select'', ''rdp''], [''size'', ''0'', ''1024'', ''768'', ''96'']]))
       = ([], [(''sync'', []), (''select'', [''rdp'']), (''size'', [''0'', ''1024'', ''768'', ''96''])])"
    using t by simp
  show ?thesis
    using a b c d by simp
qed

text \<open>
  The text of elements already read by the parser: each is a length prefix, a dot, the
  payload and the comma that announces a further element.
\<close>

definition elementsText :: "(string \<times> string) list \<Rightarrow> string" where
  "elementsText es = concat (map (\<lambda>(ds, payload). ds @ ''.'' @ payload @ '','') es)"

lemma parseLoop_skip:
  "\<forall>(ds, p)\<in>set es. lengthPrefixed ds p \<Longrightarrow>
   parseLoop (pre @ elementsText es @ tail) (length pre) acc =
   parseLoop (pre @ elementsText es @ tail) (length pre + length (elementsText es))
     (acc @ map snd es)"
proof (induction es arbitrary: pre acc)
  case Nil
  then show ?case by (simp add: elementsText_def)
next
  case (Cons e es)
  obtain ds p where e: "e = (ds, p)" by (cases e)
  with Cons.prems have lp: "lengthPrefixed ds p" and rest: "\<forall>(ds, p)\<in>set es. lengthPrefixed ds p"
    by auto
  let ?pre' = "pre @ ds @ CHR ''.'' # p @ [CHR '','']"
  have buf: "pre @ elementsText (e # es) @ tail = ?pre' @ elementsText es @ tail"
    by (simp add: elementsText_def e)
  have "parseLoop (pre @ elementsText (e # es) @ tail) (length pre) acc
        = parseLoop (?pre' @ elementsText es @ tail) (length ?pre') (acc @ [p])"
    using parseLoop_element[OF lp, of pre "CHR '',''" "elementsText es @ tail" acc]
    by (simp add: elementsText_def e)
  also have "\<dots> = parseLoop (?pre' @ elementsText es @ tail)
                     (length ?pre' + length (elementsText es)) ((acc @ [p]) @ map snd es)"
    by (rule Cons.IH[OF rest])
  finally show ?case
    by (simp add: buf) (simp add: elementsText_def e add.assoc)
qed

lemma parseLoop_bad_prefix:
  assumes "\<forall>d\<in>set ds. isDigit d" "\<not> isDigit c" "c \<noteq> CHR ''.''"
  shows "parseLoop (pre @ ds @ c # rest) (length pre) acc = None"
proof -
  have tw: "takeWhile isDigit (drop (length pre) (pre @ ds @ c # rest)) = ds"
    using assms by (simp add: takeWhile_digits)
  show ?thesis
    apply (subst parseLoop_unfold)
    apply (simp only: Let_def tw)
    using assms apply (simp add: nth_append)
    done
qed

lemma tryParseOne_bad_prefix:
  assumes "\<forall>(ds, p)\<in>set es. lengthPrefixed ds p"
    and "\<forall>d\<in>set ds. isDigit d" "\<not> isDigit c" "c \<noteq> CHR ''.''"
  shows "tryParseOne (elementsText es @ ds @ c # rest) = None"
proof -
  have "parseLoop ([] @ elementsText es @ ds @ c # rest) (length ([]::string)) [] =
        parseLoop ((elementsText es) @ ds @ c # rest) (length (elementsText es)) (map snd es)"
    using parseLoop_skip[OF assms(1), of "[]" "ds @ c # rest" "[]"] by simp
  also have "\<dots> = None"
    using assms(2-) by (rule parseLoop_bad_prefix)
  finally show ?thesis by (simp add: tryParseOne_def)
qed

lemma tryParseOne_bad_delimiter:
  assumes "\<forall>(ds, p)\<in>set es. lengthPrefixed ds p"
    and "lengthPrefixed ds p" "c \<noteq> CHR '',''" "c \<noteq> CHR '';''"
  shows "tryParseOne (elementsText es @ ds @ CHR ''.'' # p @ c # rest) = None"
proof -
  have "parseLoop ([] @ elementsText es @ ds @ CHR ''.'' # p @ c # rest) (length ([]::string)) [] =
        parseLoop ((elementsText es) @ ds @ CHR ''.'' # p @ c # rest) (length (elementsText es))
          (map snd es)"
    using parseLoop_skip[OF assms(1), of "[]" "ds @ CHR ''.'' # p @ c # rest" "[]"] by simp
  also have "\<dots> = None"
    using parseLoop_element[OF assms(2), of "elementsText es" c rest "map snd es"] assms(3,4)
    by simp
  finally show ?thesis by (simp add: tryParseOne_def)
qed

lemma takeWhile_take:
  "length (takeWhile P xs) < m \<Longrightarrow> takeWhile P (take m xs) = takeWhile P xs"
proof (induction xs arbitrary: m)
  case Nil
  then show ?case by simp
next
  case (Cons x xs)
  then show ?case by (cases m) (auto split: if_splits)
qed

lemma parseLoop_take:
  "parseLoop buf pos elements = Some (es, n) \<Longrightarrow>
   parseLoop (take n buf) pos elements = Some (es, n)"
proof (induction "length buf - pos" arbitrary: pos elements rule: less_induct)
  case less
  define ds where "ds = takeWhile isDigit (drop pos buf)"
  define pos3 where "pos3 = pos + length ds + 1 + parseInt ds"
  define els where "els = elements @ [take (parseInt ds) (drop (pos + length ds + 1) buf)]"
  note d = parseLoop_SomeD[OF less.prems, folded ds_def, folded pos3_def els_def]
  from less.prems have n: "n \<le> length buf" using parseLoop_bounds by blast
  have pn: "pos3 < n"
    using d parseLoop_bounds[of buf "pos3 + 1" els es n] by auto
  then have lt: "pos + length ds < n" "pos < n" by (simp_all add: pos3_def)
  have "takeWhile isDigit (take (n - pos) (drop pos buf)) = ds"
    unfolding ds_def using lt by (intro takeWhile_take) (simp add: ds_def)
  then have ds: "takeWhile isDigit (drop pos (take n buf)) = ds"
    by (simp add: drop_take)
  have tk: "take (parseInt ds) (drop (pos + length ds + 1) (take n buf))
            = take (parseInt ds) (drop (pos + length ds + 1) buf)"
    using pn by (simp add: drop_take pos3_def min_def)
  have nth: "(take n buf) ! (pos + length ds) = buf ! (pos + length ds)"
       "(take n buf) ! (pos + length ds + 1 + parseInt ds) = buf ! pos3"
    using pn lt by (auto simp: pos3_def)
  have len: "length (take n buf) = n" using n by simp
  have rec: "parseLoop buf (pos3 + 1) els = Some (es, n)
             \<Longrightarrow> parseLoop (take n buf) (pos3 + 1) els = Some (es, n)"
    using d by (intro less.hyps) (auto simp: pos3_def)
  show ?case
    apply (subst parseLoop_unfold)
    apply (simp only: Let_def ds tk nth len)
    using d rec pn lt apply (auto simp: pos3_def els_def)
    done
qed

lemma tryParseOne_take:
  "tryParseOne buf = Some (es, n) \<Longrightarrow> tryParseOne (take n buf) = Some (es, length (take n buf))"
  using parseLoop_take[of buf 0 "[]" es n] parseLoop_bounds[of buf 0 "[]" es n]
  by (simp add: tryParseOne_def)

lemma feedLoop_decomp:
  "\<exists>ps. a = concat (map snd ps) @ fst (feedLoop a acc)
        \<and> snd (feedLoop a acc) = acc @ map (\<lambda>(els, p). (hd els, tl els)) ps
        \<and> (\<forall>(els, p)\<in>set ps. tryParseOne p = Some (els, length p))"
proof (induction "length a" arbitrary: a acc rule: less_induct)
  case less
  show ?case
  proof (cases "tryParseOne a")
    case None
    then have "feedLoop a acc = (a, acc)" by (rule feedLoop_None)
    then show ?thesis by (intro exI[of _ "[]"]) simp
  next
    case (Some r)
    obtain es n where r: "r = (es, n)" by (cases r)
    from Some r have bnd: "0 < n" "n \<le> length a"
      using tryParseOne_bounds by blast+
    then have lt: "length (drop n a) < length a" by simp
    from less.hyps[OF lt, of "acc @ [(hd es, tl es)]"]
    obtain ps where ps: "drop n a = concat (map snd ps) @ fst (feedLoop (drop n a) (acc @ [(hd es, tl es)]))"
      "snd (feedLoop (drop n a) (acc @ [(hd es, tl es)]))
         = (acc @ [(hd es, tl es)]) @ map (\<lambda>(els, p). (hd els, tl els)) ps"
      "\<forall>(els, p)\<in>set ps. tryParseOne p = Some (els, length p)"
      by blast
    have step: "feedLoop a acc = feedLoop (drop n a) (acc @ [(hd es, tl es)])"
      using feedLoop_Some[of a es n acc] Some r by simp
    have piece: "tryParseOne (take n a) = Some (es, length (take n a))"
      using Some r by (simp add: tryParseOne_take)
    have "a = take n a @ drop n a" by simp
    also have "\<dots> = concat (map snd ((es, take n a) # ps)) @ fst (feedLoop a acc)"
      using ps(1) step by simp
    finally have 1: "a = concat (map snd ((es, take n a) # ps)) @ fst (feedLoop a acc)" .
    have 2: "snd (feedLoop a acc) = acc @ map (\<lambda>(els, p). (hd els, tl els)) ((es, take n a) # ps)"
      using ps(2) step by simp
    have 3: "\<forall>(els, p)\<in>set ((es, take n a) # ps). tryParseOne p = Some (els, length p)"
      using ps(3) piece by simp
    from 1 2 3 show ?thesis by blast
  qed
qed

text \<open>
  Claim C9. (1) When the head of the buffer (after the fragment is appended) is not a
  complete instruction, \<open>feed\<close> emits nothing and keeps every byte. (2) A head that is
  structurally invalid because a length prefix is followed by a character that is
  neither a digit nor a dot, after any number of well-formed elements, stays unparsed
  whatever data is fed afterwards: nothing is emitted and nothing is dropped. (3) The
  same holds when a well-formed element is followed by a character other than a comma
  or a semicolon. (4) In general the bytes \<open>feed\<close> removes from the buffer are exactly a
  concatenation of pieces, each of which is by itself one complete instruction accepted
  by \<open>tryParseOne\<close> in full, and the emitted pairs are those instructions in order.
\<close>

theorem framer_waits_never_discards:
  "(tryParseOne (buffer @ data) = None \<longrightarrow> feed buffer data = (buffer @ data, []))
   \<and> ((\<forall>(ds, p)\<in>set es. lengthPrefixed ds p) \<and> (\<forall>d\<in>set ds. isDigit d)
        \<and> \<not> isDigit c \<and> c \<noteq> CHR ''.'' \<longrightarrow>
        feed (elementsText es @ ds @ c # rest) data = (elementsText es @ ds @ c # rest @ data, []))
   \<and> ((\<forall>(ds, p)\<in>set es. lengthPrefixed ds p) \<and> lengthPrefixed ds' p'
        \<and> c' \<noteq> CHR '','' \<and> c' \<noteq> CHR '';'' \<longrightarrow>
        feed (elementsText es @ ds' @ CHR ''.'' # p' @ c' # rest) data
          = (elementsText es @ ds' @ CHR ''.'' # p' @ c' # rest @ data, []))
   \<and> (\<exists>ps. buffer @ data = concat (map snd ps) @ fst (feed buffer data)
          \<and> snd (feed buffer data) = map (\<lambda>(els, p). (hd els, tl els)) ps
          \<and> (\<forall>(els, p)\<in>set ps. tryParseOne p = Some (els, length p)))"
proof (intro conjI impI)
  assume "tryParseOne (buffer @ data) = None"
  then show "feed buffer data = (buffer @ data, [])"
    by (simp add: feed_def feedLoop_None)
next
  assume a: "(\<forall>(ds, p)\<in>set es. lengthPrefixed ds p) \<and> (\<forall>d\<in>set ds. isDigit d)
        \<and> \<not> isDigit c \<and> c \<noteq> CHR ''.''"
  then have "tryParseOne (elementsText es @ ds @ c # (rest @ data)) = None"
    by (intro tryParseOne_bad_prefix) auto
  then show "feed (elementsText es @ ds @ c # rest) data
             = (elementsText es @ ds @ c # rest @ data, [])"
    by (simp add: feed_def feedLoop_None)
next
  assume a: "(\<forall>(ds, p)\<in>set es. lengthPrefixed ds p) \<and> lengthPrefixed ds' p'
        \<and> c' \<noteq> CHR '','' \<and> c' \<noteq> CHR '';''"
  then have "tryParseOne (elementsText es @ ds' @ CHR ''.'' # p' @ c' # (rest @ data)) = None"
    by (intro tryParseOne_bad_delimiter) auto
  then show "feed (elementsText es @ ds' @ CHR ''.'' # p' @ c' # rest) data
          = (elementsText es @ ds' @ CHR ''.'' # p' @ c' # rest @ data, [])"
    by (simp add: feed_def feedLoop_None)
next
  show "\<exists>ps. buffer @ data = concat (map snd ps) @ fst (feed buffer data)
          \<and> snd (feed buffer data) = map (\<lambda>(els, p). (hd els, tl els)) ps
          \<and> (\<forall>(els, p)\<in>set ps. tryParseOne p = Some (els, length p))"
    using feedLoop_decomp[of "buffer @ data" "[]"] by (simp add: feed_def)
qed

theorem framer_waits_never_discards_witness:
  "tryParseOne (''5.he'' @ ''ll'') = None
   \<and> feed ''5.he'' ''ll'' = (''5.he'' @ ''ll'', [])
   \<and> feed (elementsText [(''1'', ''a'')] @ ''3'' @ CHR ''x'' # ''yz'') '';1.b;''
       = (elementsText [(''1'', ''a'')] @ ''3'' @ CHR ''x'' # ''yz'' @ '';1.b;'', [])
   \<and> feed (elementsText [(''1'', ''a'')] @ ''2'' @ CHR ''.'' # ''bc'' @ CHR ''!'' # ''yz'') '';1.b;''
       = (elementsText [(''1'', ''a'')] @ ''2'' @ CHR ''.'' # ''bc'' @ CHR ''!'' # ''yz'' @ '';1.b;'', [])
   \<and> elementsText [(''1'', ''a'')] @ ''3'' @ CHR ''x'' # ''yz'' = ''1.a,3xyz''
   \<and> feed ''1.a;2.b'' ''c;5.x'' = (''5.x'', [(''a'', []), (''bc'', [])])"
proof -
  have n: "tryParseOne (''5.he'' @ ''ll'') = None" by code_simp
  have lp: "(\<forall>(ds, p)\<in>set [(''1'', ''a'')]. lengthPrefixed ds p)" "lengthPrefixed ''2'' ''bc''"
    "\<forall>d\<in>set ''3''. isDigit d" "\<not> isDigit CHR ''x''"
    by code_simp+
  have e: "elementsText [(''1'', ''a'')] @ ''3'' @ CHR ''x'' # ''yz'' = ''1.a,3xyz''"
    by code_simp
  have f: "feed ''1.a;2.b'' ''c;5.x'' = (''5.x'', [(''a'', []), (''bc'', [])])"
    by code_simp
  note t = framer_waits_never_discards[where buffer = "''5.he''" and data = "''ll''"
      and es = "[(''1'', ''a'')]" and ds = "''3''" and c = "CHR ''x''" and rest = "''yz''"
      and ds' = "''2''" and p' = "''bc''" and c' = "CHR ''!''"]
  note t2 = framer_waits_never_discards[where buffer = "''5.he''" and data = "'';1.b;''"
      and es = "[(''1'', ''a'')]" and ds = "''3''" and c = "CHR ''x''" and rest = "''yz''"
      and ds' = "''2''" and p' = "''bc''" and c' = "CHR ''!''"]
  from t n have 1: "feed ''5.he'' ''ll'' = (''5.he'' @ ''ll'', [])" by blast
  from t2 lp have 2: "feed (elementsText [(''1'', ''a'')] @ ''3'' @ CHR ''x'' # ''yz'') '';1.b;''
       = (elementsText [(''1'', ''a'')] @ ''3'' @ CHR ''x'' # ''yz'' @ '';1.b;'', [])"
    by blast
  from t2 lp have 3: "feed (elementsText [(''1'', ''a'')] @ ''2'' @ CHR ''.'' # ''bc'' @ CHR ''!'' # ''yz'') '';1.b;''
       = (elementsText [(''1'', ''a'')] @ ''2'' @ CHR ''.'' # ''bc'' @ CHR ''!'' # ''yz'' @ '';1.b;'', [])"
    by simp
  from n 1 2 3 e f show ?thesis by blast
qed

section \<open>The session manager (server/src/services/session-manager.ts)\<close>

text \<open>
  A JavaScript \<open>Map\<close> is modelled as an association list in insertion order (the
  order in which \<open>for ... of\<close> visits the entries); \<open>mapSet\<close> replaces the value of a
  key that is present in place and appends a new key, as \<open>Map.prototype.set\<close> does.
  A \<open>Set\<close> of strings is a list in insertion order without repetitions.
\<close>

type_synonym ('k, 'v) jsmap = "('k \<times> 'v) list"

definition mapHas :: "'k \<Rightarrow> ('k, 'v) jsmap \<Rightarrow> bool" where
  "mapHas k m = (k \<in> set (map fst m))"

definition mapGet :: "'k \<Rightarrow> ('k, 'v) jsmap \<Rightarrow> 'v option" where
  "mapGet k m = map_of m k"

fun mapSet :: "'k \<Rightarrow> 'v \<Rightarrow> ('k, 'v) jsmap \<Rightarrow> ('k, 'v) jsmap" where
  "mapSet k v [] = [(k, v)]"
| "mapSet k v ((k', v') # m) = (if k' = k then (k, v) # m else (k', v') # mapSet k v m)"

definition mapDelete :: "'k \<Rightarrow> ('k, 'v) jsmap \<Rightarrow> ('k, 'v) jsmap" where
  "mapDelete k m = filter (\<lambda>(k', v). k' \<noteq> k) m"

definition setAdd :: "'a \<Rightarrow> 'a list \<Rightarrow> 'a list" where
  "setAdd x s = (if x \<in> set s then s else s @ [x])"

definition setDelete :: "'a \<Rightarrow> 'a list \<Rightarrow> 'a list" where
  "setDelete x s = removeAll x s"

text \<open>
  A WebSocket object is identified by a number. The two session interfaces of
  \<open>types/session.ts\<close> have the same fields, \<open>SSHSession\<close> with \<open>terminalSize\<close> in
  addition; fields carry the prefix \<open>s_\<close>. The six module-level maps of the session
  manager are the fields of \<open>sessionManager\<close>. The two module-level lookups
  \<open>browserSocketLookup\<close> and \<open>agentSocketLookup\<close> (\<open>null\<close> until
  \<open>setSessionSocketLookups\<close> is called) are passed to the functions that read them.
\<close>

type_synonym socket = nat

datatype sessionStatus = Connecting | Active | Closed

record terminalSize =
  cols :: rat
  rows :: rat

record Session =
  s_id :: string
  s_deviceId :: string
  s_browserSocket :: socket
  s_agentSocket :: socket
  s_status :: sessionStatus
  s_createdAt :: int

type_synonym RDPSession = Session

record SSHSession = Session +
  s_terminalSize :: terminalSize

type_synonym socketLookup = "string \<Rightarrow> socket option"

type_synonym sessionIndex = "(string, string list) jsmap"

record sessionManager =
  sessions :: "(string, SSHSession) jsmap"
  sessionsByBrowser :: sessionIndex
  sessionsByDevice :: sessionIndex
  rdpSessions :: "(string, RDPSession) jsmap"
  rdpSessionsByBrowser :: sessionIndex
  rdpSessionsByDevice :: sessionIndex

definition emptyManager :: sessionManager where
  "emptyManager = \<lparr> sessions = [], sessionsByBrowser = [], sessionsByDevice = [],
     rdpSessions = [], rdpSessionsByBrowser = [], rdpSessionsByDevice = [] \<rparr>"

datatype sessionError =
    LookupsNotConfigured
  | BrowserSocketNotFound string
  | AgentSocketNotFound string
  | SshSessionExists string
  | RdpSessionExists string

text \<open>
  The three statements that put a session id into a secondary index:
  \<open>if (!index.has(key)) index.set(key, new Set()); index.get(key)?.add(id)\<close>.
\<close>

definition indexAdd :: "string \<Rightarrow> string \<Rightarrow> sessionIndex \<Rightarrow> sessionIndex" where
  "indexAdd key sid idx =
     (let idx1 = (if \<not> mapHas key idx then mapSet key [] idx else idx)
      in case mapGet key idx1 of
           Some ids \<Rightarrow> mapSet key (setAdd sid ids) idx1
         | None \<Rightarrow> idx1)"

text \<open>
  The loop of \<open>closeSession\<close> over the entries of a secondary index:
  \<open>if (ids.delete(sessionId) && ids.size === 0) { index.delete(key); break; }\<close>.
  An entry whose set held the id and is not empty afterwards does not end the loop.
\<close>

fun indexRemove :: "string \<Rightarrow> sessionIndex \<Rightarrow> sessionIndex" where
  "indexRemove sid [] = []"
| "indexRemove sid ((key, ids) # rest) =
     (if sid \<in> set ids then
        (if setDelete sid ids = [] then rest
         else (key, setDelete sid ids) # indexRemove sid rest)
      else (key, ids) # indexRemove sid rest)"

text \<open>
  \<open>createSession\<close>. Every \<open>throw\<close> is an \<open>Inl\<close>, and all of them precede the first
  write to a map. \<open>uuid\<close> is the value \<open>randomUUID()\<close> returns when no id is supplied,
  \<open>now\<close> the time of \<open>new Date()\<close>.
\<close>

definition createSession ::
  "socketLookup option \<Rightarrow> socketLookup option \<Rightarrow> sessionManager \<Rightarrow> string \<Rightarrow> string \<Rightarrow>
   string option \<Rightarrow> string \<Rightarrow> int \<Rightarrow> sessionError + (SSHSession \<times> sessionManager)" where
  "createSession browserSocketLookup agentSocketLookup st deviceId browserId sessionId uuid now =
     (case (browserSocketLookup, agentSocketLookup) of
        (Some getBrowser, Some getAgent) \<Rightarrow>
          (case getBrowser browserId of
             None \<Rightarrow> Inl (BrowserSocketNotFound browserId)
           | Some browserSocket \<Rightarrow>
               (case getAgent deviceId of
                  None \<Rightarrow> Inl (AgentSocketNotFound deviceId)
                | Some agentSocket \<Rightarrow>
                    (let sid = (case sessionId of Some s \<Rightarrow> s | None \<Rightarrow> uuid) in
                     if mapHas sid (sessions st) then Inl (SshSessionExists sid)
                     else
                       (let session = \<lparr> s_id = sid, s_deviceId = deviceId,
                              s_browserSocket = browserSocket, s_agentSocket = agentSocket,
                              s_status = Connecting, s_createdAt = now,
                              s_terminalSize = \<lparr> cols = 80, rows = 24 \<rparr> \<rparr>
                        in Inr (session,
                             st\<lparr> sessions := mapSet sid session (sessions st),
                                 sessionsByBrowser := indexAdd browserId sid (sessionsByBrowser st),
                                 sessionsByDevice := indexAdd deviceId sid (sessionsByDevice st) \<rparr>)))))
      | _ \<Rightarrow> Inl LookupsNotConfigured)"

definition getSession :: "sessionManager \<Rightarrow> string \<Rightarrow> SSHSession option" where
  "getSession st sessionId = mapGet sessionId (sessions st)"

definition closeSession :: "sessionManager \<Rightarrow> string \<Rightarrow> sessionManager" where
  "closeSession st sessionId =
     (case mapGet sessionId (sessions st) of
        None \<Rightarrow> st
      | Some session \<Rightarrow>
          st\<lparr> sessions := mapDelete sessionId (sessions st),
              sessionsByBrowser := indexRemove sessionId (sessionsByBrowser st),
              sessionsByDevice := indexRemove sessionId (sessionsByDevice st) \<rparr>)"

definition getSessionsByDevice :: "sessionManager \<Rightarrow> string \<Rightarrow> SSHSession list" where
  "getSessionsByDevice st deviceId =
     (case mapGet deviceId (sessionsByDevice st) of
        None \<Rightarrow> []
      | Some ids \<Rightarrow> List.map_filter (\<lambda>i. mapGet i (sessions st)) ids)"

definition getSessionsByBrowser :: "sessionManager \<Rightarrow> string \<Rightarrow> SSHSession list" where
  "getSessionsByBrowser st browserId =
     (case mapGet browserId (sessionsByBrowser st) of
        None \<Rightarrow> []
      | Some ids \<Rightarrow> List.map_filter (\<lambda>i. mapGet i (sessions st)) ids)"

text \<open>
  The remote-desktop functions repeat the terminal ones over their own three maps.
\<close>

definition createRDPSession ::
  "socketLookup option \<Rightarrow> socketLookup option \<Rightarrow> sessionManager \<Rightarrow> string \<Rightarrow> string \<Rightarrow>
   string option \<Rightarrow> string \<Rightarrow> int \<Rightarrow> sessionError + (RDPSession \<times> sessionManager)" where
  "createRDPSession browserSocketLookup agentSocketLookup st deviceId browserId sessionId uuid now =
     (case (browserSocketLookup, agentSocketLookup) of
        (Some getBrowser, Some getAgent) \<Rightarrow>
          (case getBrowser browserId of
             None \<Rightarrow> Inl (BrowserSocketNotFound browserId)
           | Some browserSocket \<Rightarrow>
               (case getAgent deviceId of
                  None \<Rightarrow> Inl (AgentSocketNotFound deviceId)
                | Some agentSocket \<Rightarrow>
                    (let sid = (case sessionId of Some s \<Rightarrow> s | None \<Rightarrow> uuid) in
                     if mapHas sid (rdpSessions st) then Inl (RdpSessionExists sid)
                     else
                       (let session = \<lparr> s_id = sid, s_deviceId = deviceId,
                              s_browserSocket = browserSocket, s_agentSocket = agentSocket,
                              s_status = Connecting, s_createdAt = now \<rparr>
                        in Inr (session,
                             st\<lparr> rdpSessions := mapSet sid session (rdpSessions st),
                                 rdpSessionsByBrowser := indexAdd browserId sid (rdpSessionsByBrowser st),
                                 rdpSessionsByDevice := indexAdd deviceId sid (rdpSessionsByDevice st) \<rparr>)))))
      | _ \<Rightarrow> Inl LookupsNotConfigured)"

definition getRDPSession :: "sessionManager \<Rightarrow> string \<Rightarrow> RDPSession option" where
  "getRDPSession st sessionId = mapGet sessionId (rdpSessions st)"

definition closeRDPSession :: "sessionManager \<Rightarrow> string \<Rightarrow> sessionManager" where
  "closeRDPSession st sessionId =
     (case mapGet sessionId (rdpSessions st) of
        None \<Rightarrow> st
      | Some session \<Rightarrow>
          st\<lparr> rdpSessions := mapDelete sessionId (rdpSessions st),
              rdpSessionsByBrowser := indexRemove sessionId (rdpSessionsByBrowser st),
              rdpSessionsByDevice := indexRemove sessionId (rdpSessionsByDevice st) \<rparr>)"

definition getRDPSessionsByDevice :: "sessionManager \<Rightarrow> string \<Rightarrow> RDPSession list" where
  "getRDPSessionsByDevice st deviceId =
     (case mapGet deviceId (rdpSessionsByDevice st) of
        None \<Rightarrow> []
      | Some ids \<Rightarrow> List.map_filter (\<lambda>i. mapGet i (rdpSessions st)) ids)"

definition getRDPSessionsByBrowser :: "sessionManager \<Rightarrow> string \<Rightarrow> RDPSession list" where
  "getRDPSessionsByBrowser st browserId =
     (case mapGet browserId (rdpSessionsByBrowser st) of
        None \<Rightarrow> []
      | Some ids \<Rightarrow> List.map_filter (\<lambda>i. mapGet i (rdpSessions st)) ids)"

text \<open>
  A sequence of calls to the session manager, from the freshly loaded module. A create
  call that throws leaves the maps as they were.
\<close>

datatype managerCall =
    CreateSSH "socketLookup option" "socketLookup option" string string "string option" string int
  | CloseSSH string
  | CreateRDP "socketLookup option" "socketLookup option" string string "string option" string int
  | CloseRDP string

fun applyCall :: "sessionManager \<Rightarrow> managerCall \<Rightarrow> sessionManager" where
  "applyCall st (CreateSSH lb la deviceId browserId sessionId uuid now) =
     (case createSession lb la st deviceId browserId sessionId uuid now of
        Inl err \<Rightarrow> st
      | Inr (session, st') \<Rightarrow> st')"
| "applyCall st (CloseSSH sessionId) = closeSession st sessionId"
| "applyCall st (CreateRDP lb la deviceId browserId sessionId uuid now) =
     (case createRDPSession lb la st deviceId browserId sessionId uuid now of
        Inl err \<Rightarrow> st
      | Inr (session, st') \<Rightarrow> st')"
| "applyCall st (CloseRDP sessionId) = closeRDPSession st sessionId"

definition runCalls :: "managerCall list \<Rightarrow> sessionManager" where
  "runCalls calls = foldl applyCall emptyManager calls"

text \<open>
  \<open>occurrences sid idx\<close> counts the places at which \<open>sid\<close> stands in the buckets of a
  secondary index: it is 1 exactly when the id is in one bucket, once.
\<close>

definition occurrences :: "string \<Rightarrow> sessionIndex \<Rightarrow> nat" where
  "occurrences sid idx = sum_list (map (\<lambda>(key, ids). count_list ids sid) idx)"

definition indexesAgree :: "(string, 'a) jsmap \<Rightarrow> sessionIndex \<Rightarrow> sessionIndex \<Rightarrow> bool" where
  "indexesAgree byId byBrowser byDevice \<longleftrightarrow>
     distinct (map fst byId) \<and>
     (\<forall>sid. occurrences sid byBrowser = (if mapHas sid byId then 1 else 0)
          \<and> occurrences sid byDevice = (if mapHas sid byId then 1 else 0))"

lemma keys_mapSet: "set (map fst (mapSet k v m)) = insert k (set (map fst m))"
proof (induction m)
  case Nil
  then show ?case by simp
next
  case (Cons a m)
  obtain k' v' where a: "a = (k', v')" by (cases a)
  show ?case
  proof (cases "k' = k")
    case True
    then show ?thesis by (simp add: a)
  next
    case False
    then show ?thesis using Cons by (simp add: a insert_commute)
  qed
qed

lemma mapHas_mapSet [simp]: "mapHas k (mapSet k' v m) \<longleftrightarrow> k = k' \<or> mapHas k m"
  unfolding mapHas_def keys_mapSet by simp

lemma mapHas_mapDelete [simp]: "mapHas k (mapDelete k' m) \<longleftrightarrow> k \<noteq> k' \<and> mapHas k m"
  by (induction m) (auto simp: mapHas_def mapDelete_def)

lemma mapGet_None_iff: "mapGet k m = None \<longleftrightarrow> \<not> mapHas k m"
  by (simp add: mapGet_def mapHas_def map_of_eq_None_iff)

lemma distinct_mapSet: "distinct (map fst m) \<Longrightarrow> distinct (map fst (mapSet k v m))"
proof (induction m)
  case Nil
  then show ?case by simp
next
  case (Cons a m)
  obtain k' v' where a: "a = (k', v')" by (cases a)
  show ?case
  proof (cases "k' = k")
    case True
    then show ?thesis using Cons.prems by (simp add: a)
  next
    case False
    have "k' \<notin> set (map fst (mapSet k v m))"
      unfolding keys_mapSet using False Cons.prems by (simp add: a)
    then show ?thesis using False Cons by (simp add: a)
  qed
qed

lemma distinct_mapDelete: "distinct (map fst m) \<Longrightarrow> distinct (map fst (mapDelete k m))"
  by (simp add: mapDelete_def distinct_map_filter)

lemma occurrences_mapSet_new:
  "\<not> mapHas key idx \<Longrightarrow> occurrences sid (mapSet key ids idx) = occurrences sid idx + count_list ids sid"
  by (induction idx) (auto simp: occurrences_def mapHas_def)

lemma occurrences_mapSet_old:
  "mapGet key idx = Some old \<Longrightarrow>
   occurrences sid (mapSet key ids idx) + count_list old sid = occurrences sid idx + count_list ids sid"
  by (induction idx) (auto simp: occurrences_def mapGet_def)

lemma count_list_setAdd:
  "count_list (setAdd x s) y = (if x \<notin> set s \<and> x = y then count_list s y + 1 else count_list s y)"
  by (auto simp: setAdd_def)

lemma count_list_zero_occ: "occurrences sid idx = 0 \<Longrightarrow> mapGet key idx = Some ids \<Longrightarrow> sid \<notin> set ids"
proof (induction idx)
  case Nil
  then show ?case by (simp add: mapGet_def)
next
  case (Cons a idx)
  then show ?case
    by (cases a) (auto simp: occurrences_def mapGet_def count_list_0_iff split: if_splits)
qed

lemma occurrences_indexAdd:
  assumes "occurrences sid idx = 0"
  shows "occurrences x (indexAdd key sid idx) = (if x = sid then 1 else occurrences x idx)"
proof (cases "mapHas key idx")
  case False
  then have g: "mapGet key (mapSet key [] idx) = Some []"
    by (induction idx) (auto simp: mapGet_def mapHas_def)
  have "occurrences x (mapSet key (setAdd sid []) (mapSet key [] idx)) + count_list [] x
        = occurrences x (mapSet key [] idx) + count_list (setAdd sid []) x"
    using g by (rule occurrences_mapSet_old)
  then show ?thesis
    using False assms g by (auto simp: indexAdd_def occurrences_mapSet_new setAdd_def)
next
  case True
  then obtain ids where g: "mapGet key idx = Some ids"
    using mapGet_None_iff[of key idx] by (cases "mapGet key idx") auto
  from count_list_zero_occ[OF assms g] have ni: "sid \<notin> set ids" .
  have "occurrences x (mapSet key (setAdd sid ids) idx) + count_list ids x
        = occurrences x idx + count_list (setAdd sid ids) x"
    using g by (rule occurrences_mapSet_old)
  then show ?thesis
    using True g ni assms by (auto simp: indexAdd_def count_list_setAdd)
qed

lemma count_list_removeAll: "count_list (removeAll x s) y = (if x = y then 0 else count_list s y)"
  by (induction s) auto

lemma removeAll_Nil_count: "removeAll x s = [] \<Longrightarrow> x \<noteq> y \<Longrightarrow> count_list s y = 0"
  by (induction s) (auto split: if_splits)

lemma occurrences_indexRemove_other:
  "x \<noteq> sid \<Longrightarrow> occurrences x (indexRemove sid idx) = occurrences x idx"
proof (induction idx)
  case Nil
  then show ?case by simp
next
  case (Cons a idx)
  obtain key ids where a: "a = (key, ids)" by (cases a)
  from Cons show ?case
    by (auto simp: a occurrences_def setDelete_def count_list_removeAll removeAll_Nil_count)
qed

lemma occurrences_indexRemove_same:
  "occurrences sid idx \<le> 1 \<Longrightarrow> occurrences sid (indexRemove sid idx) = 0"
proof (induction idx)
  case Nil
  then show ?case by (simp add: occurrences_def)
next
  case (Cons a idx)
  obtain key ids where a: "a = (key, ids)" by (cases a)
  show ?case
  proof (cases "sid \<in> set ids")
    case True
    then have "count_list ids sid \<noteq> 0"
      by (simp add: count_list_0_iff)
    then have "count_list ids sid \<ge> 1" by simp
    moreover have "occurrences sid (a # idx) = count_list ids sid + occurrences sid idx"
      by (simp add: occurrences_def a)
    ultimately have rest0: "occurrences sid idx = 0"
      using Cons.prems by linarith
    then have "occurrences sid (indexRemove sid idx) = 0"
      using Cons.IH by simp
    with True rest0 show ?thesis
      by (auto simp: a setDelete_def count_list_removeAll occurrences_def)
  next
    case False
    with Cons a show ?thesis
      by (auto simp: occurrences_def count_list_0_iff)
  qed
qed

definition managerInv :: "sessionManager \<Rightarrow> bool" where
  "managerInv st \<longleftrightarrow>
     indexesAgree (sessions st) (sessionsByBrowser st) (sessionsByDevice st) \<and>
     indexesAgree (rdpSessions st) (rdpSessionsByBrowser st) (rdpSessionsByDevice st)"

lemma indexesAgree_create:
  assumes "indexesAgree byId byBrowser byDevice" "\<not> mapHas sid byId"
  shows "indexesAgree (mapSet sid v byId) (indexAdd b sid byBrowser) (indexAdd d sid byDevice)"
proof -
  from assms have z: "occurrences sid byBrowser = 0" "occurrences sid byDevice = 0"
    by (simp_all add: indexesAgree_def)
  show ?thesis
    using assms by (auto simp: indexesAgree_def occurrences_indexAdd[OF z(1)]
        occurrences_indexAdd[OF z(2)] distinct_mapSet)
qed

lemma indexesAgree_close:
  assumes "indexesAgree byId byBrowser byDevice"
  shows "indexesAgree (mapDelete sid byId) (indexRemove sid byBrowser) (indexRemove sid byDevice)"
proof -
  from assms have le: "occurrences sid byBrowser \<le> 1" "occurrences sid byDevice \<le> 1"
    by (simp_all add: indexesAgree_def)
  have "occurrences x (indexRemove sid byBrowser) = (if mapHas x (mapDelete sid byId) then 1 else 0)"
       "occurrences x (indexRemove sid byDevice) = (if mapHas x (mapDelete sid byId) then 1 else 0)"
    for x
    using assms le
    by (cases "x = sid";
        simp add: occurrences_indexRemove_same occurrences_indexRemove_other indexesAgree_def)+
  then show ?thesis
    using assms by (simp add: indexesAgree_def distinct_mapDelete)
qed

lemma createSession_inv:
  "createSession lb la st deviceId browserId sessionId uuid now = Inr (session, st') \<Longrightarrow>
   managerInv st \<Longrightarrow> managerInv st'"
  by (auto simp: createSession_def managerInv_def Let_def indexesAgree_create
      split: option.splits if_splits)

lemma createRDPSession_inv:
  "createRDPSession lb la st deviceId browserId sessionId uuid now = Inr (session, st') \<Longrightarrow>
   managerInv st \<Longrightarrow> managerInv st'"
  by (auto simp: createRDPSession_def managerInv_def Let_def indexesAgree_create
      split: option.splits if_splits)

lemma closeSession_inv: "managerInv st \<Longrightarrow> managerInv (closeSession st sessionId)"
  by (auto simp: closeSession_def managerInv_def indexesAgree_close split: option.splits)

lemma closeRDPSession_inv: "managerInv st \<Longrightarrow> managerInv (closeRDPSession st sessionId)"
  by (auto simp: closeRDPSession_def managerInv_def indexesAgree_close split: option.splits)

lemma applyCall_inv: "managerInv st \<Longrightarrow> managerInv (applyCall st c)"
  by (cases c)
     (auto simp: closeSession_inv closeRDPSession_inv split: sum.splits
           dest: createSession_inv createRDPSession_inv)

lemma foldl_applyCall_inv: "managerInv st \<Longrightarrow> managerInv (foldl applyCall st calls)"
  by (induction calls arbitrary: st) (simp_all add: applyCall_inv)

lemma emptyManager_inv: "managerInv emptyManager"
  by (simp add: managerInv_def emptyManager_def indexesAgree_def occurrences_def mapHas_def)

lemma runCalls_inv: "managerInv (runCalls calls)"
  unfolding runCalls_def by (rule foldl_applyCall_inv[OF emptyManager_inv])

text \<open>
  Claim C1. After every sequence of create and close calls (terminal or remote-desktop),
  each session id that is a key of the by-id map stands in exactly one bucket of the
  by-browser index and in exactly one bucket of the by-device index, and an id that is
  not a key of the by-id map stands in no bucket of either index. This holds for the
  three maps of the terminal sessions and for the three maps of the remote-desktop
  sessions.
\<close>

theorem session_indexes_agree:
  "occurrences sid (sessionsByBrowser (runCalls calls))
     = (if mapHas sid (sessions (runCalls calls)) then 1 else 0)
   \<and> occurrences sid (sessionsByDevice (runCalls calls))
     = (if mapHas sid (sessions (runCalls calls)) then 1 else 0)
   \<and> occurrences sid (rdpSessionsByBrowser (runCalls calls))
     = (if mapHas sid (rdpSessions (runCalls calls)) then 1 else 0)
   \<and> occurrences sid (rdpSessionsByDevice (runCalls calls))
     = (if mapHas sid (rdpSessions (runCalls calls)) then 1 else 0)"
  using runCalls_inv[of calls] by (simp add: managerInv_def indexesAgree_def)

theorem session_indexes_agree_witness:
  "map fst (sessions (runCalls
      [CreateSSH (Some (\<lambda>b. Some 1)) (Some (\<lambda>d. Some 2)) ''pi-1'' ''b1'' (Some ''s1'') ''u1'' 0,
       CreateSSH (Some (\<lambda>b. Some 1)) (Some (\<lambda>d. Some 2)) ''pi-1'' ''b1'' (Some ''s2'') ''u2'' 1,
       CloseSSH ''s1'',
       CreateRDP (Some (\<lambda>b. Some 1)) (Some (\<lambda>d. Some 2)) ''pi-1'' ''b1'' None ''u3'' 2])) = [''s2'']
   \<and> sessionsByBrowser (runCalls
      [CreateSSH (Some (\<lambda>b. Some 1)) (Some (\<lambda>d. Some 2)) ''pi-1'' ''b1'' (Some ''s1'') ''u1'' 0,
       CreateSSH (Some (\<lambda>b. Some 1)) (Some (\<lambda>d. Some 2)) ''pi-1'' ''b1'' (Some ''s2'') ''u2'' 1,
       CloseSSH ''s1'',
       CreateRDP (Some (\<lambda>b. Some 1)) (Some (\<lambda>d. Some 2)) ''pi-1'' ''b1'' None ''u3'' 2])
       = [(''b1'', [''s2''])]
   \<and> occurrences ''s2'' (sessionsByDevice (runCalls
      [CreateSSH (Some (\<lambda>b. Some 1)) (Some (\<lambda>d. Some 2)) ''pi-1'' ''b1'' (Some ''s1'') ''u1'' 0,
       CreateSSH (Some (\<lambda>b. Some 1)) (Some (\<lambda>d. Some 2)) ''pi-1'' ''b1'' (Some ''s2'') ''u2'' 1,
       CloseSSH ''s1'',
       CreateRDP (Some (\<lambda>b. Some 1)) (Some (\<lambda>d. Some 2)) ''pi-1'' ''b1'' None ''u3'' 2])) = 1
   \<and> occurrences ''s1'' (sessionsByDevice (runCalls
      [CreateSSH (Some (\<lambda>b. Some 1)) (Some (\<lambda>d. Some 2)) ''pi-1'' ''b1'' (Some ''s1'') ''u1'' 0,
       CreateSSH (Some (\<lambda>b. Some 1)) (Some (\<lambda>d. Some 2)) ''pi-1'' ''b1'' (Some ''s2'') ''u2'' 1,
       CloseSSH ''s1'',
       CreateRDP (Some (\<lambda>b. Some 1)) (Some (\<lambda>d. Some 2)) ''pi-1'' ''b1'' None ''u3'' 2])) = 0
   \<and> occurrences ''u3'' (rdpSessionsByBrowser (runCalls
      [CreateSSH (Some (\<lambda>b. Some 1)) (Some (\<lambda>d. Some 2)) ''pi-1'' ''b1'' (Some ''s1'') ''u1'' 0,
       CreateSSH (Some (\<lambda>b. Some 1)) (Some (\<lambda>d. Some 2)) ''pi-1'' ''b1'' (Some ''s2'') ''u2'' 1,
       CloseSSH ''s1'',
       CreateRDP (Some (\<lambda>b. Some 1)) (Some (\<lambda>d. Some 2)) ''pi-1'' ''b1'' None ''u3'' 2])) = 1"
proof -
  define cs where "cs =
      [CreateSSH (Some (\<lambda>b. Some 1)) (Some (\<lambda>d. Some 2)) ''pi-1'' ''b1'' (Some ''s1'') ''u1'' 0,
       CreateSSH (Some (\<lambda>b. Some 1)) (Some (\<lambda>d. Some 2)) ''pi-1'' ''b1'' (Some ''s2'') ''u2'' 1,
       CloseSSH ''s1'',
       CreateRDP (Some (\<lambda>b. Some (1::nat))) (Some (\<lambda>d. Some (2::nat))) ''pi-1'' ''b1'' None ''u3'' 2]"
  have k: "map fst (sessions (runCalls cs)) = [''s2'']"
    and b: "sessionsByBrowser (runCalls cs) = [(''b1'', [''s2''])]"
    and r: "map fst (rdpSessions (runCalls cs)) = [''u3'']"
    unfolding cs_def by code_simp+
  have h: "mapHas ''s2'' (sessions (runCalls cs))" "\<not> mapHas ''s1'' (sessions (runCalls cs))"
    "mapHas ''u3'' (rdpSessions (runCalls cs))"
    by (simp_all add: mapHas_def k r)
  from session_indexes_agree[of "''s2''" cs] session_indexes_agree[of "''s1''" cs]
    session_indexes_agree[of "''u3''" cs] h k b
  show ?thesis unfolding cs_def by simp
qed

text \<open>
  Claim C3, as amended: session ids are unique per session kind. Creating a terminal
  session with a caller-supplied id that is already a key of the terminal by-id map
  throws and leaves every map unchanged, and likewise for a remote-desktop session and
  the remote-desktop by-id map; so after every sequence of calls the keys of each by-id
  map are pairwise distinct: at most one live session per kind and id.
\<close>

theorem duplicate_session_id_rejected:
  "(mapHas sid (sessions st) \<longrightarrow>
      (\<exists>e. createSession lb la st deviceId browserId (Some sid) uuid now = Inl e)
      \<and> applyCall st (CreateSSH lb la deviceId browserId (Some sid) uuid now) = st)
   \<and> (mapHas sid (rdpSessions st) \<longrightarrow>
      (\<exists>e. createRDPSession lb la st deviceId browserId (Some sid) uuid now = Inl e)
      \<and> applyCall st (CreateRDP lb la deviceId browserId (Some sid) uuid now) = st)
   \<and> distinct (map fst (sessions (runCalls calls)))
   \<and> distinct (map fst (rdpSessions (runCalls calls)))"
proof -
  have 1: "\<exists>e. createSession lb la st deviceId browserId (Some sid) uuid now = Inl e"
    if "mapHas sid (sessions st)"
    using that by (auto simp: createSession_def split: option.splits)
  have 2: "\<exists>e. createRDPSession lb la st deviceId browserId (Some sid) uuid now = Inl e"
    if "mapHas sid (rdpSessions st)"
    using that by (auto simp: createRDPSession_def split: option.splits)
  have 3: "distinct (map fst (sessions (runCalls calls)))"
    "distinct (map fst (rdpSessions (runCalls calls)))"
    using runCalls_inv[of calls] by (simp_all add: managerInv_def indexesAgree_def)
  from 1 2 3 show ?thesis by auto
qed

theorem duplicate_session_id_rejected_witness:
  "mapHas ''s1'' (sessions (runCalls
      [CreateSSH (Some (\<lambda>b. Some 1)) (Some (\<lambda>d. Some 2)) ''pi-1'' ''b1'' (Some ''s1'') ''u1'' 0]))
   \<and> createSession (Some (\<lambda>b. Some 1)) (Some (\<lambda>d. Some 2))
        (runCalls [CreateSSH (Some (\<lambda>b. Some 1)) (Some (\<lambda>d. Some 2)) ''pi-1'' ''b1'' (Some ''s1'') ''u1'' 0])
        ''pi-2'' ''b2'' (Some ''s1'') ''u2'' 5 = Inl (SshSessionExists ''s1'')
   \<and> applyCall
        (runCalls [CreateSSH (Some (\<lambda>b. Some 1)) (Some (\<lambda>d. Some 2)) ''pi-1'' ''b1'' (Some ''s1'') ''u1'' 0])
        (CreateSSH (Some (\<lambda>b. Some 1)) (Some (\<lambda>d. Some 2)) ''pi-2'' ''b2'' (Some ''s1'') ''u2'' 5)
       = runCalls [CreateSSH (Some (\<lambda>b. Some 1)) (Some (\<lambda>d. Some 2)) ''pi-1'' ''b1'' (Some ''s1'') ''u1'' 0]"
proof -
  define st where "st = runCalls
      [CreateSSH (Some (\<lambda>b. Some (1::nat))) (Some (\<lambda>d. Some (2::nat))) ''pi-1'' ''b1'' (Some ''s1'') ''u1'' 0]"
  have h: "mapHas ''s1'' (sessions st)" unfolding st_def by code_simp
  have e: "createSession (Some (\<lambda>b. Some 1)) (Some (\<lambda>d. Some 2)) st
        ''pi-2'' ''b2'' (Some ''s1'') ''u2'' 5 = Inl (SshSessionExists ''s1'')"
    using h by (simp add: createSession_def)
  from duplicate_session_id_rejected[of "''s1''" st "Some (\<lambda>b. Some 1)" "Some (\<lambda>d. Some 2)"
      "''pi-2''" "''b2''" "''u2''" 5 "[]"] h e
  show ?thesis unfolding st_def by simp
qed

text \<open>
  The claim as stated, with one id space for all sessions, fails: while the terminal
  session \<open>s1\<close> is live, creating a remote-desktop session with the caller-supplied id
  \<open>s1\<close> succeeds (\<open>createRDPSession\<close> consults \<open>rdpSessions\<close> only), and two live
  sessions then share the id.
\<close>

theorem session_id_shared_across_kinds_counterexample:
  "mapHas ''s1'' (sessions (runCalls
      [CreateSSH (Some (\<lambda>b. Some 1)) (Some (\<lambda>d. Some 2)) ''pi-1'' ''b1'' (Some ''s1'') ''u1'' 0]))
   \<and> map fst (sessions (runCalls
      [CreateSSH (Some (\<lambda>b. Some 1)) (Some (\<lambda>d. Some 2)) ''pi-1'' ''b1'' (Some ''s1'') ''u1'' 0,
       CreateRDP (Some (\<lambda>b. Some 1)) (Some (\<lambda>d. Some 2)) ''pi-1'' ''b1'' (Some ''s1'') ''u2'' 1]))
       = [''s1'']
   \<and> map fst (rdpSessions (runCalls
      [CreateSSH (Some (\<lambda>b. Some 1)) (Some (\<lambda>d. Some 2)) ''pi-1'' ''b1'' (Some ''s1'') ''u1'' 0,
       CreateRDP (Some (\<lambda>b. Some 1)) (Some (\<lambda>d. Some 2)) ''pi-1'' ''b1'' (Some ''s1'') ''u2'' 1]))
       = [''s1'']"
  by code_simp

section \<open>Messages and their validation (server/src/websocket/messages.ts)\<close>

text \<open>
  The value \<open>JSON.parse\<close> returns. A number is finite or, for a literal beyond the
  range of a double such as \<open>1e999\<close>, an infinity. \<open>getProp\<close> is the property access
  \<open>p.name\<close> on a value cast to \<open>Record<string, unknown>\<close>: \<open>None\<close> stands for
  \<open>undefined\<close>. \<open>isObject\<close> is the test
  \<open>typeof v === 'object' && v !== null\<close>, which arrays pass.
\<close>

datatype jsnum = Finite rat | PosInfinity | NegInfinity

datatype json =
    JNull
  | JBool bool
  | JNum jsnum
  | JStr string
  | JArr "json list"
  | JObj "(string \<times> json) list"

fun isObject :: "json option \<Rightarrow> bool" where
  "isObject (Some (JObj kvs)) = True"
| "isObject (Some (JArr vs)) = True"
| "isObject _ = False"

fun getProp :: "json option \<Rightarrow> string \<Rightarrow> json option" where
  "getProp (Some (JObj kvs)) k = map_of kvs k"
| "getProp _ k = None"

fun isNonEmptyString :: "json option \<Rightarrow> bool" where
  "isNonEmptyString (Some (JStr s)) = (length s \<noteq> 0)"
| "isNonEmptyString _ = False"

fun isFiniteNumber :: "json option \<Rightarrow> bool" where
  "isFiniteNumber (Some (JNum (Finite r))) = True"
| "isFiniteNumber _ = False"

fun asString :: "json option \<Rightarrow> string" where
  "asString (Some (JStr s)) = s"
| "asString _ = []"

fun asRat :: "json option \<Rightarrow> rat" where
  "asRat (Some (JNum (Finite r))) = r"
| "asRat _ = 0"

text \<open>
  \<open>parseMessage\<close> takes the outcome of \<open>JSON.parse(data)\<close>: \<open>Inl\<close> with the message of
  the \<open>SyntaxError\<close> it threw, or \<open>Inr\<close> with the parsed value.
\<close>

record ParsedMessage =
  m_type :: string
  m_timestamp :: rat
  m_payload :: "json option"

definition isValidMessageStructure :: "json \<Rightarrow> bool" where
  "isValidMessageStructure obj =
     (if \<not> isObject (Some obj) then False
      else if \<not> isNonEmptyString (getProp (Some obj) ''type'') then False
      else if \<not> isFiniteNumber (getProp (Some obj) ''timestamp'') then False
      else True)"

definition parseMessage :: "string + json \<Rightarrow> string + ParsedMessage" where
  "parseMessage parsedData =
     (case parsedData of
        Inl syntaxError \<Rightarrow> Inl (''Failed to parse JSON: '' @ syntaxError)
      | Inr parsed \<Rightarrow>
          if \<not> isValidMessageStructure parsed
          then Inl ''Invalid message structure: must have type (string) and timestamp (number)''
          else Inr \<lparr> m_type = asString (getProp (Some parsed) ''type''),
                     m_timestamp = asRat (getProp (Some parsed) ''timestamp''),
                     m_payload = getProp (Some parsed) ''payload'' \<rparr>)"

definition VALID_MESSAGE_TYPES :: "string list" where
  "VALID_MESSAGE_TYPES =
     [''agent:register'', ''agent:heartbeat'', ''devices:list:request'',
      ''ssh:session:request'', ''ssh:session:response'', ''ssh:data'', ''ssh:resize'',
      ''ssh:close'', ''rdp:session:request'', ''rdp:session:response'', ''rdp:data'',
      ''rdp:close'', ''error'']"

definition isHandledMessageType :: "string \<Rightarrow> bool" where
  "isHandledMessageType t = (t \<in> set VALID_MESSAGE_TYPES)"

text \<open>
  The payload validators. Each returns \<open>Inl\<close> with the field-level error string or
  \<open>Inr\<close> with the typed data, so the test \<open>!validation.valid || !validation.data\<close> of
  every handler is the case \<open>Inl\<close>.
\<close>

record capabilities =
  ssh :: bool
  rdp :: "bool option"

record registerData =
  r_deviceId :: string
  r_deviceName :: string
  r_ipAddress :: string
  r_capabilities :: capabilities

fun asBool :: "json option \<Rightarrow> bool option" where
  "asBool (Some (JBool b)) = Some b"
| "asBool _ = None"

fun isString :: "json option \<Rightarrow> bool" where
  "isString (Some (JStr s)) = True"
| "isString _ = False"

definition validateAgentRegisterPayload :: "json option \<Rightarrow> string + registerData" where
  "validateAgentRegisterPayload payload =
     (if \<not> isObject payload then Inl ''Payload must be an object''
      else if \<not> isNonEmptyString (getProp payload ''deviceId'')
        then Inl ''deviceId must be a non-empty string''
      else if \<not> isNonEmptyString (getProp payload ''deviceName'')
        then Inl ''deviceName must be a non-empty string''
      else if \<not> isNonEmptyString (getProp payload ''ipAddress'')
        then Inl ''ipAddress must be a non-empty string''
      else if \<not> isObject (getProp payload ''capabilities'')
        then Inl ''capabilities must be an object''
      else
        (let caps = getProp payload ''capabilities'' in
         case asBool (getProp caps ''ssh'') of
           None \<Rightarrow> Inl ''capabilities.ssh must be a boolean''
         | Some sshFlag \<Rightarrow>
             Inr \<lparr> r_deviceId = asString (getProp payload ''deviceId''),
                   r_deviceName = asString (getProp payload ''deviceName''),
                   r_ipAddress = asString (getProp payload ''ipAddress''),
                   r_capabilities = \<lparr> ssh = sshFlag, rdp = asBool (getProp caps ''rdp'') \<rparr> \<rparr>))"

definition validateAgentHeartbeatPayload :: "json option \<Rightarrow> string + string" where
  "validateAgentHeartbeatPayload payload =
     (if \<not> isObject payload then Inl ''Payload must be an object''
      else if \<not> isNonEmptyString (getProp payload ''deviceId'')
        then Inl ''deviceId must be a non-empty string''
      else Inr (asString (getProp payload ''deviceId'')))"

record sessionRequestData =
  q_deviceId :: string
  q_sessionId :: string

definition validateSshSessionRequestPayload :: "json option \<Rightarrow> string + sessionRequestData" where
  "validateSshSessionRequestPayload payload =
     (if \<not> isObject payload then Inl ''Payload must be an object''
      else if \<not> isNonEmptyString (getProp payload ''deviceId'')
        then Inl ''deviceId must be a non-empty string''
      else if \<not> isNonEmptyString (getProp payload ''sessionId'')
        then Inl ''sessionId must be a non-empty string''
      else Inr \<lparr> q_deviceId = asString (getProp payload ''deviceId''),
                 q_sessionId = asString (getProp payload ''sessionId'') \<rparr>)"

record sessionResponseData =
  p_sessionId :: string
  p_success :: bool
  p_error :: "string option"

definition validateSshSessionResponsePayload :: "json option \<Rightarrow> string + sessionResponseData" where
  "validateSshSessionResponsePayload payload =
     (if \<not> isObject payload then Inl ''Payload must be an object''
      else if \<not> isNonEmptyString (getProp payload ''sessionId'')
        then Inl ''sessionId must be a non-empty string''
      else
        (case asBool (getProp payload ''success'') of
           None \<Rightarrow> Inl ''success must be a boolean''
         | Some success \<Rightarrow>
             if getProp payload ''error'' \<noteq> None \<and> \<not> isString (getProp payload ''error'')
             then Inl ''error must be a string when provided''
             else Inr \<lparr> p_sessionId = asString (getProp payload ''sessionId''),
                        p_success = success,
                        p_error = map_option (\<lambda>e. asString (Some e)) (getProp payload ''error'') \<rparr>))"

record dataPayload =
  t_sessionId :: string
  t_data :: string

definition validateSshDataPayload :: "json option \<Rightarrow> string + dataPayload" where
  "validateSshDataPayload payload =
     (if \<not> isObject payload then Inl ''Payload must be an object''
      else if \<not> isNonEmptyString (getProp payload ''sessionId'')
        then Inl ''sessionId must be a non-empty string''
      else if \<not> isString (getProp payload ''data'')
        then Inl ''data must be a string''
      else Inr \<lparr> t_sessionId = asString (getProp payload ''sessionId''),
                 t_data = asString (getProp payload ''data'') \<rparr>)"

record resizeData =
  z_sessionId :: string
  z_cols :: rat
  z_rows :: rat

definition validateSshResizePayload :: "json option \<Rightarrow> string + resizeData" where
  "validateSshResizePayload payload =
     (if \<not> isObject payload then Inl ''Payload must be an object''
      else if \<not> isNonEmptyString (getProp payload ''sessionId'')
        then Inl ''sessionId must be a non-empty string''
      else if \<not> isFiniteNumber (getProp payload ''cols'')
        then Inl ''cols must be a number''
      else if \<not> isFiniteNumber (getProp payload ''rows'')
        then Inl ''rows must be a number''
      else Inr \<lparr> z_sessionId = asString (getProp payload ''sessionId''),
                 z_cols = asRat (getProp payload ''cols''),
                 z_rows = asRat (getProp payload ''rows'') \<rparr>)"

record closeData =
  c_sessionId :: string
  c_reason :: "string option"

definition validateSshClosePayload :: "json option \<Rightarrow> string + closeData" where
  "validateSshClosePayload payload =
     (if \<not> isObject payload then Inl ''Payload must be an object''
      else if \<not> isNonEmptyString (getProp payload ''sessionId'')
        then Inl ''sessionId must be a non-empty string''
      else if getProp payload ''reason'' \<noteq> None \<and> \<not> isString (getProp payload ''reason'')
        then Inl ''reason must be a string when provided''
      else Inr \<lparr> c_sessionId = asString (getProp payload ''sessionId''),
                 c_reason = map_option (\<lambda>e. asString (Some e)) (getProp payload ''reason'') \<rparr>)"

definition validateRdpSessionRequestPayload :: "json option \<Rightarrow> string + sessionRequestData" where
  "validateRdpSessionRequestPayload payload =
     (if \<not> isObject payload then Inl ''Payload must be an object''
      else if \<not> isNonEmptyString (getProp payload ''deviceId'')
        then Inl ''deviceId must be a non-empty string''
      else if \<not> isNonEmptyString (getProp payload ''sessionId'')
        then Inl ''sessionId must be a non-empty string''
      else Inr \<lparr> q_deviceId = asString (getProp payload ''deviceId''),
                 q_sessionId = asString (getProp payload ''sessionId'') \<rparr>)"

definition validateRdpSessionResponsePayload :: "json option \<Rightarrow> string + sessionResponseData" where
  "validateRdpSessionResponsePayload payload =
     (if \<not> isObject payload then Inl ''Payload must be an object''
      else if \<not> isNonEmptyString (getProp payload ''sessionId'')
        then Inl ''sessionId must be a non-empty string''
      else
        (case asBool (getProp payload ''success'') of
           None \<Rightarrow> Inl ''success must be a boolean''
         | Some success \<Rightarrow>
             if getProp payload ''error'' \<noteq> None \<and> \<not> isString (getProp payload ''error'')
             then Inl ''error must be a string when provided''
             else Inr \<lparr> p_sessionId = asString (getProp payload ''sessionId''),
                        p_success = success,
                        p_error = map_option (\<lambda>e. asString (Some e)) (getProp payload ''error'') \<rparr>))"

definition validateRdpDataPayload :: "json option \<Rightarrow> string + dataPayload" where
  "validateRdpDataPayload payload =
     (if \<not> isObject payload then Inl ''Payload must be an object''
      else if \<not> isNonEmptyString (getProp payload ''sessionId'')
        then Inl ''sessionId must be a non-empty string''
      else if \<not> isString (getProp payload ''data'')
        then Inl ''data must be a string''
      else Inr \<lparr> t_sessionId = asString (getProp payload ''sessionId''),
                 t_data = asString (getProp payload ''data'') \<rparr>)"

definition validateRdpClosePayload :: "json option \<Rightarrow> string + closeData" where
  "validateRdpClosePayload payload =
     (if \<not> isObject payload then Inl ''Payload must be an object''
      else if \<not> isNonEmptyString (getProp payload ''sessionId'')
        then Inl ''sessionId must be a non-empty string''
      else if getProp payload ''reason'' \<noteq> None \<and> \<not> isString (getProp payload ''reason'')
        then Inl ''reason must be a string when provided''
      else Inr \<lparr> c_sessionId = asString (getProp payload ''sessionId''),
                 c_reason = map_option (\<lambda>e. asString (Some e)) (getProp payload ''reason'') \<rparr>)"

text \<open>
  A message as \<open>createMessageString\<close> builds it, before \<open>JSON.stringify\<close>; a property
  whose value is \<open>undefined\<close> is left out, as \<open>JSON.stringify\<close> does. The calls a
  handler makes on a transport are collected in order: \<open>Send\<close> for \<open>socket.send\<close>,
  \<open>Close\<close> for \<open>socket.close(code, reason)\<close>. Every \<open>Date.now()\<close> of one handler run
  reads the same time \<open>now\<close>.
\<close>

record message =
  msgType :: string
  msgTimestamp :: int
  msgPayload :: "json option"

datatype effect =
    Send socket message
  | Close socket int string

definition createMessageString :: "string \<Rightarrow> json option \<Rightarrow> int \<Rightarrow> message" where
  "createMessageString type payload now =
     \<lparr> msgType = type, msgTimestamp = now, msgPayload = payload \<rparr>"

definition createErrorMessage :: "string \<Rightarrow> string \<Rightarrow> int \<Rightarrow> message" where
  "createErrorMessage code msg now =
     createMessageString ''error'' (Some (JObj [(''code'', JStr code), (''message'', JStr msg)])) now"

text \<open>
  The state of the relay process: the session manager, the two connection maps of
  \<open>handler.ts\<close>, the set of sockets whose \<open>readyState\<close> is \<open>OPEN\<close>, and for each agent
  socket the variable \<open>registeredDeviceId\<close> its handlers close over (no entry stands
  for \<open>null\<close>).
\<close>

record AgentConnectionInfo =
  a_socket :: socket
  a_deviceId :: string
  a_deviceName :: string
  a_ipAddress :: string
  a_capabilities :: capabilities
  a_connectedAt :: int
  a_lastHeartbeat :: int

record BrowserConnectionInfo =
  b_id :: string
  b_socket :: socket
  b_connectedAt :: int

record server =
  manager :: sessionManager
  agentConnections :: "(string, AgentConnectionInfo) jsmap"
  browserConnections :: "(string, BrowserConnectionInfo) jsmap"
  openSockets :: "socket set"
  registeredDeviceId :: "(socket, string) jsmap"

definition initialServer :: server where
  "initialServer = \<lparr> manager = emptyManager, agentConnections = [], browserConnections = [],
     openSockets = {}, registeredDeviceId = [] \<rparr>"

text \<open>
  The lookups \<open>handler.ts\<close> installs with \<open>setSessionSocketLookups\<close> when it is loaded.
\<close>

definition browserSocketLookup :: "server \<Rightarrow> socketLookup option" where
  "browserSocketLookup s =
     Some (\<lambda>browserId. map_option b_socket (mapGet browserId (browserConnections s)))"

definition agentSocketLookup :: "server \<Rightarrow> socketLookup option" where
  "agentSocketLookup s =
     Some (\<lambda>deviceId. map_option a_socket (mapGet deviceId (agentConnections s)))"

text \<open>
  \<open>sendIfOpen\<close> of both proxies, and \<open>socket.close\<close>: after the call the transport is
  closing, so no longer \<open>OPEN\<close>.
\<close>

definition sendIfOpen :: "server \<Rightarrow> socket \<Rightarrow> message \<Rightarrow> effect list" where
  "sendIfOpen s sock msg = (if sock \<in> openSockets s then [Send sock msg] else [])"

definition socketClose :: "server \<Rightarrow> socket \<Rightarrow> int \<Rightarrow> string \<Rightarrow> server \<times> effect list" where
  "socketClose s sock code reason =
     (s\<lparr> openSockets := openSockets s - {sock} \<rparr>, [Close sock code reason])"

definition orDefault :: "string \<Rightarrow> string \<Rightarrow> string" where
  "orDefault str dflt = (if str = [] then dflt else str)"

definition sessionRequestJson :: "string \<Rightarrow> string \<Rightarrow> json" where
  "sessionRequestJson deviceId sessionId =
     JObj [(''deviceId'', JStr deviceId), (''sessionId'', JStr sessionId)]"

definition sessionResponseJson :: "string \<Rightarrow> bool \<Rightarrow> string option \<Rightarrow> json" where
  "sessionResponseJson sessionId success err =
     JObj ([(''sessionId'', JStr sessionId), (''success'', JBool success)]
           @ (case err of None \<Rightarrow> [] | Some e \<Rightarrow> [(''error'', JStr e)]))"

definition dataJson :: "string \<Rightarrow> string \<Rightarrow> json" where
  "dataJson sessionId d = JObj [(''sessionId'', JStr sessionId), (''data'', JStr d)]"

definition resizeJson :: "string \<Rightarrow> rat \<Rightarrow> rat \<Rightarrow> json" where
  "resizeJson sessionId c r =
     JObj [(''sessionId'', JStr sessionId), (''cols'', JNum (Finite c)), (''rows'', JNum (Finite r))]"

definition closeJson :: "string \<Rightarrow> string \<Rightarrow> json" where
  "closeJson sessionId reason = JObj [(''sessionId'', JStr sessionId), (''reason'', JStr reason)]"

text \<open>
  The terminal proxy (\<open>ssh-proxy.ts\<close>). In \<open>createSession\<close> the caller always supplies
  the id, so \<open>randomUUID()\<close> is not reached; its argument is the empty string here.
\<close>

definition handleSshSessionRequestFromBrowser ::
  "server \<Rightarrow> json option \<Rightarrow> string \<Rightarrow> socket \<Rightarrow> int \<Rightarrow> server \<times> effect list" where
  "handleSshSessionRequestFromBrowser s payload browserId browserSocket now =
     (case validateSshSessionRequestPayload payload of
        Inl err \<Rightarrow>
          (s, sendIfOpen s browserSocket
                (createErrorMessage ''INVALID_SSH_SESSION_REQUEST'' (orDefault err ''Invalid payload'') now))
      | Inr d \<Rightarrow>
          (case createSession (browserSocketLookup s) (agentSocketLookup s) (manager s)
                  (q_deviceId d) browserId (Some (q_sessionId d)) [] now of
             Inl err \<Rightarrow>
               (s, sendIfOpen s browserSocket
                     (createErrorMessage ''SSH_SESSION_CREATE_FAILED'' ''Unable to create SSH session'' now))
           | Inr (session, mgr) \<Rightarrow>
               if s_agentSocket session \<notin> openSockets s then
                 (s\<lparr> manager := closeSession mgr (s_id session) \<rparr>,
                  sendIfOpen s browserSocket
                    (createErrorMessage ''SSH_AGENT_UNAVAILABLE'' ''Agent is not available'' now))
               else
                 (s\<lparr> manager := mgr \<rparr>,
                  sendIfOpen s (s_agentSocket session)
                    (createMessageString ''ssh:session:request''
                       (Some (sessionRequestJson (s_deviceId session) (s_id session))) now))))"

definition handleSshSessionResponseFromAgent ::
  "server \<Rightarrow> json option \<Rightarrow> int \<Rightarrow> server \<times> effect list" where
  "handleSshSessionResponseFromAgent s payload now =
     (case validateSshSessionResponsePayload payload of
        Inl err \<Rightarrow> (s, [])
      | Inr d \<Rightarrow>
          (case getSession (manager s) (p_sessionId d) of
             None \<Rightarrow> (s, [])
           | Some session \<Rightarrow>
               (let mgr = (if p_success d
                           then (manager s)\<lparr> sessions :=
                                  mapSet (p_sessionId d) (session\<lparr> s_status := Active \<rparr>)
                                    (sessions (manager s)) \<rparr>
                           else closeSession
                                  ((manager s)\<lparr> sessions :=
                                      mapSet (p_sessionId d) (session\<lparr> s_status := Closed \<rparr>)
                                        (sessions (manager s)) \<rparr>)
                                  (s_id session))
                in (s\<lparr> manager := mgr \<rparr>,
                    sendIfOpen s (s_browserSocket session)
                      (createMessageString ''ssh:session:response''
                         (Some (sessionResponseJson (s_id session) (p_success d) (p_error d))) now)))))"

definition handleSshDataFromBrowser :: "server \<Rightarrow> json option \<Rightarrow> int \<Rightarrow> server \<times> effect list" where
  "handleSshDataFromBrowser s payload now =
     (case validateSshDataPayload payload of
        Inl err \<Rightarrow> (s, [])
      | Inr d \<Rightarrow>
          (case getSession (manager s) (t_sessionId d) of
             None \<Rightarrow> (s, [])
           | Some session \<Rightarrow>
               (s, sendIfOpen s (s_agentSocket session)
                     (createMessageString ''ssh:data''
                        (Some (dataJson (s_id session) (t_data d))) now))))"

definition handleSshDataFromAgent :: "server \<Rightarrow> json option \<Rightarrow> int \<Rightarrow> server \<times> effect list" where
  "handleSshDataFromAgent s payload now =
     (case validateSshDataPayload payload of
        Inl err \<Rightarrow> (s, [])
      | Inr d \<Rightarrow>
          (case getSession (manager s) (t_sessionId d) of
             None \<Rightarrow> (s, [])
           | Some session \<Rightarrow>
               (s, sendIfOpen s (s_browserSocket session)
                     (createMessageString ''ssh:data''
                        (Some (dataJson (s_id session) (t_data d))) now))))"

definition handleSshResizeFromBrowser :: "server \<Rightarrow> json option \<Rightarrow> int \<Rightarrow> server \<times> effect list" where
  "handleSshResizeFromBrowser s payload now =
     (case validateSshResizePayload payload of
        Inl err \<Rightarrow> (s, [])
      | Inr d \<Rightarrow>
          (case getSession (manager s) (z_sessionId d) of
             None \<Rightarrow> (s, [])
           | Some session \<Rightarrow>
               (s\<lparr> manager := (manager s)\<lparr> sessions :=
                      mapSet (z_sessionId d)
                        (session\<lparr> s_terminalSize := \<lparr> cols = z_cols d, rows = z_rows d \<rparr> \<rparr>)
                        (sessions (manager s)) \<rparr> \<rparr>,
                sendIfOpen s (s_agentSocket session)
                  (createMessageString ''ssh:resize''
                     (Some (resizeJson (s_id session) (z_cols d) (z_rows d))) now))))"

datatype source = FromBrowser | FromAgent

definition handleSshClose :: "server \<Rightarrow> json option \<Rightarrow> source \<Rightarrow> int \<Rightarrow> server \<times> effect list" where
  "handleSshClose s payload src now =
     (case validateSshClosePayload payload of
        Inl err \<Rightarrow> (s, [])
      | Inr d \<Rightarrow>
          (case getSession (manager s) (c_sessionId d) of
             None \<Rightarrow> (s, [])
           | Some session \<Rightarrow>
               (let reason = (case c_reason d of Some r \<Rightarrow> r | None \<Rightarrow> ''Session closed'');
                    targetSocket = (if src = FromBrowser then s_agentSocket session
                                    else s_browserSocket session)
                in (s\<lparr> manager := closeSession (manager s) (s_id session) \<rparr>,
                    sendIfOpen s targetSocket
                      (createMessageString ''ssh:close''
                         (Some (closeJson (s_id session) reason)) now)))))"

definition handleSshCloseFromBrowser :: "server \<Rightarrow> json option \<Rightarrow> int \<Rightarrow> server \<times> effect list" where
  "handleSshCloseFromBrowser s payload now = handleSshClose s payload FromBrowser now"

definition handleSshCloseFromAgent :: "server \<Rightarrow> json option \<Rightarrow> int \<Rightarrow> server \<times> effect list" where
  "handleSshCloseFromAgent s payload now = handleSshClose s payload FromAgent now"

text \<open>
  The \<open>for\<close> loops of \<open>closeSessionsForBrowser\<close> and \<open>closeSessionsForAgent\<close> over the
  array the session manager returned.
\<close>

fun closeSshLoopBrowser :: "server \<Rightarrow> SSHSession list \<Rightarrow> int \<Rightarrow> server \<times> effect list" where
  "closeSshLoopBrowser s [] now = (s, [])"
| "closeSshLoopBrowser s (session # rest) now =
     (let s1 = s\<lparr> manager := closeSession (manager s) (s_id session) \<rparr>;
          e1 = sendIfOpen s1 (s_agentSocket session)
                 (createMessageString ''ssh:close''
                    (Some (closeJson (s_id session) ''Browser disconnected'')) now);
          (s2, e2) = closeSshLoopBrowser s1 rest now
      in (s2, e1 @ e2))"

definition closeSessionsForBrowser :: "server \<Rightarrow> string \<Rightarrow> int \<Rightarrow> server \<times> effect list" where
  "closeSessionsForBrowser s browserId now =
     closeSshLoopBrowser s (getSessionsByBrowser (manager s) browserId) now"

fun closeSshLoopAgent :: "server \<Rightarrow> SSHSession list \<Rightarrow> int \<Rightarrow> server \<times> effect list" where
  "closeSshLoopAgent s [] now = (s, [])"
| "closeSshLoopAgent s (session # rest) now =
     (let s1 = s\<lparr> manager := closeSession (manager s) (s_id session) \<rparr>;
          e1 = sendIfOpen s1 (s_browserSocket session)
                 (createMessageString ''ssh:close''
                    (Some (closeJson (s_id session) ''Agent disconnected'')) now);
          (s2, e2) = closeSshLoopAgent s1 rest now
      in (s2, e1 @ e2))"

definition closeSessionsForAgent :: "server \<Rightarrow> string \<Rightarrow> int \<Rightarrow> server \<times> effect list" where
  "closeSessionsForAgent s deviceId now =
     closeSshLoopAgent s (getSessionsByDevice (manager s) deviceId) now"

text \<open>
  The remote-desktop proxy (\<open>rdp-proxy.ts\<close>).
\<close>

definition handleRdpSessionRequestFromBrowser ::
  "server \<Rightarrow> json option \<Rightarrow> string \<Rightarrow> socket \<Rightarrow> int \<Rightarrow> server \<times> effect list" where
  "handleRdpSessionRequestFromBrowser s payload browserId browserSocket now =
     (case validateRdpSessionRequestPayload payload of
        Inl err \<Rightarrow>
          (s, sendIfOpen s browserSocket
                (createErrorMessage ''INVALID_RDP_SESSION_REQUEST'' (orDefault err ''Invalid payload'') now))
      | Inr d \<Rightarrow>
          (case createRDPSession (browserSocketLookup s) (agentSocketLookup s) (manager s)
                  (q_deviceId d) browserId (Some (q_sessionId d)) [] now of
             Inl err \<Rightarrow>
               (s, sendIfOpen s browserSocket
                     (createErrorMessage ''RDP_SESSION_CREATE_FAILED'' ''Unable to create RDP session'' now))
           | Inr (session, mgr) \<Rightarrow>
               if s_agentSocket session \<notin> openSockets s then
                 (s\<lparr> manager := closeRDPSession mgr (s_id session) \<rparr>,
                  sendIfOpen s browserSocket
                    (createErrorMessage ''RDP_AGENT_UNAVAILABLE'' ''Agent is not available'' now))
               else
                 (s\<lparr> manager := mgr \<rparr>,
                  sendIfOpen s (s_agentSocket session)
                    (createMessageString ''rdp:session:request''
                       (Some (sessionRequestJson (s_deviceId session) (s_id session))) now))))"

definition handleRdpSessionResponseFromAgent ::
  "server \<Rightarrow> json option \<Rightarrow> int \<Rightarrow> server \<times> effect list" where
  "handleRdpSessionResponseFromAgent s payload now =
     (case validateRdpSessionResponsePayload payload of
        Inl err \<Rightarrow> (s, [])
      | Inr d \<Rightarrow>
          (case getRDPSession (manager s) (p_sessionId d) of
             None \<Rightarrow> (s, [])
           | Some session \<Rightarrow>
               (let mgr = (if p_success d
                           then (manager s)\<lparr> rdpSessions :=
                                  mapSet (p_sessionId d) (session\<lparr> s_status := Active \<rparr>)
                                    (rdpSessions (manager s)) \<rparr>
                           else closeRDPSession
                                  ((manager s)\<lparr> rdpSessions :=
                                      mapSet (p_sessionId d) (session\<lparr> s_status := Closed \<rparr>)
                                        (rdpSessions (manager s)) \<rparr>)
                                  (s_id session))
                in (s\<lparr> manager := mgr \<rparr>,
                    sendIfOpen s (s_browserSocket session)
                      (createMessageString ''rdp:session:response''
                         (Some (sessionResponseJson (s_id session) (p_success d) (p_error d))) now)))))"

definition handleRdpDataFromBrowser :: "server \<Rightarrow> json option \<Rightarrow> int \<Rightarrow> server \<times> effect list" where
  "handleRdpDataFromBrowser s payload now =
     (case validateRdpDataPayload payload of
        Inl err \<Rightarrow> (s, [])
      | Inr d \<Rightarrow>
          (case getRDPSession (manager s) (t_sessionId d) of
             None \<Rightarrow> (s, [])
           | Some session \<Rightarrow>
               (s, sendIfOpen s (s_agentSocket session)
                     (createMessageString ''rdp:data''
                        (Some (dataJson (s_id session) (t_data d))) now))))"

definition handleRdpDataFromAgent :: "server \<Rightarrow> json option \<Rightarrow> int \<Rightarrow> server \<times> effect list" where
  "handleRdpDataFromAgent s payload now =
     (case validateRdpDataPayload payload of
        Inl err \<Rightarrow> (s, [])
      | Inr d \<Rightarrow>
          (case getRDPSession (manager s) (t_sessionId d) of
             None \<Rightarrow> (s, [])
           | Some session \<Rightarrow>
               (s, sendIfOpen s (s_browserSocket session)
                     (createMessageString ''rdp:data''
                        (Some (dataJson (s_id session) (t_data d))) now))))"

definition handleRdpClose :: "server \<Rightarrow> json option \<Rightarrow> source \<Rightarrow> int \<Rightarrow> server \<times> effect list" where
  "handleRdpClose s payload src now =
     (case validateRdpClosePayload payload of
        Inl err \<Rightarrow> (s, [])
      | Inr d \<Rightarrow>
          (case getRDPSession (manager s) (c_sessionId d) of
             None \<Rightarrow> (s, [])
           | Some session \<Rightarrow>
               (let reason = (case c_reason d of Some r \<Rightarrow> r | None \<Rightarrow> ''Session closed'');
                    targetSocket = (if src = FromBrowser then s_agentSocket session
                                    else s_browserSocket session)
                in (s\<lparr> manager := closeRDPSession (manager s) (s_id session) \<rparr>,
                    sendIfOpen s targetSocket
                      (createMessageString ''rdp:close''
                         (Some (closeJson (s_id session) reason)) now)))))"

definition handleRdpCloseFromBrowser :: "server \<Rightarrow> json option \<Rightarrow> int \<Rightarrow> server \<times> effect list" where
  "handleRdpCloseFromBrowser s payload now = handleRdpClose s payload FromBrowser now"

definition handleRdpCloseFromAgent :: "server \<Rightarrow> json option \<Rightarrow> int \<Rightarrow> server \<times> effect list" where
  "handleRdpCloseFromAgent s payload now = handleRdpClose s payload FromAgent now"

fun closeRdpLoopBrowser :: "server \<Rightarrow> RDPSession list \<Rightarrow> int \<Rightarrow> server \<times> effect list" where
  "closeRdpLoopBrowser s [] now = (s, [])"
| "closeRdpLoopBrowser s (session # rest) now =
     (let s1 = s\<lparr> manager := closeRDPSession (manager s) (s_id session) \<rparr>;
          e1 = sendIfOpen s1 (s_agentSocket session)
                 (createMessageString ''rdp:close''
                    (Some (closeJson (s_id session) ''Browser disconnected'')) now);
          (s2, e2) = closeRdpLoopBrowser s1 rest now
      in (s2, e1 @ e2))"

definition closeRdpSessionsForBrowser :: "server \<Rightarrow> string \<Rightarrow> int \<Rightarrow> server \<times> effect list" where
  "closeRdpSessionsForBrowser s browserId now =
     closeRdpLoopBrowser s (getRDPSessionsByBrowser (manager s) browserId) now"

fun closeRdpLoopAgent :: "server \<Rightarrow> RDPSession list \<Rightarrow> int \<Rightarrow> server \<times> effect list" where
  "closeRdpLoopAgent s [] now = (s, [])"
| "closeRdpLoopAgent s (session # rest) now =
     (let s1 = s\<lparr> manager := closeRDPSession (manager s) (s_id session) \<rparr>;
          e1 = sendIfOpen s1 (s_browserSocket session)
                 (createMessageString ''rdp:close''
                    (Some (closeJson (s_id session) ''Agent disconnected'')) now);
          (s2, e2) = closeRdpLoopAgent s1 rest now
      in (s2, e1 @ e2))"

definition closeRdpSessionsForAgent :: "server \<Rightarrow> string \<Rightarrow> int \<Rightarrow> server \<times> effect list" where
  "closeRdpSessionsForAgent s deviceId now =
     closeRdpLoopAgent s (getRDPSessionsByDevice (manager s) deviceId) now"

text \<open>
  The connection handler (\<open>handler.ts\<close>).
\<close>

datatype deviceStatus = Online | Offline

record listedDevice =
  l_id :: string
  l_name :: string
  l_ipAddress :: string
  l_status :: deviceStatus
  l_capabilities :: capabilities

definition getDeviceList :: "server \<Rightarrow> listedDevice list" where
  "getDeviceList s =
     map (\<lambda>(deviceId, info).
            \<lparr> l_id = deviceId, l_name = a_deviceName info, l_ipAddress = a_ipAddress info,
              l_status = Online, l_capabilities = a_capabilities info \<rparr>)
         (agentConnections s)"

definition capabilitiesJson :: "capabilities \<Rightarrow> json" where
  "capabilitiesJson caps =
     JObj ([(''ssh'', JBool (ssh caps))]
           @ (case rdp caps of None \<Rightarrow> [] | Some r \<Rightarrow> [(''rdp'', JBool r)]))"

definition statusJson :: "deviceStatus \<Rightarrow> json" where
  "statusJson st = (case st of Online \<Rightarrow> JStr ''online'' | Offline \<Rightarrow> JStr ''offline'')"

definition deviceListJson :: "listedDevice list \<Rightarrow> json" where
  "deviceListJson devices =
     JObj [(''devices'', JArr (map (\<lambda>d.
        JObj [(''id'', JStr (l_id d)), (''name'', JStr (l_name d)),
              (''ipAddress'', JStr (l_ipAddress d)), (''status'', statusJson (l_status d)),
              (''capabilities'', capabilitiesJson (l_capabilities d))]) devices))]"

definition broadcastToBrowsers :: "server \<Rightarrow> message \<Rightarrow> effect list" where
  "broadcastToBrowsers s msg =
     concat (map (\<lambda>(k, browser). if b_socket browser \<in> openSockets s
                                   then [Send (b_socket browser) msg] else [])
                 (browserConnections s))"

definition registerAckJson :: "bool \<Rightarrow> string \<Rightarrow> string option \<Rightarrow> json" where
  "registerAckJson success deviceId err =
     JObj ([(''success'', JBool success), (''deviceId'', JStr deviceId)]
           @ (case err of None \<Rightarrow> [] | Some e \<Rightarrow> [(''error'', JStr e)]))"

text \<open>
  \<open>handleAgentRegister\<close> after validation, in two steps as the source has them: the
  block under \<open>// Check if device already connected\<close>, then the block under
  \<open>// Store connection\<close>.
\<close>

definition replaceExisting :: "server \<Rightarrow> string \<Rightarrow> server \<times> effect list" where
  "replaceExisting s deviceId =
     (if mapHas deviceId (agentConnections s) then
        (case mapGet deviceId (agentConnections s) of
           Some existing \<Rightarrow> socketClose s (a_socket existing) 1000 ''Replaced by new connection''
         | None \<Rightarrow> (s, []))
      else (s, []))"

definition storeConnection :: "server \<Rightarrow> socket \<Rightarrow> registerData \<Rightarrow> int \<Rightarrow> int \<Rightarrow> server" where
  "storeConnection s sock d connectedAt now =
     s\<lparr> agentConnections :=
          mapSet (r_deviceId d)
            \<lparr> a_socket = sock, a_deviceId = r_deviceId d, a_deviceName = r_deviceName d,
              a_ipAddress = r_ipAddress d, a_capabilities = r_capabilities d,
              a_connectedAt = connectedAt, a_lastHeartbeat = now \<rparr>
            (agentConnections s),
        registeredDeviceId := mapSet sock (r_deviceId d) (registeredDeviceId s) \<rparr>"

definition handleAgentRegister ::
  "server \<Rightarrow> socket \<Rightarrow> json option \<Rightarrow> int \<Rightarrow> int \<Rightarrow> server \<times> effect list" where
  "handleAgentRegister s sock payload connectedAt now =
     (case validateAgentRegisterPayload payload of
        Inl err \<Rightarrow>
          (s, [Send sock (createMessageString ''agent:register:ack''
                            (Some (registerAckJson False [] (Some err))) now)])
      | Inr d \<Rightarrow>
          (let (s1, e1) = replaceExisting s (r_deviceId d);
               s2 = storeConnection s1 sock d connectedAt now
           in (s2,
               e1 @ [Send sock (createMessageString ''agent:register:ack''
                                  (Some (registerAckJson True (r_deviceId d) None)) now)]
                  @ broadcastToBrowsers s2
                      (createMessageString ''devices:list:response''
                         (Some (deviceListJson (getDeviceList s2))) now))))"

definition heartbeatAckJson :: "int \<Rightarrow> json" where
  "heartbeatAckJson now = JObj [(''success'', JBool True), (''timestamp'', JNum (Finite (of_int now)))]"

definition handleAgentHeartbeat ::
  "server \<Rightarrow> socket \<Rightarrow> json option \<Rightarrow> int \<Rightarrow> server \<times> effect list" where
  "handleAgentHeartbeat s sock payload now =
     (case validateAgentHeartbeatPayload payload of
        Inl err \<Rightarrow> (s, [])
      | Inr deviceId \<Rightarrow>
          (let s1 = (case mapGet deviceId (agentConnections s) of
                       Some connection \<Rightarrow>
                         s\<lparr> agentConnections :=
                              mapSet deviceId (connection\<lparr> a_lastHeartbeat := now \<rparr>)
                                (agentConnections s) \<rparr>
                     | None \<Rightarrow> s)
           in (s1, [Send sock (createMessageString ''agent:heartbeat:ack''
                                 (Some (heartbeatAckJson now)) now)])))"

definition dispatchAgent ::
  "server \<Rightarrow> socket \<Rightarrow> int \<Rightarrow> string \<Rightarrow> json option \<Rightarrow> int \<Rightarrow> server \<times> effect list" where
  "dispatchAgent s sock connectedAt type payload now =
     (if type = ''agent:register'' then handleAgentRegister s sock payload connectedAt now
      else if type = ''agent:heartbeat'' then handleAgentHeartbeat s sock payload now
      else if type = ''ssh:session:response'' then handleSshSessionResponseFromAgent s payload now
      else if type = ''ssh:data'' then handleSshDataFromAgent s payload now
      else if type = ''ssh:close'' then handleSshCloseFromAgent s payload now
      else if type = ''rdp:session:response'' then handleRdpSessionResponseFromAgent s payload now
      else if type = ''rdp:data'' then handleRdpDataFromAgent s payload now
      else if type = ''rdp:close'' then handleRdpCloseFromAgent s payload now
      else (s, []))"

definition agentOnMessage ::
  "server \<Rightarrow> socket \<Rightarrow> int \<Rightarrow> string + json \<Rightarrow> int \<Rightarrow> server \<times> effect list" where
  "agentOnMessage s sock connectedAt parsedData now =
     (case parseMessage parsedData of
        Inl err \<Rightarrow>
          (s, [Send sock (createErrorMessage ''INVALID_MESSAGE'' (orDefault err ''Invalid message'') now)])
      | Inr msg \<Rightarrow>
          if \<not> isHandledMessageType (m_type msg) then (s, [])
          else dispatchAgent s sock connectedAt (m_type msg) (m_payload msg) now)"

definition agentOnClose :: "server \<Rightarrow> socket \<Rightarrow> int \<Rightarrow> server \<times> effect list" where
  "agentOnClose s sock now =
     (case mapGet sock (registeredDeviceId s) of
        None \<Rightarrow> (s, [])
      | Some deviceId \<Rightarrow>
          (let (s1, e1) = closeSessionsForAgent s deviceId now;
               (s2, e2) = closeRdpSessionsForAgent s1 deviceId now;
               s3 = s2\<lparr> agentConnections := mapDelete deviceId (agentConnections s2) \<rparr>
           in (s3, e1 @ e2 @ broadcastToBrowsers s3
                     (createMessageString ''devices:list:response''
                        (Some (deviceListJson (getDeviceList s3))) now))))"

definition handleDeviceListRequest :: "server \<Rightarrow> socket \<Rightarrow> int \<Rightarrow> server \<times> effect list" where
  "handleDeviceListRequest s sock now =
     (s, [Send sock (createMessageString ''devices:list:response''
                       (Some (deviceListJson (getDeviceList s))) now)])"

definition browserOnConnect :: "server \<Rightarrow> socket \<Rightarrow> string \<Rightarrow> int \<Rightarrow> server" where
  "browserOnConnect s sock uuid connectedAt =
     s\<lparr> browserConnections :=
          mapSet uuid \<lparr> b_id = uuid, b_socket = sock, b_connectedAt = connectedAt \<rparr>
            (browserConnections s) \<rparr>"

definition dispatchBrowser ::
  "server \<Rightarrow> string \<Rightarrow> socket \<Rightarrow> string \<Rightarrow> json option \<Rightarrow> int \<Rightarrow> server \<times> effect list" where
  "dispatchBrowser s browserId sock type payload now =
     (if type = ''devices:list:request'' then handleDeviceListRequest s sock now
      else if type = ''ssh:session:request''
        then handleSshSessionRequestFromBrowser s payload browserId sock now
      else if type = ''ssh:data'' then handleSshDataFromBrowser s payload now
      else if type = ''ssh:resize'' then handleSshResizeFromBrowser s payload now
      else if type = ''ssh:close'' then handleSshCloseFromBrowser s payload now
      else if type = ''rdp:session:request''
        then handleRdpSessionRequestFromBrowser s payload browserId sock now
      else if type = ''rdp:data'' then handleRdpDataFromBrowser s payload now
      else if type = ''rdp:close'' then handleRdpCloseFromBrowser s payload now
      else (s, []))"

definition browserOnMessage ::
  "server \<Rightarrow> string \<Rightarrow> socket \<Rightarrow> string + json \<Rightarrow> int \<Rightarrow> server \<times> effect list" where
  "browserOnMessage s browserId sock parsedData now =
     (case parseMessage parsedData of
        Inl err \<Rightarrow>
          (s, [Send sock (createErrorMessage ''INVALID_MESSAGE'' (orDefault err ''Invalid message'') now)])
      | Inr msg \<Rightarrow>
          if \<not> isHandledMessageType (m_type msg) then (s, [])
          else dispatchBrowser s browserId sock (m_type msg) (m_payload msg) now)"

definition browserOnClose :: "server \<Rightarrow> string \<Rightarrow> int \<Rightarrow> server \<times> effect list" where
  "browserOnClose s browserId now =
     (let (s1, e1) = closeSessionsForBrowser s browserId now;
          (s2, e2) = closeRdpSessionsForBrowser s1 browserId now
      in (s2\<lparr> browserConnections := mapDelete browserId (browserConnections s2) \<rparr>, e1 @ e2))"

text \<open>
  The device registry (\<open>device-registry.ts\<close>). \<open>staleScan\<close> is the first loop of
  \<open>cleanupStaleConnections\<close>; an exception of \<open>socket.close\<close> is caught and ignored
  there.
\<close>

definition STALE_THRESHOLD_MS :: int where
  "STALE_THRESHOLD_MS = 90 * 1000"

definition CLEANUP_INTERVAL_MS :: int where
  "CLEANUP_INTERVAL_MS = 30 * 1000"

record Device =
  d_id :: string
  d_name :: string
  d_ipAddress :: string
  d_status :: deviceStatus
  d_capabilities :: capabilities
  d_lastSeen :: int
  d_connectedAt :: int

definition getAllDevices :: "server \<Rightarrow> int \<Rightarrow> Device list" where
  "getAllDevices s now =
     map (\<lambda>(k, connection).
            (let isStale = (now - a_lastHeartbeat connection > STALE_THRESHOLD_MS)
             in \<lparr> d_id = a_deviceId connection, d_name = a_deviceName connection,
                  d_ipAddress = a_ipAddress connection,
                  d_status = (if isStale then Offline else Online),
                  d_capabilities = a_capabilities connection,
                  d_lastSeen = a_lastHeartbeat connection,
                  d_connectedAt = a_connectedAt connection \<rparr>))
         (agentConnections s)"

definition getOnlineDevices :: "server \<Rightarrow> int \<Rightarrow> Device list" where
  "getOnlineDevices s now =
     concat (map (\<lambda>(k, connection).
            (let isStale = (now - a_lastHeartbeat connection > STALE_THRESHOLD_MS)
             in if \<not> isStale then
                  [\<lparr> d_id = a_deviceId connection, d_name = a_deviceName connection,
                     d_ipAddress = a_ipAddress connection, d_status = Online,
                     d_capabilities = a_capabilities connection,
                     d_lastSeen = a_lastHeartbeat connection,
                     d_connectedAt = a_connectedAt connection \<rparr>]
                else []))
         (agentConnections s))"

fun staleScan ::
  "(string \<times> AgentConnectionInfo) list \<Rightarrow> int \<Rightarrow> server \<Rightarrow> string list \<Rightarrow> effect list
   \<Rightarrow> server \<times> string list \<times> effect list" where
  "staleScan [] now s staleDevices effs = (s, staleDevices, effs)"
| "staleScan ((deviceId, connection) # rest) now s staleDevices effs =
     (let timeSinceHeartbeat = now - a_lastHeartbeat connection in
      if timeSinceHeartbeat > STALE_THRESHOLD_MS then
        (let (s1, e1) = socketClose s (a_socket connection) 1000 ''Stale connection''
         in staleScan rest now s1 (staleDevices @ [deviceId]) (effs @ e1))
      else staleScan rest now s staleDevices effs)"

definition cleanupStaleConnections :: "server \<Rightarrow> int \<Rightarrow> server \<times> effect list" where
  "cleanupStaleConnections s now =
     (let (s1, staleDevices, effs) = staleScan (agentConnections s) now s [] []
      in (s1\<lparr> agentConnections :=
               foldl (\<lambda>m deviceId. mapDelete deviceId m) (agentConnections s1) staleDevices \<rparr>,
          effs))"

section \<open>Executions of the relay\<close>

text \<open>
  The events the process reacts to, each delivered to one handler that runs to its end
  before the next event. A transport is \<open>OPEN\<close> when it connects and no longer
  \<open>OPEN\<close> when its close event is delivered; \<open>TransportClosing\<close> is a transport that
  leaves \<open>OPEN\<close> before its close event. The browser id of a browser event and the
  \<open>connectedAt\<close> of an agent message are the values the handlers of that socket close
  over.
\<close>

datatype event =
    AgentConnected socket
  | AgentMessage socket int "string + json" int
  | AgentClosed socket int
  | BrowserConnected socket string int
  | BrowserMessage string socket "string + json" int
  | BrowserClosed string socket int
  | TransportClosing socket
  | SweepTick int

fun step :: "server \<Rightarrow> event \<Rightarrow> server \<times> effect list" where
  "step s (AgentConnected sock) =
     (s\<lparr> openSockets := insert sock (openSockets s),
         registeredDeviceId := mapDelete sock (registeredDeviceId s) \<rparr>, [])"
| "step s (AgentMessage sock connectedAt parsedData now) =
     agentOnMessage s sock connectedAt parsedData now"
| "step s (AgentClosed sock now) =
     agentOnClose (s\<lparr> openSockets := openSockets s - {sock} \<rparr>) sock now"
| "step s (BrowserConnected sock uuid connectedAt) =
     (browserOnConnect (s\<lparr> openSockets := insert sock (openSockets s) \<rparr>) sock uuid connectedAt, [])"
| "step s (BrowserMessage browserId sock parsedData now) =
     browserOnMessage s browserId sock parsedData now"
| "step s (BrowserClosed browserId sock now) =
     browserOnClose (s\<lparr> openSockets := openSockets s - {sock} \<rparr>) browserId now"
| "step s (TransportClosing sock) = (s\<lparr> openSockets := openSockets s - {sock} \<rparr>, [])"
| "step s (SweepTick now) = cleanupStaleConnections s now"

fun runFrom :: "server \<Rightarrow> event list \<Rightarrow> server \<times> effect list" where
  "runFrom s [] = (s, [])"
| "runFrom s (ev # evs) =
     (let (s1, e1) = step s ev; (s2, e2) = runFrom s1 evs in (s2, e1 @ e2))"

definition run :: "event list \<Rightarrow> server" where
  "run evs = fst (runFrom initialServer evs)"

definition currentTransports :: "server \<Rightarrow> string \<Rightarrow> socket list" where
  "currentTransports s deviceId =
     map (\<lambda>(k, c). a_socket c) (filter (\<lambda>(k, c). k = deviceId) (agentConnections s))"

text \<open>
  Two example executions. In the first a browser, two agents and three sessions of the
  browser are set up: terminal sessions \<open>s1\<close> on \<open>pi-1\<close> and \<open>s2\<close> on \<open>pi-2\<close>, and the
  remote-desktop session \<open>r1\<close> on \<open>pi-1\<close>. In the second one agent registers \<open>pi-1\<close>.
\<close>

definition envelope :: "string \<Rightarrow> json \<Rightarrow> json" where
  "envelope type payload =
     JObj [(''type'', JStr type), (''timestamp'', JNum (Finite 1)), (''payload'', payload)]"

definition registerPayload :: "string \<Rightarrow> json" where
  "registerPayload deviceId =
     JObj [(''deviceId'', JStr deviceId), (''deviceName'', JStr ''Pi''),
           (''ipAddress'', JStr ''10.0.0.5''), (''capabilities'', JObj [(''ssh'', JBool True)])]"

definition requestPayload :: "string \<Rightarrow> string \<Rightarrow> json" where
  "requestPayload deviceId sessionId =
     JObj [(''deviceId'', JStr deviceId), (''sessionId'', JStr sessionId)]"

definition exampleEvents :: "event list" where
  "exampleEvents =
     [BrowserConnected 10 ''b1'' 0,
      AgentConnected 1,
      AgentMessage 1 1 (Inr (envelope ''agent:register'' (registerPayload ''pi-1''))) 2,
      AgentConnected 2,
      AgentMessage 2 3 (Inr (envelope ''agent:register'' (registerPayload ''pi-2''))) 4,
      BrowserMessage ''b1'' 10 (Inr (envelope ''ssh:session:request'' (requestPayload ''pi-1'' ''s1''))) 5,
      BrowserMessage ''b1'' 10 (Inr (envelope ''ssh:session:request'' (requestPayload ''pi-2'' ''s2''))) 6,
      BrowserMessage ''b1'' 10 (Inr (envelope ''rdp:session:request'' (requestPayload ''pi-1'' ''r1''))) 7]"

definition replacementEvents :: "event list" where
  "replacementEvents =
     [AgentConnected 1,
      AgentMessage 1 1 (Inr (envelope ''agent:register'' (registerPayload ''pi-1''))) 2]"

lemma closeSshLoopBrowser_frame:
  "closeSshLoopBrowser s ss now = (s', e) \<Longrightarrow>
   agentConnections s' = agentConnections s \<and> browserConnections s' = browserConnections s
   \<and> openSockets s' = openSockets s \<and> registeredDeviceId s' = registeredDeviceId s"
  by (induction ss arbitrary: s e) (auto simp: Let_def split: prod.splits)

lemma closeSshLoopAgent_frame:
  "closeSshLoopAgent s ss now = (s', e) \<Longrightarrow>
   agentConnections s' = agentConnections s \<and> browserConnections s' = browserConnections s
   \<and> openSockets s' = openSockets s \<and> registeredDeviceId s' = registeredDeviceId s"
  by (induction ss arbitrary: s e) (auto simp: Let_def split: prod.splits)

lemma closeRdpLoopBrowser_frame:
  "closeRdpLoopBrowser s ss now = (s', e) \<Longrightarrow>
   agentConnections s' = agentConnections s \<and> browserConnections s' = browserConnections s
   \<and> openSockets s' = openSockets s \<and> registeredDeviceId s' = registeredDeviceId s"
  by (induction ss arbitrary: s e) (auto simp: Let_def split: prod.splits)

lemma closeRdpLoopAgent_frame:
  "closeRdpLoopAgent s ss now = (s', e) \<Longrightarrow>
   agentConnections s' = agentConnections s \<and> browserConnections s' = browserConnections s
   \<and> openSockets s' = openSockets s \<and> registeredDeviceId s' = registeredDeviceId s"
  by (induction ss arbitrary: s e) (auto simp: Let_def split: prod.splits)

lemmas closeLoop_frames = closeSshLoopBrowser_frame closeSshLoopAgent_frame
  closeRdpLoopBrowser_frame closeRdpLoopAgent_frame

lemma staleScan_agents:
  "staleScan conns now s stale effs = (s', stale', effs') \<Longrightarrow>
   agentConnections s' = agentConnections s"
  by (induction conns arbitrary: s stale effs)
     (auto simp: Let_def socketClose_def split: if_splits prod.splits)

lemma distinct_foldl_mapDelete:
  "distinct (map fst m) \<Longrightarrow> distinct (map fst (foldl (\<lambda>m k. mapDelete k m) m ks))"
  by (induction ks arbitrary: m) (simp_all add: distinct_mapDelete)

definition registryOk :: "server \<Rightarrow> bool" where
  "registryOk s \<longleftrightarrow> distinct (map fst (agentConnections s))"

lemma proxy_agents_unchanged:
  "agentConnections (fst (handleSshSessionRequestFromBrowser s p b sock now)) = agentConnections s"
  "agentConnections (fst (handleSshSessionResponseFromAgent s p now)) = agentConnections s"
  "agentConnections (fst (handleSshDataFromBrowser s p now)) = agentConnections s"
  "agentConnections (fst (handleSshDataFromAgent s p now)) = agentConnections s"
  "agentConnections (fst (handleSshResizeFromBrowser s p now)) = agentConnections s"
  "agentConnections (fst (handleSshClose s p src now)) = agentConnections s"
  "agentConnections (fst (handleRdpSessionRequestFromBrowser s p b sock now)) = agentConnections s"
  "agentConnections (fst (handleRdpSessionResponseFromAgent s p now)) = agentConnections s"
  "agentConnections (fst (handleRdpDataFromBrowser s p now)) = agentConnections s"
  "agentConnections (fst (handleRdpDataFromAgent s p now)) = agentConnections s"
  "agentConnections (fst (handleRdpClose s p src now)) = agentConnections s"
  by (simp_all add: handleSshSessionRequestFromBrowser_def handleSshSessionResponseFromAgent_def
      handleSshDataFromBrowser_def handleSshDataFromAgent_def handleSshResizeFromBrowser_def
      handleSshClose_def handleRdpSessionRequestFromBrowser_def
      handleRdpSessionResponseFromAgent_def handleRdpDataFromBrowser_def
      handleRdpDataFromAgent_def handleRdpClose_def Let_def
      split: sum.splits option.splits prod.splits)

lemma replaceExisting_agents:
  "agentConnections (fst (replaceExisting s deviceId)) = agentConnections s"
  by (simp add: replaceExisting_def socketClose_def split: option.splits)

lemma handleAgentRegister_ok:
  "registryOk s \<Longrightarrow> registryOk (fst (handleAgentRegister s sock p c now))"
proof (cases "validateAgentRegisterPayload p")
  case (Inl e)
  assume "registryOk s"
  then show ?thesis using Inl by (simp add: handleAgentRegister_def)
next
  case (Inr d)
  assume "registryOk s"
  then have "distinct (map fst (agentConnections (fst (replaceExisting s (r_deviceId d)))))"
    by (simp add: replaceExisting_agents registryOk_def)
  then show ?thesis using Inr
    by (simp add: handleAgentRegister_def registryOk_def storeConnection_def Let_def
        distinct_mapSet case_prod_beta)
qed

lemma handleAgentHeartbeat_ok:
  "registryOk s \<Longrightarrow> registryOk (fst (handleAgentHeartbeat s sock p now))"
  by (auto simp: handleAgentHeartbeat_def registryOk_def Let_def distinct_mapSet
      split: sum.splits option.splits)

lemma dispatchAgent_ok:
  "registryOk s \<Longrightarrow> registryOk (fst (dispatchAgent s sock c t p now))"
  by (simp add: dispatchAgent_def handleAgentRegister_ok handleAgentHeartbeat_ok
      handleSshCloseFromAgent_def handleRdpCloseFromAgent_def)
     (simp add: registryOk_def proxy_agents_unchanged)

lemma agentOnMessage_ok:
  "registryOk s \<Longrightarrow> registryOk (fst (agentOnMessage s sock c raw now))"
  by (simp add: agentOnMessage_def dispatchAgent_ok split: sum.splits)

lemma dispatchBrowser_ok:
  "registryOk s \<Longrightarrow> registryOk (fst (dispatchBrowser s b sock t p now))"
  by (simp add: dispatchBrowser_def handleSshCloseFromBrowser_def handleRdpCloseFromBrowser_def
      handleDeviceListRequest_def registryOk_def proxy_agents_unchanged)

lemma browserOnMessage_ok:
  "registryOk s \<Longrightarrow> registryOk (fst (browserOnMessage s b sock raw now))"
  by (simp add: browserOnMessage_def dispatchBrowser_ok split: sum.splits)

lemma agentOnClose_ok:
  "registryOk s \<Longrightarrow> registryOk (fst (agentOnClose s sock now))"
  by (auto simp: agentOnClose_def registryOk_def closeSessionsForAgent_def
      closeRdpSessionsForAgent_def Let_def distinct_mapDelete
      split: option.splits prod.splits dest!: closeLoop_frames)

lemma browserOnClose_ok:
  "registryOk s \<Longrightarrow> registryOk (fst (browserOnClose s b now))"
  by (auto simp: browserOnClose_def registryOk_def closeSessionsForBrowser_def
      closeRdpSessionsForBrowser_def Let_def
      split: option.splits prod.splits dest!: closeLoop_frames)

lemma cleanupStaleConnections_ok:
  "registryOk s \<Longrightarrow> registryOk (fst (cleanupStaleConnections s now))"
  by (auto simp: cleanupStaleConnections_def registryOk_def Let_def distinct_foldl_mapDelete
      split: prod.splits dest!: staleScan_agents)

lemma step_ok: "registryOk s \<Longrightarrow> registryOk (fst (step s ev))"
proof (cases ev)
  case (AgentClosed sock now)
  assume "registryOk s"
  then have "registryOk (s\<lparr> openSockets := openSockets s - {sock} \<rparr>)"
    by (simp add: registryOk_def)
  then show ?thesis using AgentClosed by (simp add: agentOnClose_ok)
next
  case (BrowserClosed b sock now)
  assume "registryOk s"
  then have "registryOk (s\<lparr> openSockets := openSockets s - {sock} \<rparr>)"
    by (simp add: registryOk_def)
  then show ?thesis using BrowserClosed by (simp add: browserOnClose_ok)
qed (simp_all add: agentOnMessage_ok browserOnMessage_ok cleanupStaleConnections_ok,
     simp_all add: registryOk_def browserOnConnect_def)

lemma runFrom_ok: "registryOk s \<Longrightarrow> registryOk (fst (runFrom s evs))"
proof (induction evs arbitrary: s)
  case Nil
  then show ?case by simp
next
  case (Cons ev evs)
  from Cons.prems have "registryOk (fst (step s ev))" by (rule step_ok)
  from Cons.IH[OF this] show ?case
    by (cases "step s ev"; cases "runFrom (fst (step s ev)) evs") simp
qed

lemma run_ok: "registryOk (run evs)"
  unfolding run_def by (rule runFrom_ok) (simp add: registryOk_def initialServer_def)

lemma distinct_keys_filter_le1:
  "distinct (map fst m) \<Longrightarrow> length (filter (\<lambda>(k, v). k = d) m) \<le> 1"
proof (induction m)
  case Nil
  then show ?case by simp
next
  case (Cons a m)
  obtain k v where a: "a = (k, v)" by (cases a)
  show ?case
  proof (cases "k = d")
    case True
    with Cons.prems a have "d \<notin> set (map fst m)" by simp
    then have "filter (\<lambda>(k, v). k = d) m = []"
      by (force simp: filter_empty_conv)
    with True a show ?thesis by simp
  next
    case False
    with Cons a show ?thesis by simp
  qed
qed

text \<open>
  Claim C4. When a valid registration names a device id that the registry holds, the
  first step of \<open>handleAgentRegister\<close> sends the close signal
  (1000, "Replaced by new connection") to the transport of the existing connection and
  leaves the registry as it was; only the second step stores the new connection. So the
  close signal is the first call the handler makes, and afterwards the registry maps the
  device id to the new transport. And in every state of every execution the registry
  holds at most one transport per device id, also after the close event of a replaced
  transport. (In the example that close event removes the entry of the device id, which
  by then is the new connection: no transport is current afterwards.)
\<close>

theorem single_transport_per_device:
  "(validateAgentRegisterPayload payload = Inr d
      \<and> mapGet (r_deviceId d) (agentConnections s) = Some existing \<longrightarrow>
        snd (replaceExisting s (r_deviceId d))
          = [Close (a_socket existing) 1000 ''Replaced by new connection'']
        \<and> agentConnections (fst (replaceExisting s (r_deviceId d))) = agentConnections s
        \<and> a_socket existing \<notin> openSockets (fst (replaceExisting s (r_deviceId d)))
        \<and> handleAgentRegister s sock payload connectedAt now
            = (storeConnection (fst (replaceExisting s (r_deviceId d))) sock d connectedAt now,
               snd (handleAgentRegister s sock payload connectedAt now))
        \<and> take 1 (snd (handleAgentRegister s sock payload connectedAt now))
            = [Close (a_socket existing) 1000 ''Replaced by new connection'']
        \<and> map_option a_socket
             (mapGet (r_deviceId d)
                (agentConnections (fst (handleAgentRegister s sock payload connectedAt now))))
            = Some sock)
   \<and> length (currentTransports (run evs) deviceId) \<le> 1"
proof -
  have g: "mapGet k (mapSet k v m) = Some v" for k :: string and v :: AgentConnectionInfo and m
    by (induction m) (auto simp: mapGet_def)
  have h: "mapHas k m" if "mapGet k m = Some v" for k :: string and v :: AgentConnectionInfo and m
    using that mapGet_None_iff[of k m] by auto
  have "length (currentTransports (run evs) deviceId) \<le> 1"
    using run_ok[of evs] distinct_keys_filter_le1[of "agentConnections (run evs)" deviceId]
    by (simp add: currentTransports_def registryOk_def)
  then show ?thesis
    by (auto simp: replaceExisting_def socketClose_def handleAgentRegister_def Let_def
        storeConnection_def g h split: prod.splits)
qed

theorem single_transport_per_device_witness:
  "currentTransports (run replacementEvents) ''pi-1'' = [1]
   \<and> snd (replaceExisting (run replacementEvents) ''pi-1'')
       = [Close 1 1000 ''Replaced by new connection'']
   \<and> currentTransports (fst (replaceExisting (run replacementEvents) ''pi-1'')) ''pi-1'' = [1]
   \<and> take 1 (snd (handleAgentRegister (run replacementEvents) 2
                   (Some (registerPayload ''pi-1'')) 3 4))
       = [Close 1 1000 ''Replaced by new connection'']
   \<and> currentTransports (fst (handleAgentRegister (run replacementEvents) 2
                               (Some (registerPayload ''pi-1'')) 3 4)) ''pi-1'' = [2]
   \<and> currentTransports
        (run (replacementEvents @
           [AgentConnected 2,
            AgentMessage 2 3 (Inr (envelope ''agent:register'' (registerPayload ''pi-1''))) 4]))
        ''pi-1'' = [2]
   \<and> currentTransports
        (run (replacementEvents @
           [AgentConnected 2,
            AgentMessage 2 3 (Inr (envelope ''agent:register'' (registerPayload ''pi-1''))) 4,
            AgentClosed 1 5]))
        ''pi-1'' = []
   \<and> length (currentTransports
        (run (replacementEvents @
           [AgentConnected 2,
            AgentMessage 2 3 (Inr (envelope ''agent:register'' (registerPayload ''pi-1''))) 4,
            AgentClosed 1 5]))
        ''pi-1'') \<le> 1"
proof -
  define st where "st = run replacementEvents"
  define d where "d = \<lparr> r_deviceId = ''pi-1'', r_deviceName = ''Pi'', r_ipAddress = ''10.0.0.5'',
                         r_capabilities = \<lparr> ssh = True, rdp = None \<rparr> \<rparr>"
  define existing where "existing = \<lparr> a_socket = 1, a_deviceId = ''pi-1'', a_deviceName = ''Pi'',
      a_ipAddress = ''10.0.0.5'', a_capabilities = \<lparr> ssh = True, rdp = None \<rparr>,
      a_connectedAt = 1, a_lastHeartbeat = 2 \<rparr>"
  have v: "validateAgentRegisterPayload (Some (registerPayload ''pi-1'')) = Inr d"
    unfolding d_def by code_simp
  have g: "mapGet (r_deviceId d) (agentConnections st) = Some existing"
    unfolding d_def st_def existing_def by code_simp
  have e: "currentTransports st ''pi-1'' = [1]"
    "currentTransports (fst (replaceExisting st ''pi-1'')) ''pi-1'' = [1]"
    "currentTransports (fst (handleAgentRegister st 2 (Some (registerPayload ''pi-1'')) 3 4)) ''pi-1''
       = [2]"
    "currentTransports
        (run (replacementEvents @
           [AgentConnected 2,
            AgentMessage 2 3 (Inr (envelope ''agent:register'' (registerPayload ''pi-1''))) 4]))
        ''pi-1'' = [2]"
    "currentTransports
        (run (replacementEvents @
           [AgentConnected 2,
            AgentMessage 2 3 (Inr (envelope ''agent:register'' (registerPayload ''pi-1''))) 4,
            AgentClosed 1 5]))
        ''pi-1'' = []"
    unfolding st_def by code_simp+
  note t = single_transport_per_device[of "Some (registerPayload ''pi-1'')" d st existing 2 3 4
      "replacementEvents @
           [AgentConnected 2,
            AgentMessage 2 3 (Inr (envelope ''agent:register'' (registerPayload ''pi-1''))) 4,
            AgentClosed 1 5]" "''pi-1''"]
  from t v g have
    "snd (replaceExisting st (r_deviceId d))
          = [Close (a_socket existing) 1000 ''Replaced by new connection'']"
    "take 1 (snd (handleAgentRegister st 2 (Some (registerPayload ''pi-1'')) 3 4))
          = [Close (a_socket existing) 1000 ''Replaced by new connection'']"
    "length (currentTransports
        (run (replacementEvents @
           [AgentConnected 2,
            AgentMessage 2 3 (Inr (envelope ''agent:register'' (registerPayload ''pi-1''))) 4,
            AgentClosed 1 5]))
        ''pi-1'') \<le> 1"
    by blast+
  then show ?thesis
    using e unfolding st_def d_def existing_def by simp
qed

section \<open>Device presence (server/src/services/device-registry.ts)\<close>

text \<open>
  The staleness test that \<open>getAllDevices\<close>, \<open>getOnlineDevices\<close> and
  \<open>cleanupStaleConnections\<close> all make: the last heartbeat is more than the threshold
  before the current time.
\<close>

definition isStale :: "int \<Rightarrow> AgentConnectionInfo \<Rightarrow> bool" where
  "isStale now connection \<longleftrightarrow> now - a_lastHeartbeat connection > STALE_THRESHOLD_MS"

lemma staleScan_result:
  "staleScan conns now s stale effs =
     (s\<lparr> openSockets := openSockets s
            - set (map (\<lambda>(k, c). a_socket c) (filter (\<lambda>(k, c). isStale now c) conns)) \<rparr>,
      stale @ map fst (filter (\<lambda>(k, c). isStale now c) conns),
      effs @ map (\<lambda>(k, c). Close (a_socket c) 1000 ''Stale connection'')
               (filter (\<lambda>(k, c). isStale now c) conns))"
proof (induction conns arbitrary: s stale effs)
  case Nil
  then show ?case by simp
next
  case (Cons a conns)
  obtain k c where a: "a = (k, c)" by (cases a)
  show ?case
  proof (cases "isStale now c")
    case True
    have "openSockets s - {a_socket c} - set (map (\<lambda>(k, c). a_socket c) (filter (\<lambda>(k, c). isStale now c) conns))
          = openSockets s - insert (a_socket c) (set (map (\<lambda>(k, c). a_socket c) (filter (\<lambda>(k, c). isStale now c) conns)))"
      by auto
    with True show ?thesis
      by (simp add: a Cons.IH Let_def socketClose_def isStale_def)
  next
    case False
    then show ?thesis
      by (simp add: a Cons.IH Let_def isStale_def)
  qed
qed

lemma foldl_mapDelete_filter:
  "foldl (\<lambda>m k. mapDelete k m) m ks = filter (\<lambda>(k, v). k \<notin> set ks) m"
proof (induction ks arbitrary: m)
  case Nil
  then show ?case by simp
next
  case (Cons k ks)
  have "filter (\<lambda>(k', v). k' \<notin> set ks) (mapDelete k m) = filter (\<lambda>(k', v). k' \<notin> set (k # ks)) m"
    by (induction m) (auto simp: mapDelete_def)
  with Cons show ?case by simp
qed

lemma distinct_keys_stale_filter:
  assumes "distinct (map fst m)"
  shows "filter (\<lambda>(k, v). k \<notin> set (map fst (filter (\<lambda>(k, c). P c) m))) m
         = filter (\<lambda>(k, c). \<not> P c) m"
proof (rule filter_cong[OF refl])
  fix x assume x: "x \<in> set m"
  obtain k c where kc: "x = (k, c)" by (cases x)
  have "k \<in> set (map fst (filter (\<lambda>(k, c). P c) m)) \<longleftrightarrow> P c"
  proof
    assume "k \<in> set (map fst (filter (\<lambda>(k, c). P c) m))"
    then obtain c' where c': "(k, c') \<in> set m" "P c'" by auto
    from assms x kc c'(1) have "c' = c"
      by (meson eq_key_imp_eq_value)
    with c' show "P c" by simp
  next
    assume "P c"
    with x kc show "k \<in> set (map fst (filter (\<lambda>(k, c). P c) m))" by force
  qed
  then show "(case x of (k, v) \<Rightarrow> k \<notin> set (map fst (filter (\<lambda>(k, c). P c) m)))
             = (case x of (k, c) \<Rightarrow> \<not> P c)"
    by (simp add: kc)
qed

text \<open>
  Property X1. In the device registry module the status follows the heartbeat:
  \<open>getAllDevices\<close> lists every registered agent, offline when its last heartbeat is more
  than 90000 ms old and online otherwise; \<open>getOnlineDevices\<close> lists the agents that are
  not stale; \<open>cleanupStaleConnections\<close> sends the close signal (1000, "Stale connection")
  to the transport of each stale agent, in registry order, and removes the stale agents
  from a registry whose keys are distinct, as they are in every state of every execution.
\<close>

theorem presence_follows_heartbeat:
  "map (\<lambda>d. (d_id d, d_status d)) (getAllDevices s now)
     = map (\<lambda>(k, c). (a_deviceId c, if now - a_lastHeartbeat c > 90000 then Offline else Online))
         (agentConnections s)
   \<and> map d_id (getOnlineDevices s now)
     = map (\<lambda>(k, c). a_deviceId c)
         (filter (\<lambda>(k, c). \<not> now - a_lastHeartbeat c > 90000) (agentConnections s))
   \<and> snd (cleanupStaleConnections s now)
     = map (\<lambda>(k, c). Close (a_socket c) 1000 ''Stale connection'')
         (filter (\<lambda>(k, c). now - a_lastHeartbeat c > 90000) (agentConnections s))
   \<and> (distinct (map fst (agentConnections s)) \<longrightarrow>
        agentConnections (fst (cleanupStaleConnections s now))
          = filter (\<lambda>(k, c). \<not> now - a_lastHeartbeat c > 90000) (agentConnections s))
   \<and> distinct (map fst (agentConnections (run evs)))"
proof -
  have 1: "map (\<lambda>d. (d_id d, d_status d)) (getAllDevices s now)
     = map (\<lambda>(k, c). (a_deviceId c, if now - a_lastHeartbeat c > 90000 then Offline else Online))
         (agentConnections s)"
    by (simp add: getAllDevices_def STALE_THRESHOLD_MS_def Let_def case_prod_beta)
  have 2: "map d_id (getOnlineDevices s now)
     = map (\<lambda>(k, c). a_deviceId c)
         (filter (\<lambda>(k, c). \<not> now - a_lastHeartbeat c > 90000) (agentConnections s))"
  proof -
    have "map d_id (concat (map (\<lambda>(k, connection).
            (let isStale = (now - a_lastHeartbeat connection > STALE_THRESHOLD_MS)
             in if \<not> isStale then
                  [\<lparr> d_id = a_deviceId connection, d_name = a_deviceName connection,
                     d_ipAddress = a_ipAddress connection, d_status = Online,
                     d_capabilities = a_capabilities connection,
                     d_lastSeen = a_lastHeartbeat connection,
                     d_connectedAt = a_connectedAt connection \<rparr>]
                else [])) m))
          = map (\<lambda>(k, c). a_deviceId c)
              (filter (\<lambda>(k, c). \<not> now - a_lastHeartbeat c > 90000) m)"
      for m :: "(string \<times> AgentConnectionInfo) list"
      by (induction m) (auto simp: Let_def STALE_THRESHOLD_MS_def)
    then show ?thesis by (simp add: getOnlineDevices_def)
  qed
  have st: "isStale now = (\<lambda>c. now - a_lastHeartbeat c > 90000)"
    by (auto simp: isStale_def STALE_THRESHOLD_MS_def)
  have 3: "snd (cleanupStaleConnections s now)
     = map (\<lambda>(k, c). Close (a_socket c) 1000 ''Stale connection'')
         (filter (\<lambda>(k, c). now - a_lastHeartbeat c > 90000) (agentConnections s))"
    by (simp add: cleanupStaleConnections_def staleScan_result st)
  have 4: "agentConnections (fst (cleanupStaleConnections s now))
          = filter (\<lambda>(k, c). \<not> now - a_lastHeartbeat c > 90000) (agentConnections s)"
    if "distinct (map fst (agentConnections s))"
    using distinct_keys_stale_filter[OF that, of "\<lambda>c. now - a_lastHeartbeat c > 90000"]
    by (simp add: cleanupStaleConnections_def staleScan_result st foldl_mapDelete_filter)
  have 5: "distinct (map fst (agentConnections (run evs)))"
    using run_ok[of evs] by (simp add: registryOk_def)
  from 1 2 3 4 5 show ?thesis by blast
qed

theorem presence_follows_heartbeat_witness:
  "distinct (map fst (agentConnections (run exampleEvents)))
   \<and> map (\<lambda>(k, c). a_lastHeartbeat c) (agentConnections (run exampleEvents)) = [2, 4]
   \<and> agentConnections (fst (cleanupStaleConnections (run exampleEvents) 90003))
       = filter (\<lambda>(k, c). \<not> 90003 - a_lastHeartbeat c > 90000) (agentConnections (run exampleEvents))
   \<and> map fst (agentConnections (fst (cleanupStaleConnections (run exampleEvents) 90003))) = [''pi-2'']
   \<and> snd (cleanupStaleConnections (run exampleEvents) 90003) = [Close 1 1000 ''Stale connection'']
   \<and> map (\<lambda>d. (d_id d, d_status d)) (getAllDevices (run exampleEvents) 90003)
       = [(''pi-1'', Offline), (''pi-2'', Online)]
   \<and> map d_id (getOnlineDevices (run exampleEvents) 90003) = [''pi-2'']"
proof -
  define st where "st = run exampleEvents"
  have d: "distinct (map fst (agentConnections st))"
    and h: "map (\<lambda>(k, c). a_lastHeartbeat c) (agentConnections st) = [2, 4]"
    and k: "map fst (agentConnections (fst (cleanupStaleConnections st 90003))) = [''pi-2'']"
    and e: "snd (cleanupStaleConnections st 90003) = [Close 1 1000 ''Stale connection'']"
    and a: "map (\<lambda>d. (d_id d, d_status d)) (getAllDevices st 90003)
       = [(''pi-1'', Offline), (''pi-2'', Online)]"
    and b: "map d_id (getOnlineDevices st 90003) = [''pi-2'']"
    unfolding st_def by code_simp+
  from presence_follows_heartbeat[of st 90003 "[]"] d
  have "agentConnections (fst (cleanupStaleConnections st 90003))
       = filter (\<lambda>(k, c). \<not> 90003 - a_lastHeartbeat c > 90000) (agentConnections st)"
    by blast
  with d h k e a b show ?thesis unfolding st_def by blast
qed

text \<open>
  Claim C5 at a state with two agents whose last heartbeats, at times 2 and 4, are older
  than the threshold at time 100000. \<open>getAllDevices\<close> reports both devices offline,
  \<open>getOnlineDevices\<close> lists neither, and the sweep closes both transports and removes
  both agents. But \<open>getDeviceList\<close>, which answers \<open>devices:list:request\<close> and fills
  every broadcast, reports both devices with status online.
\<close>

theorem stale_device_listed_online:
  "map (\<lambda>(k, c). a_lastHeartbeat c) (agentConnections (run exampleEvents)) = [2, 4]
   \<and> 100000 - 2 > STALE_THRESHOLD_MS
   \<and> map (\<lambda>d. (l_id d, l_status d)) (getDeviceList (run exampleEvents))
       = [(''pi-1'', Online), (''pi-2'', Online)]
   \<and> snd (handleDeviceListRequest (run exampleEvents) 10 100000)
       = [Send 10 (createMessageString ''devices:list:response''
            (Some (JObj [(''devices'', JArr
               [JObj [(''id'', JStr ''pi-1''), (''name'', JStr ''Pi''),
                      (''ipAddress'', JStr ''10.0.0.5''), (''status'', JStr ''online''),
                      (''capabilities'', JObj [(''ssh'', JBool True)])],
                JObj [(''id'', JStr ''pi-2''), (''name'', JStr ''Pi''),
                      (''ipAddress'', JStr ''10.0.0.5''), (''status'', JStr ''online''),
                      (''capabilities'', JObj [(''ssh'', JBool True)])]])])) 100000)]
   \<and> map (\<lambda>d. (d_id d, d_status d)) (getAllDevices (run exampleEvents) 100000)
       = [(''pi-1'', Offline), (''pi-2'', Offline)]
   \<and> getOnlineDevices (run exampleEvents) 100000 = []
   \<and> agentConnections (fst (cleanupStaleConnections (run exampleEvents) 100000)) = []
   \<and> snd (cleanupStaleConnections (run exampleEvents) 100000)
       = [Close 1 1000 ''Stale connection'', Close 2 1000 ''Stale connection'']"
  by code_simp

section \<open>Cascading cleanup on disconnect\<close>

lemma mapGet_mapDelete: "mapGet k (mapDelete i m) = (if k = i then None else mapGet k m)"
  by (induction m) (auto simp: mapGet_def mapDelete_def)

lemma closeSession_lookup:
  "mapGet k (sessions (closeSession m i)) = (if k = i then None else mapGet k (sessions m))"
  by (auto simp: closeSession_def mapGet_mapDelete split: option.splits)

lemma closeRDPSession_lookup:
  "mapGet k (rdpSessions (closeRDPSession m i)) = (if k = i then None else mapGet k (rdpSessions m))"
  by (auto simp: closeRDPSession_def mapGet_mapDelete split: option.splits)

lemma closeSession_rdp_frame:
  "rdpSessions (closeSession m i) = rdpSessions m"
  "rdpSessionsByBrowser (closeSession m i) = rdpSessionsByBrowser m"
  "rdpSessionsByDevice (closeSession m i) = rdpSessionsByDevice m"
  by (simp_all add: closeSession_def split: option.splits)

lemma closeRDPSession_ssh_frame:
  "sessions (closeRDPSession m i) = sessions m"
  "sessionsByBrowser (closeRDPSession m i) = sessionsByBrowser m"
  "sessionsByDevice (closeRDPSession m i) = sessionsByDevice m"
  by (simp_all add: closeRDPSession_def split: option.splits)

definition browserDisconnectNotice :: "string \<Rightarrow> 'a Session_scheme \<Rightarrow> int \<Rightarrow> message" where
  "browserDisconnectNotice type session now =
     createMessageString type (Some (closeJson (s_id session) ''Browser disconnected'')) now"

definition agentDisconnectNotice :: "string \<Rightarrow> 'a Session_scheme \<Rightarrow> int \<Rightarrow> message" where
  "agentDisconnectNotice type session now =
     createMessageString type (Some (closeJson (s_id session) ''Agent disconnected'')) now"

lemma closeSshLoopBrowser_result:
  "closeSshLoopBrowser s ss now =
     (s\<lparr> manager := foldl closeSession (manager s) (map s_id ss) \<rparr>,
      concat (map (\<lambda>session. sendIfOpen s (s_agentSocket session)
                     (browserDisconnectNotice ''ssh:close'' session now)) ss))"
proof (induction ss arbitrary: s)
  case Nil
  then show ?case by simp
next
  case (Cons a ss)
  show ?case
    by (simp add: Cons.IH Let_def sendIfOpen_def browserDisconnectNotice_def)
qed

lemma closeSshLoopAgent_result:
  "closeSshLoopAgent s ss now =
     (s\<lparr> manager := foldl closeSession (manager s) (map s_id ss) \<rparr>,
      concat (map (\<lambda>session. sendIfOpen s (s_browserSocket session)
                     (agentDisconnectNotice ''ssh:close'' session now)) ss))"
proof (induction ss arbitrary: s)
  case Nil
  then show ?case by simp
next
  case (Cons a ss)
  show ?case
    by (simp add: Cons.IH Let_def sendIfOpen_def agentDisconnectNotice_def)
qed

lemma closeRdpLoopBrowser_result:
  "closeRdpLoopBrowser s ss now =
     (s\<lparr> manager := foldl closeRDPSession (manager s) (map s_id ss) \<rparr>,
      concat (map (\<lambda>session. sendIfOpen s (s_agentSocket session)
                     (browserDisconnectNotice ''rdp:close'' session now)) ss))"
proof (induction ss arbitrary: s)
  case Nil
  then show ?case by simp
next
  case (Cons a ss)
  show ?case
    by (simp add: Cons.IH Let_def sendIfOpen_def browserDisconnectNotice_def)
qed

lemma closeRdpLoopAgent_result:
  "closeRdpLoopAgent s ss now =
     (s\<lparr> manager := foldl closeRDPSession (manager s) (map s_id ss) \<rparr>,
      concat (map (\<lambda>session. sendIfOpen s (s_browserSocket session)
                     (agentDisconnectNotice ''rdp:close'' session now)) ss))"
proof (induction ss arbitrary: s)
  case Nil
  then show ?case by simp
next
  case (Cons a ss)
  show ?case
    by (simp add: Cons.IH Let_def sendIfOpen_def agentDisconnectNotice_def)
qed

lemma foldl_closeSession_lookup:
  "mapGet k (sessions (foldl closeSession m ids)) = (if k \<in> set ids then None else mapGet k (sessions m))"
  by (induction ids arbitrary: m) (auto simp: closeSession_lookup)

lemma foldl_closeRDPSession_lookup:
  "mapGet k (rdpSessions (foldl closeRDPSession m ids))
     = (if k \<in> set ids then None else mapGet k (rdpSessions m))"
  by (induction ids arbitrary: m) (auto simp: closeRDPSession_lookup)

lemma foldl_closeSession_rdp_frame:
  "rdpSessions (foldl closeSession m ids) = rdpSessions m"
  "rdpSessionsByBrowser (foldl closeSession m ids) = rdpSessionsByBrowser m"
  "rdpSessionsByDevice (foldl closeSession m ids) = rdpSessionsByDevice m"
  by (induction ids arbitrary: m) (simp_all add: closeSession_rdp_frame)

lemma foldl_closeRDPSession_ssh_frame:
  "sessions (foldl closeRDPSession m ids) = sessions m"
  "sessionsByBrowser (foldl closeRDPSession m ids) = sessionsByBrowser m"
  "sessionsByDevice (foldl closeRDPSession m ids) = sessionsByDevice m"
  by (induction ids arbitrary: m) (simp_all add: closeRDPSession_ssh_frame)

lemma getRDPSessionsByBrowser_after_ssh:
  "getRDPSessionsByBrowser (foldl closeSession m ids) b = getRDPSessionsByBrowser m b"
  "getRDPSessionsByDevice (foldl closeSession m ids) d = getRDPSessionsByDevice m d"
  by (simp_all add: getRDPSessionsByBrowser_def getRDPSessionsByDevice_def
      foldl_closeSession_rdp_frame cong: option.case_cong)

lemma browserOnClose_result:
  "browserOnClose s browserId now =
     (s\<lparr> manager := foldl closeRDPSession
            (foldl closeSession (manager s) (map s_id (getSessionsByBrowser (manager s) browserId)))
            (map s_id (getRDPSessionsByBrowser (manager s) browserId)),
         browserConnections := mapDelete browserId (browserConnections s) \<rparr>,
      concat (map (\<lambda>session. sendIfOpen s (s_agentSocket session)
                     (browserDisconnectNotice ''ssh:close'' session now))
                  (getSessionsByBrowser (manager s) browserId))
      @ concat (map (\<lambda>session. sendIfOpen s (s_agentSocket session)
                     (browserDisconnectNotice ''rdp:close'' session now))
                  (getRDPSessionsByBrowser (manager s) browserId)))"
  by (simp add: browserOnClose_def closeSessionsForBrowser_def closeRdpSessionsForBrowser_def
      closeSshLoopBrowser_result closeRdpLoopBrowser_result Let_def
      getRDPSessionsByBrowser_after_ssh sendIfOpen_def)

lemma agentOnClose_result:
  assumes "mapGet sock (registeredDeviceId s) = Some deviceId"
  shows "agentOnClose s sock now =
     (let s3 = s\<lparr> manager := foldl closeRDPSession
            (foldl closeSession (manager s) (map s_id (getSessionsByDevice (manager s) deviceId)))
            (map s_id (getRDPSessionsByDevice (manager s) deviceId)),
         agentConnections := mapDelete deviceId (agentConnections s) \<rparr>
      in (s3,
      concat (map (\<lambda>session. sendIfOpen s (s_browserSocket session)
                     (agentDisconnectNotice ''ssh:close'' session now))
                  (getSessionsByDevice (manager s) deviceId))
      @ concat (map (\<lambda>session. sendIfOpen s (s_browserSocket session)
                     (agentDisconnectNotice ''rdp:close'' session now))
                  (getRDPSessionsByDevice (manager s) deviceId))
      @ broadcastToBrowsers s3
          (createMessageString ''devices:list:response''
             (Some (deviceListJson (getDeviceList s3))) now)))"
  using assms
  by (simp add: agentOnClose_def closeSessionsForAgent_def closeRdpSessionsForAgent_def
      closeSshLoopAgent_result closeRdpLoopAgent_result Let_def
      getRDPSessionsByBrowser_after_ssh sendIfOpen_def)

text \<open>
  Claim C6, as amended. When the transport of a browser closes, every terminal and every
  remote-desktop session the session manager lists for that browser id is closed (it is
  absent from the by-id map afterwards), and for each of them, in order, a close
  notification with reason "Browser disconnected" is sent to the agent socket of the
  session if that socket is open; nothing else is sent. When the transport of a
  registered agent closes (by itself or after the sweep closed it), every session listed
  for its device id is closed and a close notification with reason
  "Agent disconnected" is sent to the browser socket of each session if that socket is
  open, followed by the broadcast of the device list.
\<close>

theorem cascading_cleanup:
  "(\<forall>session\<in>set (getSessionsByBrowser (manager s) browserId).
       getSession (manager (fst (browserOnClose s browserId now))) (s_id session) = None)
   \<and> (\<forall>session\<in>set (getRDPSessionsByBrowser (manager s) browserId).
       getRDPSession (manager (fst (browserOnClose s browserId now))) (s_id session) = None)
   \<and> snd (browserOnClose s browserId now) =
       concat (map (\<lambda>session.
                 if s_agentSocket session \<in> openSockets s
                 then [Send (s_agentSocket session)
                         (createMessageString ''ssh:close''
                            (Some (closeJson (s_id session) ''Browser disconnected'')) now)]
                 else [])
               (getSessionsByBrowser (manager s) browserId))
       @ concat (map (\<lambda>session.
                 if s_agentSocket session \<in> openSockets s
                 then [Send (s_agentSocket session)
                         (createMessageString ''rdp:close''
                            (Some (closeJson (s_id session) ''Browser disconnected'')) now)]
                 else [])
               (getRDPSessionsByBrowser (manager s) browserId))
   \<and> (mapGet sock (registeredDeviceId s) = Some deviceId \<longrightarrow>
        (\<forall>session\<in>set (getSessionsByDevice (manager s) deviceId).
           getSession (manager (fst (agentOnClose s sock now))) (s_id session) = None)
        \<and> (\<forall>session\<in>set (getRDPSessionsByDevice (manager s) deviceId).
           getRDPSession (manager (fst (agentOnClose s sock now))) (s_id session) = None)
        \<and> snd (agentOnClose s sock now) =
            concat (map (\<lambda>session.
                 if s_browserSocket session \<in> openSockets s
                 then [Send (s_browserSocket session)
                         (createMessageString ''ssh:close''
                            (Some (closeJson (s_id session) ''Agent disconnected'')) now)]
                 else [])
               (getSessionsByDevice (manager s) deviceId))
            @ concat (map (\<lambda>session.
                 if s_browserSocket session \<in> openSockets s
                 then [Send (s_browserSocket session)
                         (createMessageString ''rdp:close''
                            (Some (closeJson (s_id session) ''Agent disconnected'')) now)]
                 else [])
               (getRDPSessionsByDevice (manager s) deviceId))
            @ broadcastToBrowsers (fst (agentOnClose s sock now))
                (createMessageString ''devices:list:response''
                   (Some (deviceListJson (getDeviceList (fst (agentOnClose s sock now))))) now))"
proof (intro conjI impI)
  show "\<forall>session\<in>set (getSessionsByBrowser (manager s) browserId).
       getSession (manager (fst (browserOnClose s browserId now))) (s_id session) = None"
    by (simp add: browserOnClose_result getSession_def foldl_closeRDPSession_ssh_frame
        foldl_closeSession_lookup)
  show "\<forall>session\<in>set (getRDPSessionsByBrowser (manager s) browserId).
       getRDPSession (manager (fst (browserOnClose s browserId now))) (s_id session) = None"
    by (simp add: browserOnClose_result getRDPSession_def foldl_closeRDPSession_lookup)
  show "snd (browserOnClose s browserId now) =
       concat (map (\<lambda>session.
                 if s_agentSocket session \<in> openSockets s
                 then [Send (s_agentSocket session)
                         (createMessageString ''ssh:close''
                            (Some (closeJson (s_id session) ''Browser disconnected'')) now)]
                 else [])
               (getSessionsByBrowser (manager s) browserId))
       @ concat (map (\<lambda>session.
                 if s_agentSocket session \<in> openSockets s
                 then [Send (s_agentSocket session)
                         (createMessageString ''rdp:close''
                            (Some (closeJson (s_id session) ''Browser disconnected'')) now)]
                 else [])
               (getRDPSessionsByBrowser (manager s) browserId))"
    by (simp add: browserOnClose_result sendIfOpen_def browserDisconnectNotice_def)
next
  assume r: "mapGet sock (registeredDeviceId s) = Some deviceId"
  note res = agentOnClose_result[OF r, of now]
  show "\<forall>session\<in>set (getSessionsByDevice (manager s) deviceId).
           getSession (manager (fst (agentOnClose s sock now))) (s_id session) = None"
    by (simp add: res Let_def getSession_def foldl_closeRDPSession_ssh_frame
        foldl_closeSession_lookup)
  show "\<forall>session\<in>set (getRDPSessionsByDevice (manager s) deviceId).
           getRDPSession (manager (fst (agentOnClose s sock now))) (s_id session) = None"
    by (simp add: res Let_def getRDPSession_def foldl_closeRDPSession_lookup)
  show "snd (agentOnClose s sock now) =
            concat (map (\<lambda>session.
                 if s_browserSocket session \<in> openSockets s
                 then [Send (s_browserSocket session)
                         (createMessageString ''ssh:close''
                            (Some (closeJson (s_id session) ''Agent disconnected'')) now)]
                 else [])
               (getSessionsByDevice (manager s) deviceId))
            @ concat (map (\<lambda>session.
                 if s_browserSocket session \<in> openSockets s
                 then [Send (s_browserSocket session)
                         (createMessageString ''rdp:close''
                            (Some (closeJson (s_id session) ''Agent disconnected'')) now)]
                 else [])
               (getRDPSessionsByDevice (manager s) deviceId))
            @ broadcastToBrowsers (fst (agentOnClose s sock now))
                (createMessageString ''devices:list:response''
                   (Some (deviceListJson (getDeviceList (fst (agentOnClose s sock now))))) now)"
    by (simp add: res Let_def sendIfOpen_def agentDisconnectNotice_def)
qed

theorem cascading_cleanup_witness:
  "map s_id (getSessionsByBrowser (manager (run exampleEvents)) ''b1'') = [''s1'', ''s2'']
   \<and> map s_id (getRDPSessionsByBrowser (manager (run exampleEvents)) ''b1'') = [''r1'']
   \<and> getSession (manager (fst (browserOnClose (run exampleEvents) ''b1'' 9))) ''s1'' = None
   \<and> getSession (manager (fst (browserOnClose (run exampleEvents) ''b1'' 9))) ''s2'' = None
   \<and> getRDPSession (manager (fst (browserOnClose (run exampleEvents) ''b1'' 9))) ''r1'' = None
   \<and> snd (browserOnClose (run exampleEvents) ''b1'' 9)
       = [Send 1 (createMessageString ''ssh:close''
                    (Some (closeJson ''s1'' ''Browser disconnected'')) 9),
          Send 2 (createMessageString ''ssh:close''
                    (Some (closeJson ''s2'' ''Browser disconnected'')) 9),
          Send 1 (createMessageString ''rdp:close''
                    (Some (closeJson ''r1'' ''Browser disconnected'')) 9)]
   \<and> mapGet 1 (registeredDeviceId (run exampleEvents)) = Some ''pi-1''
   \<and> getSession (manager (fst (agentOnClose (run exampleEvents) 1 9))) ''s1'' = None
   \<and> getRDPSession (manager (fst (agentOnClose (run exampleEvents) 1 9))) ''r1'' = None
   \<and> take 2 (snd (agentOnClose (run exampleEvents) 1 9))
       = [Send 10 (createMessageString ''ssh:close''
                     (Some (closeJson ''s1'' ''Agent disconnected'')) 9),
          Send 10 (createMessageString ''rdp:close''
                     (Some (closeJson ''r1'' ''Agent disconnected'')) 9)]"
proof -
  define st where "st = run exampleEvents"
  have ids: "map s_id (getSessionsByBrowser (manager st) ''b1'') = [''s1'', ''s2'']"
    "map s_id (getRDPSessionsByBrowser (manager st) ''b1'') = [''r1'']"
    "map s_id (getSessionsByDevice (manager st) ''pi-1'') = [''s1'']"
    "map s_id (getRDPSessionsByDevice (manager st) ''pi-1'') = [''r1'']"
    unfolding st_def by code_simp+
  have reg: "mapGet 1 (registeredDeviceId st) = Some ''pi-1''"
    unfolding st_def by code_simp
  have eb: "snd (browserOnClose st ''b1'' 9)
       = [Send 1 (createMessageString ''ssh:close''
                    (Some (closeJson ''s1'' ''Browser disconnected'')) 9),
          Send 2 (createMessageString ''ssh:close''
                    (Some (closeJson ''s2'' ''Browser disconnected'')) 9),
          Send 1 (createMessageString ''rdp:close''
                    (Some (closeJson ''r1'' ''Browser disconnected'')) 9)]"
    unfolding st_def by code_simp
  have ea: "take 2 (snd (agentOnClose st 1 9))
       = [Send 10 (createMessageString ''ssh:close''
                     (Some (closeJson ''s1'' ''Agent disconnected'')) 9),
          Send 10 (createMessageString ''rdp:close''
                     (Some (closeJson ''r1'' ''Agent disconnected'')) 9)]"
    unfolding st_def by code_simp
  note t = cascading_cleanup[of st "''b1''" 9 1 "''pi-1''"]
  from t have b1: "\<forall>session\<in>set (getSessionsByBrowser (manager st) ''b1'').
       getSession (manager (fst (browserOnClose st ''b1'' 9))) (s_id session) = None"
    and b2: "\<forall>session\<in>set (getRDPSessionsByBrowser (manager st) ''b1'').
       getRDPSession (manager (fst (browserOnClose st ''b1'' 9))) (s_id session) = None"
    by blast+
  from t reg have a1: "\<forall>session\<in>set (getSessionsByDevice (manager st) ''pi-1'').
           getSession (manager (fst (agentOnClose st 1 9))) (s_id session) = None"
    and a2: "\<forall>session\<in>set (getRDPSessionsByDevice (manager st) ''pi-1'').
           getRDPSession (manager (fst (agentOnClose st 1 9))) (s_id session) = None"
    by blast+
  have pick: "\<exists>x\<in>set xs. f x = y" if "y \<in> set (map f xs)" for f :: "'a \<Rightarrow> string" and xs y
    using that by auto
  have c1: "getSession (manager (fst (browserOnClose st ''b1'' 9))) ''s1'' = None"
    using b1 pick[of "''s1''" s_id "getSessionsByBrowser (manager st) ''b1''"] ids by force
  have c2: "getSession (manager (fst (browserOnClose st ''b1'' 9))) ''s2'' = None"
    using b1 pick[of "''s2''" s_id "getSessionsByBrowser (manager st) ''b1''"] ids by force
  have c3: "getRDPSession (manager (fst (browserOnClose st ''b1'' 9))) ''r1'' = None"
    using b2 pick[of "''r1''" s_id "getRDPSessionsByBrowser (manager st) ''b1''"] ids by force
  have c4: "getSession (manager (fst (agentOnClose st 1 9))) ''s1'' = None"
    using a1 pick[of "''s1''" s_id "getSessionsByDevice (manager st) ''pi-1''"] ids by force
  have c5: "getRDPSession (manager (fst (agentOnClose st 1 9))) ''r1'' = None"
    using a2 pick[of "''r1''" s_id "getRDPSessionsByDevice (manager st) ''pi-1''"] ids by force
  from ids reg eb ea c1 c2 c3 c4 c5 show ?thesis
    unfolding st_def by blast
qed

text \<open>
  The claim as stated, with a notification to each agent endpoint, fails: after the sweep
  has closed the transports of both stale agents, the browser disconnects; its two
  terminal sessions are closed and no notification is sent.
\<close>

theorem cascading_cleanup_counterexample:
  "map s_id (getSessionsByBrowser (manager (run (exampleEvents @ [SweepTick 100000]))) ''b1'')
     = [''s1'', ''s2'']
   \<and> map s_agentSocket (getSessionsByBrowser (manager (run (exampleEvents @ [SweepTick 100000]))) ''b1'')
     = [1, 2]
   \<and> openSockets (run (exampleEvents @ [SweepTick 100000])) = {10}
   \<and> snd (browserOnClose (run (exampleEvents @ [SweepTick 100000])) ''b1'' 100001) = []"
  by code_simp

text \<open>
  Property X2. The close handler of an agent socket removes the registry entry of the
  device id that the socket registered, whichever transport that entry holds by then. In
  the example a second socket registers \<open>pi-1\<close> and replaces the first; when the first
  socket then closes, \<open>pi-1\<close> leaves the registry although the second socket is open.
\<close>

theorem replaced_transport_close_evicts_device:
  "mapGet sock (registeredDeviceId s) = Some deviceId \<longrightarrow>
     mapGet deviceId (agentConnections (fst (agentOnClose s sock now))) = None"
proof
  assume r: "mapGet sock (registeredDeviceId s) = Some deviceId"
  show "mapGet deviceId (agentConnections (fst (agentOnClose s sock now))) = None"
    by (simp add: agentOnClose_result[OF r] Let_def mapGet_None_iff)
qed

theorem replaced_transport_close_evicts_device_witness:
  "currentTransports
     (run (replacementEvents @
        [AgentConnected 2,
         AgentMessage 2 3 (Inr (envelope ''agent:register'' (registerPayload ''pi-1''))) 4]))
     ''pi-1'' = [2]
   \<and> mapGet 1 (registeredDeviceId
        (run (replacementEvents @
           [AgentConnected 2,
            AgentMessage 2 3 (Inr (envelope ''agent:register'' (registerPayload ''pi-1''))) 4])))
       = Some ''pi-1''
   \<and> mapGet ''pi-1'' (agentConnections (fst (agentOnClose
        (run (replacementEvents @
           [AgentConnected 2,
            AgentMessage 2 3 (Inr (envelope ''agent:register'' (registerPayload ''pi-1''))) 4]))
        1 5))) = None
   \<and> 2 \<in> openSockets (fst (agentOnClose
        (run (replacementEvents @
           [AgentConnected 2,
            AgentMessage 2 3 (Inr (envelope ''agent:register'' (registerPayload ''pi-1''))) 4]))
        1 5))"
proof -
  define st where "st = run (replacementEvents @
        [AgentConnected 2,
         AgentMessage 2 3 (Inr (envelope ''agent:register'' (registerPayload ''pi-1''))) 4])"
  have c: "currentTransports st ''pi-1'' = [2]"
    and r: "mapGet 1 (registeredDeviceId st) = Some ''pi-1''"
    and o: "2 \<in> openSockets (fst (agentOnClose st 1 5))"
    unfolding st_def by code_simp+
  from replaced_transport_close_evicts_device[of 1 st "''pi-1''" 5] r
  have "mapGet ''pi-1'' (agentConnections (fst (agentOnClose st 1 5))) = None"
    by blast
  with c r o show ?thesis unfolding st_def by blast
qed

section \<open>Invalid input, explicit close and heartbeats\<close>

text \<open>
  The shape error of a payload for a message type: the error of the validator that the
  handlers apply to messages of that type.
\<close>

fun errorOf :: "string + 'a \<Rightarrow> string option" where
  "errorOf (Inl e) = Some e"
| "errorOf (Inr v) = None"

definition payloadError :: "string \<Rightarrow> json option \<Rightarrow> string option" where
  "payloadError type payload =
     (if type = ''agent:register'' then errorOf (validateAgentRegisterPayload payload)
      else if type = ''agent:heartbeat'' then errorOf (validateAgentHeartbeatPayload payload)
      else if type = ''ssh:session:request'' then errorOf (validateSshSessionRequestPayload payload)
      else if type = ''ssh:session:response'' then errorOf (validateSshSessionResponsePayload payload)
      else if type = ''ssh:data'' then errorOf (validateSshDataPayload payload)
      else if type = ''ssh:resize'' then errorOf (validateSshResizePayload payload)
      else if type = ''ssh:close'' then errorOf (validateSshClosePayload payload)
      else if type = ''rdp:session:request'' then errorOf (validateRdpSessionRequestPayload payload)
      else if type = ''rdp:session:response'' then errorOf (validateRdpSessionResponsePayload payload)
      else if type = ''rdp:data'' then errorOf (validateRdpDataPayload payload)
      else if type = ''rdp:close'' then errorOf (validateRdpClosePayload payload)
      else None)"

lemma errorOf_Some: "errorOf r = Some e \<longleftrightarrow> r = Inl e"
  by (cases r) auto

lemma invalid_payload_agent:
  assumes "payloadError t p = Some err"
  shows "dispatchAgent s sock c t p now =
           (s, if t = ''agent:register''
               then [Send sock (createMessageString ''agent:register:ack''
                                  (Some (registerAckJson False [] (Some err))) now)]
               else [])"
proof -
  consider "t = ''agent:register''" | "t = ''agent:heartbeat''" | "t = ''ssh:session:request''"
    | "t = ''ssh:session:response''" | "t = ''ssh:data''" | "t = ''ssh:resize''"
    | "t = ''ssh:close''" | "t = ''rdp:session:request''" | "t = ''rdp:session:response''"
    | "t = ''rdp:data''" | "t = ''rdp:close''"
    using assms by (auto simp: payloadError_def split: if_splits)
  then show ?thesis
  proof cases
    case 1
    with assms show ?thesis
      by (simp add: payloadError_def errorOf_Some dispatchAgent_def handleAgentRegister_def)
  next
    case 2
    with assms show ?thesis
      by (simp add: payloadError_def errorOf_Some dispatchAgent_def handleAgentHeartbeat_def)
  next
    case 3
    then show ?thesis by (simp add: dispatchAgent_def)
  next
    case 4
    with assms show ?thesis
      by (simp add: payloadError_def errorOf_Some dispatchAgent_def
          handleSshSessionResponseFromAgent_def)
  next
    case 5
    with assms show ?thesis
      by (simp add: payloadError_def errorOf_Some dispatchAgent_def handleSshDataFromAgent_def)
  next
    case 6
    then show ?thesis by (simp add: dispatchAgent_def)
  next
    case 7
    with assms show ?thesis
      by (simp add: payloadError_def errorOf_Some dispatchAgent_def handleSshCloseFromAgent_def
          handleSshClose_def)
  next
    case 8
    then show ?thesis by (simp add: dispatchAgent_def)
  next
    case 9
    with assms show ?thesis
      by (simp add: payloadError_def errorOf_Some dispatchAgent_def
          handleRdpSessionResponseFromAgent_def)
  next
    case 10
    with assms show ?thesis
      by (simp add: payloadError_def errorOf_Some dispatchAgent_def handleRdpDataFromAgent_def)
  next
    case 11
    with assms show ?thesis
      by (simp add: payloadError_def errorOf_Some dispatchAgent_def handleRdpCloseFromAgent_def
          handleRdpClose_def)
  qed
qed

lemma invalid_payload_browser:
  assumes "payloadError t p = Some err"
  shows "dispatchBrowser s b sock t p now =
           (s, if t = ''ssh:session:request''
               then sendIfOpen s sock (createErrorMessage ''INVALID_SSH_SESSION_REQUEST''
                                         (orDefault err ''Invalid payload'') now)
               else if t = ''rdp:session:request''
               then sendIfOpen s sock (createErrorMessage ''INVALID_RDP_SESSION_REQUEST''
                                         (orDefault err ''Invalid payload'') now)
               else [])"
proof -
  consider "t = ''agent:register''" | "t = ''agent:heartbeat''" | "t = ''ssh:session:request''"
    | "t = ''ssh:session:response''" | "t = ''ssh:data''" | "t = ''ssh:resize''"
    | "t = ''ssh:close''" | "t = ''rdp:session:request''" | "t = ''rdp:session:response''"
    | "t = ''rdp:data''" | "t = ''rdp:close''"
    using assms by (auto simp: payloadError_def split: if_splits)
  then show ?thesis
  proof cases
    case 1
    then show ?thesis by (simp add: dispatchBrowser_def)
  next
    case 2
    then show ?thesis by (simp add: dispatchBrowser_def)
  next
    case 3
    with assms show ?thesis
      by (simp add: payloadError_def errorOf_Some dispatchBrowser_def
          handleSshSessionRequestFromBrowser_def)
  next
    case 4
    then show ?thesis by (simp add: dispatchBrowser_def)
  next
    case 5
    with assms show ?thesis
      by (simp add: payloadError_def errorOf_Some dispatchBrowser_def handleSshDataFromBrowser_def)
  next
    case 6
    with assms show ?thesis
      by (simp add: payloadError_def errorOf_Some dispatchBrowser_def
          handleSshResizeFromBrowser_def)
  next
    case 7
    with assms show ?thesis
      by (simp add: payloadError_def errorOf_Some dispatchBrowser_def
          handleSshCloseFromBrowser_def handleSshClose_def)
  next
    case 8
    with assms show ?thesis
      by (simp add: payloadError_def errorOf_Some dispatchBrowser_def
          handleRdpSessionRequestFromBrowser_def)
  next
    case 9
    then show ?thesis by (simp add: dispatchBrowser_def)
  next
    case 10
    with assms show ?thesis
      by (simp add: payloadError_def errorOf_Some dispatchBrowser_def handleRdpDataFromBrowser_def)
  next
    case 11
    with assms show ?thesis
      by (simp add: payloadError_def errorOf_Some dispatchBrowser_def
          handleRdpCloseFromBrowser_def handleRdpClose_def)
  qed
qed

lemma payloadError_handled: "payloadError t p = Some err \<Longrightarrow> isHandledMessageType t"
  by (auto simp: payloadError_def isHandledMessageType_def VALID_MESSAGE_TYPES_def
      split: if_splits)

definition invalidMessageText :: "string + json \<Rightarrow> string" where
  "invalidMessageText parsedData =
     (case parsedData of
        Inl syntaxError \<Rightarrow> ''Failed to parse JSON: '' @ syntaxError
      | Inr j \<Rightarrow> ''Invalid message structure: must have type (string) and timestamp (number)'')"

text \<open>
  Claim C7, as amended. Input that cannot be parsed, or that is not an object with a
  non-empty string \<open>type\<close> and a finite numeric \<open>timestamp\<close>, leaves the state unchanged
  and makes the handler send one \<open>error\<close> message with code \<open>INVALID_MESSAGE\<close> to the
  originating socket, on agent and on browser connections alike. A well-formed envelope
  of a known type whose payload has the wrong shape leaves the state unchanged and is
  never forwarded to another socket. The origin is answered only in three cases: an
  agent gets an \<open>agent:register:ack\<close> with \<open>success\<close> false for \<open>agent:register\<close>; a
  browser gets an \<open>error\<close> message for \<open>ssh:session:request\<close> and for
  \<open>rdp:session:request\<close>, if its socket is open. For every other type nothing is sent.
\<close>

theorem invalid_input_is_dropped:
  "((case parsedData of
       Inl syntaxError \<Rightarrow> True
     | Inr j \<Rightarrow> \<not> isObject (Some j) \<or> \<not> isNonEmptyString (getProp (Some j) ''type'')
                \<or> \<not> isFiniteNumber (getProp (Some j) ''timestamp'')) \<longrightarrow>
      agentOnMessage s sock connectedAt parsedData now
        = (s, [Send sock (createErrorMessage ''INVALID_MESSAGE'' (invalidMessageText parsedData) now)])
      \<and> browserOnMessage s browserId sock parsedData now
        = (s, [Send sock (createErrorMessage ''INVALID_MESSAGE'' (invalidMessageText parsedData) now)]))
   \<and> (parseMessage parsedData = Inr msg
        \<and> payloadError (m_type msg) (m_payload msg) = Some err \<longrightarrow>
      agentOnMessage s sock connectedAt parsedData now
        = (s, if m_type msg = ''agent:register''
              then [Send sock (createMessageString ''agent:register:ack''
                                 (Some (registerAckJson False [] (Some err))) now)]
              else [])
      \<and> browserOnMessage s browserId sock parsedData now
        = (s, if m_type msg = ''ssh:session:request''
              then sendIfOpen s sock (createErrorMessage ''INVALID_SSH_SESSION_REQUEST''
                                        (orDefault err ''Invalid payload'') now)
              else if m_type msg = ''rdp:session:request''
              then sendIfOpen s sock (createErrorMessage ''INVALID_RDP_SESSION_REQUEST''
                                        (orDefault err ''Invalid payload'') now)
              else []))"
proof -
  have 1: "agentOnMessage s sock connectedAt parsedData now
        = (s, [Send sock (createErrorMessage ''INVALID_MESSAGE'' (invalidMessageText parsedData) now)])
      \<and> browserOnMessage s browserId sock parsedData now
        = (s, [Send sock (createErrorMessage ''INVALID_MESSAGE'' (invalidMessageText parsedData) now)])"
    if "case parsedData of
       Inl syntaxError \<Rightarrow> True
     | Inr j \<Rightarrow> \<not> isObject (Some j) \<or> \<not> isNonEmptyString (getProp (Some j) ''type'')
                \<or> \<not> isFiniteNumber (getProp (Some j) ''timestamp'')"
  proof -
    from that have "parseMessage parsedData = Inl (invalidMessageText parsedData)"
      by (cases parsedData)
         (auto simp: parseMessage_def isValidMessageStructure_def invalidMessageText_def)
    moreover have "orDefault (invalidMessageText parsedData) ''Invalid message''
                   = invalidMessageText parsedData"
      by (cases parsedData) (simp_all add: orDefault_def invalidMessageText_def)
    ultimately show ?thesis
      by (simp add: agentOnMessage_def browserOnMessage_def)
  qed
  have 2: "agentOnMessage s sock connectedAt parsedData now
        = (s, if m_type msg = ''agent:register''
              then [Send sock (createMessageString ''agent:register:ack''
                                 (Some (registerAckJson False [] (Some err))) now)]
              else [])
      \<and> browserOnMessage s browserId sock parsedData now
        = (s, if m_type msg = ''ssh:session:request''
              then sendIfOpen s sock (createErrorMessage ''INVALID_SSH_SESSION_REQUEST''
                                        (orDefault err ''Invalid payload'') now)
              else if m_type msg = ''rdp:session:request''
              then sendIfOpen s sock (createErrorMessage ''INVALID_RDP_SESSION_REQUEST''
                                        (orDefault err ''Invalid payload'') now)
              else [])"
    if a: "parseMessage parsedData = Inr msg
        \<and> payloadError (m_type msg) (m_payload msg) = Some err"
  proof -
    from a have h: "isHandledMessageType (m_type msg)" using payloadError_handled by blast
    from a h show ?thesis
      by (simp add: agentOnMessage_def browserOnMessage_def invalid_payload_agent
          invalid_payload_browser)
  qed
  from 1 2 show ?thesis by blast
qed

theorem invalid_input_is_dropped_witness:
  "agentOnMessage (run exampleEvents) 1 1 (Inl ''Unexpected token'') 9
     = (run exampleEvents,
        [Send 1 (createErrorMessage ''INVALID_MESSAGE'' ''Failed to parse JSON: Unexpected token'' 9)])
   \<and> browserOnMessage (run exampleEvents) ''b1'' 10 (Inr (JObj [(''type'', JStr ''ssh:data'')])) 9
     = (run exampleEvents,
        [Send 10 (createErrorMessage ''INVALID_MESSAGE''
            ''Invalid message structure: must have type (string) and timestamp (number)'' 9)])
   \<and> payloadError ''ssh:session:request'' (Some (JObj [(''deviceId'', JStr ''pi-1'')]))
     = Some ''sessionId must be a non-empty string''
   \<and> browserOnMessage (run exampleEvents) ''b1'' 10
       (Inr (envelope ''ssh:session:request'' (JObj [(''deviceId'', JStr ''pi-1'')]))) 9
     = (run exampleEvents,
        [Send 10 (createErrorMessage ''INVALID_SSH_SESSION_REQUEST''
                    ''sessionId must be a non-empty string'' 9)])
   \<and> agentOnMessage (run exampleEvents) 1 1
       (Inr (envelope ''ssh:data'' (JObj [(''sessionId'', JStr ''s1'')]))) 9
     = (run exampleEvents, [])"
proof -
  define st where "st = run exampleEvents"
  define m1 where "m1 = \<lparr> m_type = ''ssh:session:request'', m_timestamp = 1,
                          m_payload = Some (JObj [(''deviceId'', JStr ''pi-1'')]) \<rparr>"
  define m2 where "m2 = \<lparr> m_type = ''ssh:data'', m_timestamp = 1,
                          m_payload = Some (JObj [(''sessionId'', JStr ''s1'')]) \<rparr>"
  have p1: "parseMessage (Inr (envelope ''ssh:session:request'' (JObj [(''deviceId'', JStr ''pi-1'')])))
            = Inr m1"
    and p2: "parseMessage (Inr (envelope ''ssh:data'' (JObj [(''sessionId'', JStr ''s1'')]))) = Inr m2"
    unfolding m1_def m2_def by code_simp+
  have e1: "payloadError (m_type m1) (m_payload m1) = Some ''sessionId must be a non-empty string''"
    and e2: "payloadError (m_type m2) (m_payload m2) = Some ''data must be a string''"
    unfolding m1_def m2_def by code_simp+
  have o: "10 \<in> openSockets st" unfolding st_def by code_simp
  note a = invalid_input_is_dropped[of "Inl ''Unexpected token''" st 1 1 9 "''b1''"]
  note b = invalid_input_is_dropped[of "Inr (JObj [(''type'', JStr ''ssh:data'')])" st 10 1 9 "''b1''"]
  note c = invalid_input_is_dropped[of
      "Inr (envelope ''ssh:session:request'' (JObj [(''deviceId'', JStr ''pi-1'')]))"
      st 10 1 9 "''b1''" m1 "''sessionId must be a non-empty string''"]
  note d = invalid_input_is_dropped[of
      "Inr (envelope ''ssh:data'' (JObj [(''sessionId'', JStr ''s1'')]))"
      st 1 1 9 "''b1''" m2 "''data must be a string''"]
  from a have 1: "agentOnMessage st 1 1 (Inl ''Unexpected token'') 9
     = (st, [Send 1 (createErrorMessage ''INVALID_MESSAGE'' ''Failed to parse JSON: Unexpected token'' 9)])"
    by (simp add: invalidMessageText_def)
  from b have 2: "browserOnMessage st ''b1'' 10 (Inr (JObj [(''type'', JStr ''ssh:data'')])) 9
     = (st, [Send 10 (createErrorMessage ''INVALID_MESSAGE''
            ''Invalid message structure: must have type (string) and timestamp (number)'' 9)])"
    by (simp add: invalidMessageText_def)
  from c p1 e1 o have 3: "browserOnMessage st ''b1'' 10
       (Inr (envelope ''ssh:session:request'' (JObj [(''deviceId'', JStr ''pi-1'')]))) 9
     = (st, [Send 10 (createErrorMessage ''INVALID_SSH_SESSION_REQUEST''
                    ''sessionId must be a non-empty string'' 9)])"
    by (simp add: m1_def sendIfOpen_def orDefault_def)
  from d p2 e2 have 4: "agentOnMessage st 1 1
       (Inr (envelope ''ssh:data'' (JObj [(''sessionId'', JStr ''s1'')]))) 9 = (st, [])"
    by (simp add: m2_def)
  from 1 2 3 4 e1 show ?thesis
    unfolding st_def m1_def by simp
qed

text \<open>
  The claim as stated fails for \<open>agent:heartbeat\<close>: with a payload that lacks
  \<open>deviceId\<close> the message is dropped and no error message is sent to the agent.
\<close>

theorem heartbeat_shape_error_not_reported_counterexample:
  "parseMessage (Inr (envelope ''agent:heartbeat'' (JObj [])))
     = Inr \<lparr> m_type = ''agent:heartbeat'', m_timestamp = 1, m_payload = Some (JObj []) \<rparr>
   \<and> payloadError ''agent:heartbeat'' (Some (JObj [])) = Some ''deviceId must be a non-empty string''
   \<and> snd (agentOnMessage (run exampleEvents) 1 1
            (Inr (envelope ''agent:heartbeat'' (JObj []))) 9) = []
   \<and> 1 \<in> openSockets (run exampleEvents)"
  by code_simp

definition closeReason :: "json option \<Rightarrow> string" where
  "closeReason payload =
     (case getProp payload ''reason'' of Some (JStr r) \<Rightarrow> r | _ \<Rightarrow> ''Session closed'')"

lemma validClose_reason:
  "validateSshClosePayload payload = Inr d \<Longrightarrow>
   (case c_reason d of Some r \<Rightarrow> r | None \<Rightarrow> ''Session closed'') = closeReason payload"
  by (auto simp: validateSshClosePayload_def closeReason_def
      split: if_splits option.splits json.splits)

lemma validRdpClose_reason:
  "validateRdpClosePayload payload = Inr d \<Longrightarrow>
   (case c_reason d of Some r \<Rightarrow> r | None \<Rightarrow> ''Session closed'') = closeReason payload"
  by (auto simp: validateRdpClosePayload_def closeReason_def
      split: if_splits option.splits json.splits)

text \<open>
  Claim C8, as amended. For a valid close message whose session exists, the session is
  closed through the session manager, and a close notification carrying the reason of
  the payload, or "Session closed" when the payload has none, is sent to the agent
  socket of the session when the message came from the browser and to the browser
  socket when it came from the agent, if that socket is open; nothing else is sent. The
  same holds for remote-desktop sessions.
\<close>

theorem close_forwarded_to_peer:
  "(validateSshClosePayload payload = Inr d
      \<and> getSession (manager s) (c_sessionId d) = Some session \<longrightarrow>
        fst (handleSshClose s payload src now)
          = s\<lparr> manager := closeSession (manager s) (s_id session) \<rparr>
        \<and> getSession (manager (fst (handleSshClose s payload src now))) (s_id session) = None
        \<and> snd (handleSshClose s payload src now)
          = (let target = (if src = FromBrowser then s_agentSocket session
                           else s_browserSocket session)
             in if target \<in> openSockets s
                then [Send target (createMessageString ''ssh:close''
                        (Some (JObj [(''sessionId'', JStr (s_id session)),
                                     (''reason'', JStr (closeReason payload))])) now)]
                else []))
   \<and> (validateRdpClosePayload payload = Inr d
      \<and> getRDPSession (manager s) (c_sessionId d) = Some rdpSession \<longrightarrow>
        fst (handleRdpClose s payload src now)
          = s\<lparr> manager := closeRDPSession (manager s) (s_id rdpSession) \<rparr>
        \<and> getRDPSession (manager (fst (handleRdpClose s payload src now))) (s_id rdpSession) = None
        \<and> snd (handleRdpClose s payload src now)
          = (let target = (if src = FromBrowser then s_agentSocket rdpSession
                           else s_browserSocket rdpSession)
             in if target \<in> openSockets s
                then [Send target (createMessageString ''rdp:close''
                        (Some (JObj [(''sessionId'', JStr (s_id rdpSession)),
                                     (''reason'', JStr (closeReason payload))])) now)]
                else []))"
  by (auto simp: handleSshClose_def handleRdpClose_def Let_def sendIfOpen_def closeJson_def
      validClose_reason validRdpClose_reason getSession_def getRDPSession_def
      closeSession_lookup closeRDPSession_lookup)

theorem close_forwarded_to_peer_witness:
  "snd (handleSshClose (run exampleEvents)
          (Some (JObj [(''sessionId'', JStr ''s1''), (''reason'', JStr ''bye'')])) FromBrowser 9)
     = [Send 1 (createMessageString ''ssh:close'' (Some (closeJson ''s1'' ''bye'')) 9)]
   \<and> getSession (manager (fst (handleSshClose (run exampleEvents)
          (Some (JObj [(''sessionId'', JStr ''s1''), (''reason'', JStr ''bye'')])) FromBrowser 9)))
        ''s1'' = None
   \<and> snd (handleRdpClose (run exampleEvents)
          (Some (JObj [(''sessionId'', JStr ''r1'')])) FromAgent 9)
     = [Send 10 (createMessageString ''rdp:close'' (Some (closeJson ''r1'' ''Session closed'')) 9)]
   \<and> getRDPSession (manager (fst (handleRdpClose (run exampleEvents)
          (Some (JObj [(''sessionId'', JStr ''r1'')])) FromAgent 9))) ''r1'' = None"
proof -
  define st where "st = run exampleEvents"
  define p1 where "p1 = Some (JObj [(''sessionId'', JStr ''s1''), (''reason'', JStr ''bye'')])"
  define p2 where "p2 = Some (JObj [(''sessionId'', JStr ''r1'')])"
  define d1 where "d1 = \<lparr> c_sessionId = ''s1'', c_reason = Some ''bye'' \<rparr>"
  define d2 where "d2 = \<lparr> c_sessionId = ''r1'', c_reason = None \<rparr>"
  define ssh1 where "ssh1 = \<lparr> s_id = ''s1'', s_deviceId = ''pi-1'', s_browserSocket = 10,
      s_agentSocket = 1, s_status = Connecting, s_createdAt = 5,
      s_terminalSize = \<lparr> cols = 80, rows = 24 \<rparr> \<rparr>"
  define rdp1 where "rdp1 = \<lparr> s_id = ''r1'', s_deviceId = ''pi-1'', s_browserSocket = 10,
      s_agentSocket = 1, s_status = Connecting, s_createdAt = 7 \<rparr>"
  have v: "validateSshClosePayload p1 = Inr d1" "validateRdpClosePayload p2 = Inr d2"
    unfolding p1_def p2_def d1_def d2_def by code_simp+
  have g: "getSession (manager st) (c_sessionId d1) = Some ssh1"
    "getRDPSession (manager st) (c_sessionId d2) = Some rdp1"
    unfolding st_def d1_def d2_def ssh1_def rdp1_def by code_simp+
  have o: "1 \<in> openSockets st" "10 \<in> openSockets st"
    unfolding st_def by code_simp+
  have r: "closeReason p1 = ''bye''" "closeReason p2 = ''Session closed''"
    unfolding p1_def p2_def by code_simp+
  note a = close_forwarded_to_peer[of p1 d1 st ssh1 FromBrowser 9]
  note b = close_forwarded_to_peer[of p2 d2 st _ FromAgent 9 rdp1]
  have i1: "s_id ssh1 = ''s1''" "s_agentSocket ssh1 = 1" by (simp_all add: ssh1_def)
  have i2: "s_id rdp1 = ''r1''" "s_browserSocket rdp1 = 10" by (simp_all add: rdp1_def)
  from a v(1) g(1) have x:
    "getSession (manager (fst (handleSshClose st p1 FromBrowser 9))) (s_id ssh1) = None"
    "snd (handleSshClose st p1 FromBrowser 9)
          = (let target = (if FromBrowser = FromBrowser then s_agentSocket ssh1
                           else s_browserSocket ssh1)
             in if target \<in> openSockets st
                then [Send target (createMessageString ''ssh:close''
                        (Some (JObj [(''sessionId'', JStr (s_id ssh1)),
                                     (''reason'', JStr (closeReason p1))])) 9)]
                else [])"
    by blast+
  from b v(2) g(2) have y:
    "getRDPSession (manager (fst (handleRdpClose st p2 FromAgent 9))) (s_id rdp1) = None"
    "snd (handleRdpClose st p2 FromAgent 9)
          = (let target = (if FromAgent = FromBrowser then s_agentSocket rdp1
                           else s_browserSocket rdp1)
             in if target \<in> openSockets st
                then [Send target (createMessageString ''rdp:close''
                        (Some (JObj [(''sessionId'', JStr (s_id rdp1)),
                                     (''reason'', JStr (closeReason p2))])) 9)]
                else [])"
    by blast+
  from x o r have 1:
    "snd (handleSshClose st p1 FromBrowser 9)
       = [Send 1 (createMessageString ''ssh:close'' (Some (closeJson ''s1'' ''bye'')) 9)]"
    "getSession (manager (fst (handleSshClose st p1 FromBrowser 9))) ''s1'' = None"
    by (simp_all add: i1 closeJson_def Let_def del: One_nat_def)
  from y o r have 2:
    "snd (handleRdpClose st p2 FromAgent 9)
       = [Send 10 (createMessageString ''rdp:close'' (Some (closeJson ''r1'' ''Session closed'')) 9)]"
    "getRDPSession (manager (fst (handleRdpClose st p2 FromAgent 9))) ''r1'' = None"
    by (simp_all add: i2 closeJson_def Let_def del: One_nat_def)
  from 1 2 show ?thesis
    unfolding st_def p1_def p2_def by simp
qed

text \<open>
  The claim as stated fails when the peer transport is not open: after the sweep has
  closed the transport of the agent, a close from the browser closes session \<open>s1\<close> and
  forwards nothing.
\<close>

theorem close_not_forwarded_counterexample:
  "map s_id (getSessionsByBrowser (manager (run (exampleEvents @ [SweepTick 100000]))) ''b1'')
     = [''s1'', ''s2'']
   \<and> validateSshClosePayload (Some (JObj [(''sessionId'', JStr ''s1''), (''reason'', JStr ''bye'')]))
     = Inr \<lparr> c_sessionId = ''s1'', c_reason = Some ''bye'' \<rparr>
   \<and> snd (handleSshCloseFromBrowser (run (exampleEvents @ [SweepTick 100000]))
            (Some (JObj [(''sessionId'', JStr ''s1''), (''reason'', JStr ''bye'')])) 100001) = []
   \<and> getSession (manager (fst (handleSshCloseFromBrowser (run (exampleEvents @ [SweepTick 100000]))
            (Some (JObj [(''sessionId'', JStr ''s1''), (''reason'', JStr ''bye'')])) 100001)))
        ''s1'' = None"
  by code_simp

text \<open>
  Claim C10. A heartbeat payload that is an object with a non-empty string \<open>deviceId\<close>
  makes \<open>handleAgentHeartbeat\<close> send exactly one \<open>agent:heartbeat:ack\<close> with \<open>success\<close>
  true to the sending socket; the registry is unchanged when the device id is unknown
  and otherwise only \<open>lastHeartbeat\<close> of that connection is set to the current time. A
  payload of any other shape sends nothing and changes nothing. On an agent connection
  every well-formed message of type \<open>agent:heartbeat\<close> reaches this handler.
\<close>

theorem heartbeat_always_acknowledged:
  "(isObject payload \<and> isNonEmptyString (getProp payload ''deviceId'') \<longrightarrow>
      snd (handleAgentHeartbeat s sock payload now)
        = [Send sock \<lparr> msgType = ''agent:heartbeat:ack'', msgTimestamp = now,
                        msgPayload = Some (JObj [(''success'', JBool True),
                                                 (''timestamp'', JNum (Finite (of_int now)))]) \<rparr>]
      \<and> (case mapGet (asString (getProp payload ''deviceId'')) (agentConnections s) of
           None \<Rightarrow> fst (handleAgentHeartbeat s sock payload now) = s
         | Some connection \<Rightarrow>
             fst (handleAgentHeartbeat s sock payload now)
               = s\<lparr> agentConnections :=
                      mapSet (asString (getProp payload ''deviceId''))
                        (connection\<lparr> a_lastHeartbeat := now \<rparr>) (agentConnections s) \<rparr>))
   \<and> (\<not> (isObject payload \<and> isNonEmptyString (getProp payload ''deviceId'')) \<longrightarrow>
      handleAgentHeartbeat s sock payload now = (s, []))
   \<and> (parseMessage parsedData = Inr msg \<and> m_type msg = ''agent:heartbeat'' \<longrightarrow>
      agentOnMessage s sock connectedAt parsedData now
        = handleAgentHeartbeat s sock (m_payload msg) now)"
  by (auto simp: handleAgentHeartbeat_def validateAgentHeartbeatPayload_def Let_def
      createMessageString_def heartbeatAckJson_def agentOnMessage_def dispatchAgent_def
      isHandledMessageType_def VALID_MESSAGE_TYPES_def split: option.splits)

theorem heartbeat_always_acknowledged_witness:
  "handleAgentHeartbeat (run exampleEvents) 7 (Some (JObj [(''deviceId'', JStr ''ghost'')])) 9
     = (run exampleEvents,
        [Send 7 \<lparr> msgType = ''agent:heartbeat:ack'', msgTimestamp = 9,
                   msgPayload = Some (JObj [(''success'', JBool True),
                                            (''timestamp'', JNum (Finite 9))]) \<rparr>])
   \<and> snd (handleAgentHeartbeat (run exampleEvents) 1 (Some (JObj [(''deviceId'', JStr ''pi-1'')])) 9)
     = [Send 1 \<lparr> msgType = ''agent:heartbeat:ack'', msgTimestamp = 9,
                   msgPayload = Some (JObj [(''success'', JBool True),
                                            (''timestamp'', JNum (Finite 9))]) \<rparr>]
   \<and> map (\<lambda>(k, c). a_lastHeartbeat c)
         (agentConnections (fst (handleAgentHeartbeat (run exampleEvents) 1
                                   (Some (JObj [(''deviceId'', JStr ''pi-1'')])) 9))) = [9, 4]
   \<and> handleAgentHeartbeat (run exampleEvents) 1 (Some (JObj [(''deviceId'', JStr [])])) 9
     = (run exampleEvents, [])
   \<and> agentOnMessage (run exampleEvents) 7 0
        (Inr (envelope ''agent:heartbeat'' (JObj [(''deviceId'', JStr ''ghost'')]))) 9
     = handleAgentHeartbeat (run exampleEvents) 7 (Some (JObj [(''deviceId'', JStr ''ghost'')])) 9"
proof -
  define st where "st = run exampleEvents"
  define m where "m = \<lparr> m_type = ''agent:heartbeat'', m_timestamp = 1,
                        m_payload = Some (JObj [(''deviceId'', JStr ''ghost'')]) \<rparr>"
  have pm: "parseMessage (Inr (envelope ''agent:heartbeat'' (JObj [(''deviceId'', JStr ''ghost'')])))
            = Inr m"
    unfolding m_def by code_simp
  have g: "mapGet ''ghost'' (agentConnections st) = None"
    unfolding st_def by code_simp
  have l: "map (\<lambda>(k, c). a_lastHeartbeat c)
         (agentConnections (fst (handleAgentHeartbeat st 1
                                   (Some (JObj [(''deviceId'', JStr ''pi-1'')])) 9))) = [9, 4]"
    unfolding st_def by code_simp
  note a = heartbeat_always_acknowledged[of "Some (JObj [(''deviceId'', JStr ''ghost'')])" st 7 9
      "Inr (envelope ''agent:heartbeat'' (JObj [(''deviceId'', JStr ''ghost'')]))" m 0]
  note b = heartbeat_always_acknowledged[of "Some (JObj [(''deviceId'', JStr ''pi-1'')])" st 1 9]
  note c = heartbeat_always_acknowledged[of "Some (JObj [(''deviceId'', JStr [])])" st 1 9]
  from a g have 1: "handleAgentHeartbeat st 7 (Some (JObj [(''deviceId'', JStr ''ghost'')])) 9
     = (st, [Send 7 \<lparr> msgType = ''agent:heartbeat:ack'', msgTimestamp = 9,
                   msgPayload = Some (JObj [(''success'', JBool True),
                                            (''timestamp'', JNum (Finite 9))]) \<rparr>])"
    by (simp add: prod_eq_iff)
  from b have 2: "snd (handleAgentHeartbeat st 1 (Some (JObj [(''deviceId'', JStr ''pi-1'')])) 9)
     = [Send 1 \<lparr> msgType = ''agent:heartbeat:ack'', msgTimestamp = 9,
                   msgPayload = Some (JObj [(''success'', JBool True),
                                            (''timestamp'', JNum (Finite 9))]) \<rparr>]"
    by simp
  from c have 3: "handleAgentHeartbeat st 1 (Some (JObj [(''deviceId'', JStr [])])) 9 = (st, [])"
    by simp
  from a pm have 4: "agentOnMessage st 7 0
        (Inr (envelope ''agent:heartbeat'' (JObj [(''deviceId'', JStr ''ghost'')]))) 9
     = handleAgentHeartbeat st 7 (Some (JObj [(''deviceId'', JStr ''ghost'')])) 9"
    by (simp add: m_def)
  from 1 2 3 4 l show ?thesis
    unfolding st_def by simp
qed

end
